theory Spec2Isabelle
  imports Main "HOL-Library.Word"
begin

unbundle bit_operations_syntax

section \<open>Data model of the callbacks in server/netconf\_server.c\<close>

subsection \<open>Return codes, change operations and data-tree nodes\<close>

text \<open>
  The sysrepo return codes the callbacks test or return. \<open>SR_ERR_OK\<close> is the enumerator 0,
  the only one for which the C test \<open>if (rc)\<close> is false.
\<close>

datatype sr_error =
    SR_ERR_OK | SR_ERR_INVAL_ARG | SR_ERR_LY | SR_ERR_SYS | SR_ERR_NOMEM
  | SR_ERR_NOT_FOUND | SR_ERR_EXISTS | SR_ERR_INTERNAL

datatype sr_change_oper = SR_OP_CREATED | SR_OP_MODIFIED | SR_OP_DELETED | SR_OP_MOVED

text \<open>
  A libyang data node as the callbacks read it: \<open>schema_name\<close> is \<open>node->schema->name\<close>;
  the members of the value union that the code reads (\<open>value_str\<close>, \<open>value.uint8\<close>,
  \<open>value.uint16\<close>, \<open>value.ident->name\<close>) are separate fields; \<open>parent\<close> is
  \<open>None\<close> for a NULL parent pointer; \<open>children\<close> is the sibling list that starts
  at \<open>node->child\<close>.
\<close>

datatype lyd_node = Lyd_node
  (schema_name: string)
  (value_str: string)
  (value_uint8: "8 word")
  (value_uint16: "16 word")
  (value_ident: string)
  (parent: "lyd_node option")
  (children: "lyd_node list")

text \<open>\<open>node->child\<close>: the first child, NULL when there is none.\<close>

definition child :: "lyd_node \<Rightarrow> lyd_node option" where
  "child n = (case children n of [] \<Rightarrow> None | c # _ \<Rightarrow> Some c)"

text \<open>
  \<open>ancestor k n\<close> follows \<open>k\<close> parent links; \<open>list_key k n\<close> is the C expression
  \<open>((struct lyd_node_leaf_list *)node->parent->...->parent->child)->value_str\<close> with
  \<open>k\<close> parent links. Both are \<open>None\<close> where the C code would dereference NULL.
\<close>

fun ancestor :: "nat \<Rightarrow> lyd_node \<Rightarrow> lyd_node option" where
  "ancestor 0 n = Some n"
| "ancestor (Suc k) n = (case parent n of None \<Rightarrow> None | Some p \<Rightarrow> ancestor k p)"

definition list_key :: "nat \<Rightarrow> lyd_node \<Rightarrow> string option" where
  "list_key k n =
     (case ancestor k n of
        None \<Rightarrow> None
      | Some a \<Rightarrow> (case child a of None \<Rightarrow> None | Some c \<Rightarrow> Some (value_str c)))"

text \<open>
  One result of \<open>sr_get_change_tree_next\<close>: the operation, the node and \<open>prev_val\<close>
  (\<open>None\<close> for NULL). The outputs \<open>prev_list\<close> and \<open>prev_dflt\<close> are never read.
\<close>

record change =
  oper :: sr_change_oper
  node :: lyd_node
  prev_val :: "string option"

text \<open>
  What the datastore delivers for one scoped path: the result of \<open>sr_get_changes_iter\<close>,
  the changes for which \<open>sr_get_change_tree_next\<close> returns \<open>SR_ERR_OK\<close>, and the first
  other code it returns (\<open>SR_ERR_NOT_FOUND\<close> when the iterator is exhausted).
\<close>

record change_iter =
  iter_rc :: sr_error
  iter_changes :: "change list"
  iter_end :: sr_error

type_synonym sr_session = "string \<Rightarrow> change_iter"

subsection \<open>The live-server interface\<close>

text \<open>
  The libnetconf2 functions the callbacks call, with their arguments. The transport
  argument is always \<open>NC_TI_LIBSSH\<close> and the dispatch callback always
  \<open>np2srv_new_session_cb\<close>; both are left out.
\<close>

datatype NC_CH_CONN_TYPE = NC_CH_PERSIST | NC_CH_PERIOD

datatype NC_CH_START_WITH = NC_CH_FIRST_LISTED | NC_CH_LAST_CONNECTED | NC_CH_RANDOM

datatype nc_call =
    nc_server_set_idle_timeout int
  | nc_server_add_endpt string
  | nc_server_del_endpt string
  | nc_server_endpt_set_address string string
  | nc_server_endpt_set_port string int
  | nc_server_endpt_enable_keepalives string int
  | nc_server_endpt_set_keepalives string int int int
  | nc_server_ssh_endpt_add_hostkey string string int
  | nc_server_ssh_endpt_del_hostkey string string int
  | nc_server_ssh_endpt_mov_hostkey string string "string option"
  | nc_server_ssh_endpt_get_auth_methods string
  | nc_server_ssh_endpt_set_auth_methods string int
  | nc_server_ssh_endpt_set_auth_timeout string int
  | nc_server_ssh_endpt_set_auth_attempts string int
  | nc_server_ch_add_client string
  | nc_server_ch_del_client string
  | nc_connect_ch_client_dispatch string
  | nc_server_ch_client_add_endpt string string
  | nc_server_ch_client_del_endpt string string
  | nc_server_ch_client_endpt_set_address string string string
  | nc_server_ch_client_endpt_set_port string string int
  | nc_server_ch_client_endpt_enable_keepalives string string int
  | nc_server_ch_client_endpt_set_keepalives string string int int int
  | nc_server_ssh_ch_client_endpt_add_hostkey string string string int
  | nc_server_ssh_ch_client_endpt_del_hostkey string string string int
  | nc_server_ssh_ch_client_endpt_mov_hostkey string string string "string option"
  | nc_server_ssh_ch_client_endpt_get_auth_methods string string
  | nc_server_ssh_ch_client_endpt_set_auth_methods string string int
  | nc_server_ssh_ch_client_endpt_set_auth_timeout string string int
  | nc_server_ssh_ch_client_endpt_set_auth_attempts string string int
  | nc_server_ch_client_set_conn_type string NC_CH_CONN_TYPE
  | nc_server_ch_client_periodic_set_period string int
  | nc_server_ch_client_periodic_set_anchor_time string int
  | nc_server_ch_client_periodic_set_idle_timeout string int
  | nc_server_ch_client_set_start_with string NC_CH_START_WITH
  | nc_server_ch_client_set_max_attempts string int

text \<open>
  The live server is a parameter: a function from a call and the live state to the
  call's return value and the new live state. Nothing is assumed about it.
\<close>

type_synonym 'st nc_server = "nc_call \<Rightarrow> 'st \<Rightarrow> int \<times> 'st"

subsection \<open>The world a callback runs in\<close>

text \<open>
  Every call a callback makes to a collaborator is appended to a trace, with the value
  the collaborator returned.
\<close>

datatype event =
    Sr_get_changes_iter string sr_error
  | Sr_free_change_iter string
  | Sr_session_start sr_error
  | Sr_session_stop
  | Lyd_free_withsiblings lyd_node
  | Nc nc_call int

text \<open>
  \<open>live\<close> is the live server's state; \<open>allocs\<close> lists the outcomes of the coming
  allocations (\<open>asprintf\<close>, \<open>strdup\<close>, \<open>strndup\<close>, \<open>lyd_new\<close>,
  \<open>lyd_new_leaf\<close>) in call order, \<open>False\<close> for a failure, and every allocation past
  the end of the list succeeds.
\<close>

record 'st world =
  live :: 'st
  allocs :: "bool list"
  trace :: "event list"

definition log :: "event \<Rightarrow> 'st world \<Rightarrow> 'st world" where
  "log e w = w\<lparr>trace := trace w @ [e]\<rparr>"

definition alloc :: "'st world \<Rightarrow> bool \<times> 'st world" where
  "alloc w = (case allocs w of [] \<Rightarrow> (True, w) | b # bs \<Rightarrow> (b, w\<lparr>allocs := bs\<rparr>))"

definition call :: "'st nc_server \<Rightarrow> nc_call \<Rightarrow> 'st world \<Rightarrow> int \<times> 'st world" where
  "call nc c w =
     (case nc c (live w) of
        (r, s) \<Rightarrow> (r, w\<lparr>live := s, trace := trace w @ [Nc c r]\<rparr>))"

text \<open>
  What stops a callback without a return: a NULL pointer dereference, a failed
  \<open>assert\<close>, a write past the end of a buffer, a call of the printf-style logger
  with fewer arguments than its format has conversions.
\<close>

datatype fault = Null_deref | Assert_failed | Buffer_overflow | Missing_argument

text \<open>
  The loop \<open>while ((rc = sr_get_change_tree_next(...)) == SR_ERR_OK) { body }\<close> over the
  delivered changes. The body answers \<open>Inl f\<close> for a fault, otherwise \<open>Inr (ret, s)\<close>
  where \<open>ret = Some rc\<close> is a \<open>return rc\<close> from inside the loop and \<open>ret = None\<close>
  lets the loop go on.
\<close>

fun changes_loop ::
  "(change \<Rightarrow> 's \<Rightarrow> fault + (sr_error option \<times> 's)) \<Rightarrow> change list \<Rightarrow> 's
     \<Rightarrow> fault + (sr_error option \<times> 's)" where
  "changes_loop body [] s = Inr (None, s)"
| "changes_loop body (c # cs) s =
     (case body c s of
        Inl f \<Rightarrow> Inl f
      | Inr (Some rc, s') \<Rightarrow> Inr (Some rc, s')
      | Inr (None, s') \<Rightarrow> changes_loop body cs s')"

text \<open>
  The frame every callback puts around its loop:
  \<^verbatim>\<open>
  rc = sr_get_changes_iter(session, xpath, &iter);
  if (rc != SR_ERR_OK) { return rc; }
  while (...) { body }
  sr_free_change_iter(iter);
  if (rc != SR_ERR_NOT_FOUND) { return rc; }
  return SR_ERR_OK;
  \<close>
  A \<open>return\<close> inside the body leaves the frame at once: whether the iterator was
  freed before it is the body's business.
\<close>

definition scan_changes ::
  "sr_session \<Rightarrow> string \<Rightarrow> (change \<Rightarrow> 'st world \<Rightarrow> fault + (sr_error option \<times> 'st world))
     \<Rightarrow> 'st world \<Rightarrow> fault + (sr_error \<times> 'st world)" where
  "scan_changes session xpath body w =
     (let it = session xpath; w1 = log (Sr_get_changes_iter xpath (iter_rc it)) w in
      if iter_rc it \<noteq> SR_ERR_OK then Inr (iter_rc it, w1)
      else (case changes_loop body (iter_changes it) w1 of
              Inl f \<Rightarrow> Inl f
            | Inr (Some rc, w2) \<Rightarrow> Inr (rc, w2)
            | Inr (None, w2) \<Rightarrow>
                if iter_end it \<noteq> SR_ERR_NOT_FOUND
                then Inr (iter_end it, log (Sr_free_change_iter xpath) w2)
                else Inr (SR_ERR_OK, log (Sr_free_change_iter xpath) w2)))"

text \<open>
  The same frame with the wildcard path built first:
  \<open>if (asprintf(&xpath2, "%s/*", xpath) == -1) return SR_ERR_NOMEM;\<close>
\<close>

definition scan_children ::
  "sr_session \<Rightarrow> string \<Rightarrow> (change \<Rightarrow> 'st world \<Rightarrow> fault + (sr_error option \<times> 'st world))
     \<Rightarrow> 'st world \<Rightarrow> fault + (sr_error \<times> 'st world)" where
  "scan_children session xpath body w =
     (case alloc w of
        (False, w1) \<Rightarrow> Inr (SR_ERR_NOMEM, w1)
      | (True, w1) \<Rightarrow> scan_changes session (xpath @ ''/*'') body w1)"

section \<open>The reconciliation callbacks\<close>

subsection \<open>np2srv\_idle\_timeout\_cb\<close>

definition idle_timeout_body ::
  "'st nc_server \<Rightarrow> change \<Rightarrow> 'st world \<Rightarrow> fault + (sr_error option \<times> 'st world)" where
  "idle_timeout_body nc c w =
     (if oper c = SR_OP_CREATED \<or> oper c = SR_OP_MODIFIED
      then Inr (None, snd (call nc (nc_server_set_idle_timeout (uint (value_uint16 (node c)))) w))
      else Inr (None, w))"

definition np2srv_idle_timeout_cb ::
  "'st nc_server \<Rightarrow> sr_session \<Rightarrow> string \<Rightarrow> 'st world \<Rightarrow> fault + (sr_error \<times> 'st world)" where
  "np2srv_idle_timeout_cb nc session xpath w = scan_changes session xpath (idle_timeout_body nc) w"

subsection \<open>np2srv\_endpt\_ssh\_cb\<close>

definition endpt_ssh_body ::
  "'st nc_server \<Rightarrow> string \<Rightarrow> change \<Rightarrow> 'st world \<Rightarrow> fault + (sr_error option \<times> 'st world)" where
  "endpt_ssh_body nc xpath c w =
     (case list_key 1 (node c) of
        None \<Rightarrow> Inl Null_deref
      | Some endpt_name \<Rightarrow>
          (case (if oper c = SR_OP_CREATED
                 then (case call nc (nc_server_add_endpt endpt_name) w of
                         (rc, w1) \<Rightarrow>
                           (rc, snd (call nc (nc_server_ssh_endpt_set_auth_methods endpt_name 0) w1)))
                 else if oper c = SR_OP_DELETED
                 then call nc (nc_server_del_endpt endpt_name) w
                 else (0, w)) of
             (rc, w2) \<Rightarrow>
               if rc \<noteq> 0
               then Inr (Some SR_ERR_INTERNAL, log (Sr_free_change_iter xpath) w2)
               else Inr (None, w2)))"

definition np2srv_endpt_ssh_cb ::
  "'st nc_server \<Rightarrow> sr_session \<Rightarrow> string \<Rightarrow> 'st world \<Rightarrow> fault + (sr_error \<times> 'st world)" where
  "np2srv_endpt_ssh_cb nc session xpath w = scan_changes session xpath (endpt_ssh_body nc xpath) w"

subsection \<open>np2srv\_tcp\_keepalives and np2srv\_endpt\_tcp\_params\_cb\<close>

text \<open>
  The loop of \<open>np2srv_tcp_keepalives\<close> only updates the three locals \<open>idle_time\<close>,
  \<open>max_probes\<close> and \<open>probe_interval\<close> (each starts at -1); the one call to the live
  server follows the loop.
\<close>

definition tcp_keepalives_step :: "(int \<times> int \<times> int) \<Rightarrow> change \<Rightarrow> (int \<times> int \<times> int)" where
  "tcp_keepalives_step s c =
     (case s of (idle_time, max_probes, probe_interval) \<Rightarrow>
        if schema_name (node c) = ''idle-time''
        then ((if oper c = SR_OP_DELETED then 1 else uint (value_uint16 (node c))),
              max_probes, probe_interval)
        else if schema_name (node c) = ''max-probes''
        then (idle_time, (if oper c = SR_OP_DELETED then 10 else uint (value_uint16 (node c))),
              probe_interval)
        else if schema_name (node c) = ''probe-interval''
        then (idle_time, max_probes,
              (if oper c = SR_OP_DELETED then 5 else uint (value_uint16 (node c))))
        else s)"

definition np2srv_tcp_keepalives ::
  "'st nc_server \<Rightarrow> string option \<Rightarrow> string \<Rightarrow> sr_session \<Rightarrow> string \<Rightarrow> 'st world
     \<Rightarrow> sr_error \<times> 'st world" where
  "np2srv_tcp_keepalives nc client_name endpt_name session xpath w =
     (let it = session xpath; w1 = log (Sr_get_changes_iter xpath (iter_rc it)) w in
      if iter_rc it \<noteq> SR_ERR_OK then (iter_rc it, w1)
      else
        (case foldl tcp_keepalives_step (-1, -1, -1) (iter_changes it) of
           (idle_time, max_probes, probe_interval) \<Rightarrow>
             let w2 = log (Sr_free_change_iter xpath) w1 in
             if iter_end it \<noteq> SR_ERR_NOT_FOUND then (iter_end it, w2)
             else
               (case (case client_name of
                        None \<Rightarrow>
                          call nc (nc_server_endpt_set_keepalives endpt_name
                                     idle_time max_probes probe_interval) w2
                      | Some cl \<Rightarrow>
                          call nc (nc_server_ch_client_endpt_set_keepalives cl endpt_name
                                     idle_time max_probes probe_interval) w2) of
                  (rc, w3) \<Rightarrow> if rc \<noteq> 0 then (SR_ERR_INTERNAL, w3) else (SR_ERR_OK, w3))))"

text \<open>
  \<open>xpath\<close> is the callback's own path; the iterator it frees was opened on
  \<open>xpath @ ''/*''\<close>. In the \<open>keepalives\<close> branch the \<open>return SR_ERR_NOMEM\<close> after the
  second \<open>asprintf\<close> comes without \<open>sr_free_change_iter\<close>.
\<close>

definition endpt_tcp_params_body ::
  "'st nc_server \<Rightarrow> sr_session \<Rightarrow> string \<Rightarrow> change \<Rightarrow> 'st world
     \<Rightarrow> fault + (sr_error option \<times> 'st world)" where
  "endpt_tcp_params_body nc session xpath c w =
     (case list_key 3 (node c) of
        None \<Rightarrow> Inl Null_deref
      | Some endpt_name \<Rightarrow>
          if schema_name (node c) = ''local-address'' then
            (if oper c = SR_OP_CREATED \<or> oper c = SR_OP_MODIFIED then
               (case call nc (nc_server_endpt_set_address endpt_name (value_str (node c))) w of
                  (r, w1) \<Rightarrow>
                    if r \<noteq> 0
                    then Inr (Some SR_ERR_INTERNAL, log (Sr_free_change_iter (xpath @ ''/*'')) w1)
                    else Inr (None, w1))
             else Inr (None, w))
          else if schema_name (node c) = ''local-port'' then
            (if oper c = SR_OP_CREATED \<or> oper c = SR_OP_MODIFIED then
               (case call nc (nc_server_endpt_set_port endpt_name (uint (value_uint16 (node c)))) w of
                  (r, w1) \<Rightarrow>
                    if r \<noteq> 0
                    then Inr (Some SR_ERR_INTERNAL, log (Sr_free_change_iter (xpath @ ''/*'')) w1)
                    else Inr (None, w1))
             else Inr (None, w))
          else if schema_name (node c) = ''keepalives'' then
            (case (if oper c = SR_OP_CREATED
                   then call nc (nc_server_endpt_enable_keepalives endpt_name 1) w
                   else if oper c = SR_OP_DELETED
                   then call nc (nc_server_endpt_enable_keepalives endpt_name 0) w
                   else (0, w)) of
               (rc, w1) \<Rightarrow>
                 if rc \<noteq> 0
                 then Inr (Some SR_ERR_INTERNAL, log (Sr_free_change_iter (xpath @ ''/*'')) w1)
                 else
                   (case alloc w1 of
                      (False, w2) \<Rightarrow> Inr (Some SR_ERR_NOMEM, w2)
                    | (True, w2) \<Rightarrow>
                        (case np2srv_tcp_keepalives nc None endpt_name session
                                (xpath @ ''/keepalives/*'') w2 of
                           (rc2, w3) \<Rightarrow>
                             if rc2 \<noteq> SR_ERR_OK
                             then Inr (Some rc2, log (Sr_free_change_iter (xpath @ ''/*'')) w3)
                             else Inr (None, w3))))
          else Inr (None, w))"

definition np2srv_endpt_tcp_params_cb ::
  "'st nc_server \<Rightarrow> sr_session \<Rightarrow> string \<Rightarrow> 'st world \<Rightarrow> fault + (sr_error \<times> 'st world)" where
  "np2srv_endpt_tcp_params_cb nc session xpath w =
     scan_children session xpath (endpt_tcp_params_body nc session xpath) w"

subsection \<open>np2srv\_endpt\_ssh\_hostkey\_cb\<close>

definition endpt_ssh_hostkey_body ::
  "'st nc_server \<Rightarrow> string \<Rightarrow> change \<Rightarrow> 'st world \<Rightarrow> fault + (sr_error option \<times> 'st world)" where
  "endpt_ssh_hostkey_body nc xpath c w =
     (case list_key 4 (node c) of
        None \<Rightarrow> Inl Null_deref
      | Some endpt_name \<Rightarrow>
          (case (if oper c = SR_OP_CREATED then
                   (case child (node c) of
                      None \<Rightarrow> Inl Null_deref
                    | Some k \<Rightarrow>
                        Inr (call nc (nc_server_ssh_endpt_add_hostkey endpt_name (value_str k) (- 1)) w))
                 else if oper c = SR_OP_DELETED then
                   (case child (node c) of
                      None \<Rightarrow> Inl Null_deref
                    | Some k \<Rightarrow>
                        Inr (call nc (nc_server_ssh_endpt_del_hostkey endpt_name (value_str k) (- 1)) w))
                 else if oper c = SR_OP_MOVED then
                   (case child (node c) of
                      None \<Rightarrow> Inl Null_deref
                    | Some k \<Rightarrow>
                        Inr (call nc (nc_server_ssh_endpt_mov_hostkey endpt_name (value_str k)
                                        (prev_val c)) w))
                 else Inr (0, w)) of
             Inl f \<Rightarrow> Inl f
           | Inr (rc, w1) \<Rightarrow>
               if rc \<noteq> 0
               then Inr (Some SR_ERR_INTERNAL, log (Sr_free_change_iter xpath) w1)
               else Inr (None, w1)))"

definition np2srv_endpt_ssh_hostkey_cb ::
  "'st nc_server \<Rightarrow> sr_session \<Rightarrow> string \<Rightarrow> 'st world \<Rightarrow> fault + (sr_error \<times> 'st world)" where
  "np2srv_endpt_ssh_hostkey_cb nc session xpath w =
     scan_changes session xpath (endpt_ssh_hostkey_body nc xpath) w"

subsection \<open>np2srv\_ssh\_update\_auth\_method and np2srv\_endpt\_ssh\_auth\_methods\_cb\<close>

text \<open>
  Modelled from the spec: the header that defines \<open>NC_SSH_AUTH_PUBLICKEY\<close>,
  \<open>NC_SSH_AUTH_PASSWORD\<close> and \<open>NC_SSH_AUTH_INTERACTIVE\<close> is not under src/; the spec
  has them as three different bits of the mask.
\<close>

definition NC_SSH_AUTH_PUBLICKEY :: int where "NC_SSH_AUTH_PUBLICKEY = 1"
definition NC_SSH_AUTH_PASSWORD :: int where "NC_SSH_AUTH_PASSWORD = 2"
definition NC_SSH_AUTH_INTERACTIVE :: int where "NC_SSH_AUTH_INTERACTIVE = 4"

definition np2srv_ssh_update_auth_method :: "lyd_node \<Rightarrow> sr_change_oper \<Rightarrow> int \<Rightarrow> int" where
  "np2srv_ssh_update_auth_method n opr cur_auth =
     (if schema_name n = ''publickey'' then
        (if opr = SR_OP_CREATED then cur_auth OR NC_SSH_AUTH_PUBLICKEY
         else if opr = SR_OP_DELETED then cur_auth AND NOT NC_SSH_AUTH_PUBLICKEY
         else cur_auth)
      else if schema_name n = ''passsword'' then
        (if opr = SR_OP_CREATED then cur_auth OR NC_SSH_AUTH_PASSWORD
         else if opr = SR_OP_DELETED then cur_auth AND NOT NC_SSH_AUTH_PASSWORD
         else cur_auth)
      else if schema_name n = ''hostbased'' \<or> schema_name n = ''none'' then cur_auth
      else if schema_name n = ''other'' then
        (if value_str n = ''interactive'' then
           (if opr = SR_OP_CREATED then cur_auth OR NC_SSH_AUTH_INTERACTIVE
            else if opr = SR_OP_DELETED then cur_auth AND NOT NC_SSH_AUTH_INTERACTIVE
            else cur_auth)
         else cur_auth)
      else cur_auth)"

definition endpt_ssh_auth_methods_body ::
  "'st nc_server \<Rightarrow> string \<Rightarrow> change \<Rightarrow> 'st world \<Rightarrow> fault + (sr_error option \<times> 'st world)" where
  "endpt_ssh_auth_methods_body nc xpath c w =
     (case list_key 5 (node c) of
        None \<Rightarrow> Inl Null_deref
      | Some endpt_name \<Rightarrow>
          (case call nc (nc_server_ssh_endpt_get_auth_methods endpt_name) w of
             (auth, w1) \<Rightarrow>
               (case call nc (nc_server_ssh_endpt_set_auth_methods endpt_name
                                (np2srv_ssh_update_auth_method (node c) (oper c) auth)) w1 of
                  (r, w2) \<Rightarrow>
                    if r \<noteq> 0
                    then Inr (Some SR_ERR_INTERNAL, log (Sr_free_change_iter (xpath @ ''/*'')) w2)
                    else Inr (None, w2))))"

definition np2srv_endpt_ssh_auth_methods_cb ::
  "'st nc_server \<Rightarrow> sr_session \<Rightarrow> string \<Rightarrow> 'st world \<Rightarrow> fault + (sr_error \<times> 'st world)" where
  "np2srv_endpt_ssh_auth_methods_cb nc session xpath w =
     scan_children session xpath (endpt_ssh_auth_methods_body nc xpath) w"

subsection \<open>np2srv\_endpt\_ssh\_keepalives\_cb\<close>

definition endpt_ssh_keepalives_body ::
  "'st nc_server \<Rightarrow> string \<Rightarrow> change \<Rightarrow> 'st world \<Rightarrow> fault + (sr_error option \<times> 'st world)" where
  "endpt_ssh_keepalives_body nc xpath c w =
     (case list_key 4 (node c) of
        None \<Rightarrow> Inl Null_deref
      | Some endpt_name \<Rightarrow>
          (case (if schema_name (node c) = ''max-wait'' then
                   (if oper c = SR_OP_DELETED
                    then call nc (nc_server_ssh_endpt_set_auth_timeout endpt_name 30) w
                    else call nc (nc_server_ssh_endpt_set_auth_timeout endpt_name
                                    (uint (value_uint16 (node c)))) w)
                 else if schema_name (node c) = ''max-attempts'' then
                   (if oper c = SR_OP_DELETED
                    then call nc (nc_server_ssh_endpt_set_auth_attempts endpt_name 3) w
                    else call nc (nc_server_ssh_endpt_set_auth_attempts endpt_name
                                    (uint (value_uint8 (node c)))) w)
                 else (0, w)) of
             (rc, w1) \<Rightarrow>
               if rc \<noteq> 0
               then Inr (Some SR_ERR_INTERNAL, log (Sr_free_change_iter (xpath @ ''/*'')) w1)
               else Inr (None, w1)))"

definition np2srv_endpt_ssh_keepalives_cb ::
  "'st nc_server \<Rightarrow> sr_session \<Rightarrow> string \<Rightarrow> 'st world \<Rightarrow> fault + (sr_error \<times> 'st world)" where
  "np2srv_endpt_ssh_keepalives_cb nc session xpath w =
     scan_children session xpath (endpt_ssh_keepalives_body nc xpath) w"

subsection \<open>np2srv\_ch\_client\_cb and np2srv\_ch\_client\_endpt\_ssh\_cb\<close>

definition ch_client_body ::
  "'st nc_server \<Rightarrow> string \<Rightarrow> change \<Rightarrow> 'st world \<Rightarrow> fault + (sr_error option \<times> 'st world)" where
  "ch_client_body nc xpath c w =
     (case child (node c) of
        None \<Rightarrow> Inl Null_deref
      | Some k \<Rightarrow>
          (case (if oper c = SR_OP_CREATED
                 then (case call nc (nc_server_ch_add_client (value_str k)) w of
                         (rc, w1) \<Rightarrow>
                           if rc = 0 then call nc (nc_connect_ch_client_dispatch (value_str k)) w1
                           else (rc, w1))
                 else if oper c = SR_OP_DELETED
                 then call nc (nc_server_ch_del_client (value_str k)) w
                 else (0, w)) of
             (rc, w2) \<Rightarrow>
               if rc \<noteq> 0
               then Inr (Some SR_ERR_INTERNAL, log (Sr_free_change_iter xpath) w2)
               else Inr (None, w2)))"

definition np2srv_ch_client_cb ::
  "'st nc_server \<Rightarrow> sr_session \<Rightarrow> string \<Rightarrow> 'st world \<Rightarrow> fault + (sr_error \<times> 'st world)" where
  "np2srv_ch_client_cb nc session xpath w = scan_changes session xpath (ch_client_body nc xpath) w"

definition ch_client_endpt_ssh_body ::
  "'st nc_server \<Rightarrow> string \<Rightarrow> change \<Rightarrow> 'st world \<Rightarrow> fault + (sr_error option \<times> 'st world)" where
  "ch_client_endpt_ssh_body nc xpath c w =
     (case list_key 1 (node c) of
        None \<Rightarrow> Inl Null_deref
      | Some endpt_name \<Rightarrow>
     (case list_key 3 (node c) of
        None \<Rightarrow> Inl Null_deref
      | Some client_name \<Rightarrow>
          (case (if oper c = SR_OP_CREATED
                 then (case call nc (nc_server_ch_client_add_endpt client_name endpt_name) w of
                         (rc, w1) \<Rightarrow>
                           (rc, snd (call nc (nc_server_ssh_ch_client_endpt_set_auth_methods
                                                client_name endpt_name 0) w1)))
                 else if oper c = SR_OP_DELETED
                 then call nc (nc_server_ch_client_del_endpt client_name endpt_name) w
                 else (0, w)) of
             (rc, w2) \<Rightarrow>
               if rc \<noteq> 0
               then Inr (Some SR_ERR_INTERNAL, log (Sr_free_change_iter xpath) w2)
               else Inr (None, w2))))"

definition np2srv_ch_client_endpt_ssh_cb ::
  "'st nc_server \<Rightarrow> sr_session \<Rightarrow> string \<Rightarrow> 'st world \<Rightarrow> fault + (sr_error \<times> 'st world)" where
  "np2srv_ch_client_endpt_ssh_cb nc session xpath w =
     scan_changes session xpath (ch_client_endpt_ssh_body nc xpath) w"

subsection \<open>np2srv\_ch\_client\_endpt\_tcp\_params\_cb\<close>

definition ch_client_endpt_tcp_params_body ::
  "'st nc_server \<Rightarrow> sr_session \<Rightarrow> string \<Rightarrow> change \<Rightarrow> 'st world
     \<Rightarrow> fault + (sr_error option \<times> 'st world)" where
  "ch_client_endpt_tcp_params_body nc session xpath c w =
     (case list_key 3 (node c) of
        None \<Rightarrow> Inl Null_deref
      | Some endpt_name \<Rightarrow>
     (case list_key 5 (node c) of
        None \<Rightarrow> Inl Null_deref
      | Some client_name \<Rightarrow>
          if schema_name (node c) = ''remote-address'' then
            (if oper c = SR_OP_CREATED \<or> oper c = SR_OP_MODIFIED then
               (case call nc (nc_server_ch_client_endpt_set_address client_name endpt_name
                                (value_str (node c))) w of
                  (r, w1) \<Rightarrow>
                    if r \<noteq> 0
                    then Inr (Some SR_ERR_INTERNAL, log (Sr_free_change_iter (xpath @ ''/*'')) w1)
                    else Inr (None, w1))
             else Inr (None, w))
          else if schema_name (node c) = ''remote-port'' then
            (if oper c = SR_OP_CREATED \<or> oper c = SR_OP_MODIFIED then
               (case call nc (nc_server_ch_client_endpt_set_port client_name endpt_name
                                (uint (value_uint16 (node c)))) w of
                  (r, w1) \<Rightarrow>
                    if r \<noteq> 0
                    then Inr (Some SR_ERR_INTERNAL, log (Sr_free_change_iter (xpath @ ''/*'')) w1)
                    else Inr (None, w1))
             else Inr (None, w))
          else if schema_name (node c) = ''keepalives'' then
            (case (if oper c = SR_OP_CREATED
                   then call nc (nc_server_ch_client_endpt_enable_keepalives client_name endpt_name 1) w
                   else if oper c = SR_OP_DELETED
                   then call nc (nc_server_ch_client_endpt_enable_keepalives client_name endpt_name 0) w
                   else (0, w)) of
               (rc, w1) \<Rightarrow>
                 if rc \<noteq> 0
                 then Inr (Some SR_ERR_INTERNAL, log (Sr_free_change_iter (xpath @ ''/*'')) w1)
                 else
                   (case alloc w1 of
                      (False, w2) \<Rightarrow> Inr (Some SR_ERR_NOMEM, w2)
                    | (True, w2) \<Rightarrow>
                        (case np2srv_tcp_keepalives nc (Some client_name) endpt_name session
                                (xpath @ ''/keepalives/*'') w2 of
                           (rc2, w3) \<Rightarrow>
                             if rc2 \<noteq> SR_ERR_OK
                             then Inr (Some rc2, log (Sr_free_change_iter (xpath @ ''/*'')) w3)
                             else Inr (None, w3))))
          else Inr (None, w)))"

definition np2srv_ch_client_endpt_tcp_params_cb ::
  "'st nc_server \<Rightarrow> sr_session \<Rightarrow> string \<Rightarrow> 'st world \<Rightarrow> fault + (sr_error \<times> 'st world)" where
  "np2srv_ch_client_endpt_tcp_params_cb nc session xpath w =
     scan_children session xpath (ch_client_endpt_tcp_params_body nc session xpath) w"

subsection \<open>np2srv\_ch\_endpt\_ssh\_hostkey\_cb\<close>

definition ch_endpt_ssh_hostkey_body ::
  "'st nc_server \<Rightarrow> string \<Rightarrow> change \<Rightarrow> 'st world \<Rightarrow> fault + (sr_error option \<times> 'st world)" where
  "ch_endpt_ssh_hostkey_body nc xpath c w =
     (case list_key 4 (node c) of
        None \<Rightarrow> Inl Null_deref
      | Some endpt_name \<Rightarrow>
     (case list_key 6 (node c) of
        None \<Rightarrow> Inl Null_deref
      | Some client_name \<Rightarrow>
          (case (if oper c = SR_OP_CREATED then
                   (case child (node c) of
                      None \<Rightarrow> Inl Null_deref
                    | Some k \<Rightarrow>
                        Inr (call nc (nc_server_ssh_ch_client_endpt_add_hostkey client_name endpt_name
                                        (value_str k) (- 1)) w))
                 else if oper c = SR_OP_DELETED then
                   (case child (node c) of
                      None \<Rightarrow> Inl Null_deref
                    | Some k \<Rightarrow>
                        Inr (call nc (nc_server_ssh_ch_client_endpt_del_hostkey client_name endpt_name
                                        (value_str k) (- 1)) w))
                 else if oper c = SR_OP_MOVED then
                   (case child (node c) of
                      None \<Rightarrow> Inl Null_deref
                    | Some k \<Rightarrow>
                        Inr (call nc (nc_server_ssh_ch_client_endpt_mov_hostkey client_name endpt_name
                                        (value_str k) (prev_val c)) w))
                 else Inr (0, w)) of
             Inl f \<Rightarrow> Inl f
           | Inr (rc, w1) \<Rightarrow>
               if rc \<noteq> 0
               then Inr (Some SR_ERR_INTERNAL, log (Sr_free_change_iter xpath) w1)
               else Inr (None, w1))))"

definition np2srv_ch_endpt_ssh_hostkey_cb ::
  "'st nc_server \<Rightarrow> sr_session \<Rightarrow> string \<Rightarrow> 'st world \<Rightarrow> fault + (sr_error \<times> 'st world)" where
  "np2srv_ch_endpt_ssh_hostkey_cb nc session xpath w =
     scan_changes session xpath (ch_endpt_ssh_hostkey_body nc xpath) w"

subsection \<open>np2srv\_ch\_endpt\_ssh\_auth\_methods\_cb and np2srv\_ch\_endpt\_ssh\_keepalives\_cb\<close>

definition ch_endpt_ssh_auth_methods_body ::
  "'st nc_server \<Rightarrow> string \<Rightarrow> change \<Rightarrow> 'st world \<Rightarrow> fault + (sr_error option \<times> 'st world)" where
  "ch_endpt_ssh_auth_methods_body nc xpath c w =
     (case list_key 5 (node c) of
        None \<Rightarrow> Inl Null_deref
      | Some endpt_name \<Rightarrow>
     (case list_key 7 (node c) of
        None \<Rightarrow> Inl Null_deref
      | Some client_name \<Rightarrow>
          (case call nc (nc_server_ssh_ch_client_endpt_get_auth_methods client_name endpt_name) w of
             (auth, w1) \<Rightarrow>
               (case call nc (nc_server_ssh_ch_client_endpt_set_auth_methods client_name endpt_name
                                (np2srv_ssh_update_auth_method (node c) (oper c) auth)) w1 of
                  (r, w2) \<Rightarrow>
                    if r \<noteq> 0
                    then Inr (Some SR_ERR_INTERNAL, log (Sr_free_change_iter (xpath @ ''/*'')) w2)
                    else Inr (None, w2)))))"

definition np2srv_ch_endpt_ssh_auth_methods_cb ::
  "'st nc_server \<Rightarrow> sr_session \<Rightarrow> string \<Rightarrow> 'st world \<Rightarrow> fault + (sr_error \<times> 'st world)" where
  "np2srv_ch_endpt_ssh_auth_methods_cb nc session xpath w =
     scan_children session xpath (ch_endpt_ssh_auth_methods_body nc xpath) w"

definition ch_endpt_ssh_keepalives_body ::
  "'st nc_server \<Rightarrow> string \<Rightarrow> change \<Rightarrow> 'st world \<Rightarrow> fault + (sr_error option \<times> 'st world)" where
  "ch_endpt_ssh_keepalives_body nc xpath c w =
     (case list_key 4 (node c) of
        None \<Rightarrow> Inl Null_deref
      | Some endpt_name \<Rightarrow>
     (case list_key 6 (node c) of
        None \<Rightarrow> Inl Null_deref
      | Some client_name \<Rightarrow>
          (case (if schema_name (node c) = ''max-wait'' then
                   (if oper c = SR_OP_DELETED
                    then call nc (nc_server_ssh_ch_client_endpt_set_auth_timeout client_name
                                    endpt_name 30) w
                    else call nc (nc_server_ssh_ch_client_endpt_set_auth_timeout client_name
                                    endpt_name (uint (value_uint16 (node c)))) w)
                 else if schema_name (node c) = ''max-attempts'' then
                   (if oper c = SR_OP_DELETED
                    then call nc (nc_server_ssh_ch_client_endpt_set_auth_attempts client_name
                                    endpt_name 3) w
                    else call nc (nc_server_ssh_ch_client_endpt_set_auth_attempts client_name
                                    endpt_name (uint (value_uint8 (node c)))) w)
                 else (0, w)) of
             (rc, w1) \<Rightarrow>
               if rc \<noteq> 0
               then Inr (Some SR_ERR_INTERNAL, log (Sr_free_change_iter (xpath @ ''/*'')) w1)
               else Inr (None, w1))))"

definition np2srv_ch_endpt_ssh_keepalives_cb ::
  "'st nc_server \<Rightarrow> sr_session \<Rightarrow> string \<Rightarrow> 'st world \<Rightarrow> fault + (sr_error \<times> 'st world)" where
  "np2srv_ch_endpt_ssh_keepalives_cb nc session xpath w =
     scan_children session xpath (ch_endpt_ssh_keepalives_body nc xpath) w"

subsection \<open>np2srv\_ch\_periodic\_connection\_params and np2srv\_ch\_connection\_type\_cb\<close>

text \<open>
  \<open>nc_datetime2time\<close>, which turns the \<open>anchor-time\<close> string into a \<open>time_t\<close>, is a
  library function and a parameter here. The code reads the string as \<open>value.string\<close>,
  which for a string leaf is the text in \<open>value_str\<close>.
\<close>

definition ch_periodic_body ::
  "'st nc_server \<Rightarrow> (string \<Rightarrow> int) \<Rightarrow> string \<Rightarrow> string \<Rightarrow> change \<Rightarrow> 'st world
     \<Rightarrow> fault + (sr_error option \<times> 'st world)" where
  "ch_periodic_body nc nc_datetime2time client_name xpath c w =
     (case (if schema_name (node c) = ''period'' then
              (if oper c = SR_OP_DELETED
               then call nc (nc_server_ch_client_periodic_set_period client_name 60) w
               else call nc (nc_server_ch_client_periodic_set_period client_name
                               (uint (value_uint16 (node c)))) w)
            else if schema_name (node c) = ''anchor-time'' then
              (if oper c = SR_OP_DELETED
               then call nc (nc_server_ch_client_periodic_set_anchor_time client_name 0) w
               else call nc (nc_server_ch_client_periodic_set_anchor_time client_name
                               (nc_datetime2time (value_str (node c)))) w)
            else if schema_name (node c) = ''idle-timeout'' then
              (if oper c = SR_OP_DELETED
               then call nc (nc_server_ch_client_periodic_set_idle_timeout client_name 120) w
               else call nc (nc_server_ch_client_periodic_set_idle_timeout client_name
                               (uint (value_uint16 (node c)))) w)
            else (0, w)) of
        (rc, w1) \<Rightarrow>
          if rc \<noteq> 0
          then Inr (Some SR_ERR_INTERNAL, log (Sr_free_change_iter xpath) w1)
          else Inr (None, w1))"

definition np2srv_ch_periodic_connection_params ::
  "'st nc_server \<Rightarrow> (string \<Rightarrow> int) \<Rightarrow> string \<Rightarrow> sr_session \<Rightarrow> string \<Rightarrow> 'st world
     \<Rightarrow> fault + (sr_error \<times> 'st world)" where
  "np2srv_ch_periodic_connection_params nc nc_datetime2time client_name session xpath w =
     scan_changes session xpath (ch_periodic_body nc nc_datetime2time client_name xpath) w"

text \<open>
  In the \<open>SR_OP_MODIFIED\<close> branch both returns (after the second \<open>asprintf\<close> and after
  the nested scan) come without \<open>sr_free_change_iter\<close>.
\<close>

definition ch_connection_type_body ::
  "'st nc_server \<Rightarrow> (string \<Rightarrow> int) \<Rightarrow> sr_session \<Rightarrow> string \<Rightarrow> change \<Rightarrow> 'st world
     \<Rightarrow> fault + (sr_error option \<times> 'st world)" where
  "ch_connection_type_body nc nc_datetime2time session xpath c w =
     (case list_key 2 (node c) of
        None \<Rightarrow> Inl Null_deref
      | Some client_name \<Rightarrow>
          if oper c = SR_OP_CREATED then
            (if schema_name (node c) = ''persistent'' then
               (case call nc (nc_server_ch_client_set_conn_type client_name NC_CH_PERSIST) w of
                  (r, w1) \<Rightarrow>
                    if r \<noteq> 0
                    then Inr (Some SR_ERR_INTERNAL, log (Sr_free_change_iter (xpath @ ''/*'')) w1)
                    else Inr (None, w1))
             else if schema_name (node c) = ''periodic'' then
               (case call nc (nc_server_ch_client_set_conn_type client_name NC_CH_PERIOD) w of
                  (r, w1) \<Rightarrow>
                    if r \<noteq> 0
                    then Inr (Some SR_ERR_INTERNAL, log (Sr_free_change_iter (xpath @ ''/*'')) w1)
                    else Inr (None, w1))
             else Inr (None, w))
          else if oper c = SR_OP_MODIFIED then
            (if schema_name (node c) \<noteq> ''periodic'' then Inl Assert_failed
             else
               (case alloc w of
                  (False, w1) \<Rightarrow> Inr (Some SR_ERR_NOMEM, w1)
                | (True, w1) \<Rightarrow>
                    (case np2srv_ch_periodic_connection_params nc nc_datetime2time client_name
                            session (xpath @ ''/periodic/*'') w1 of
                       Inl f \<Rightarrow> Inl f
                     | Inr (rc, w2) \<Rightarrow>
                         if rc \<noteq> SR_ERR_OK then Inr (Some rc, w2) else Inr (None, w2))))
          else Inr (None, w))"

definition np2srv_ch_connection_type_cb ::
  "'st nc_server \<Rightarrow> (string \<Rightarrow> int) \<Rightarrow> sr_session \<Rightarrow> string \<Rightarrow> 'st world
     \<Rightarrow> fault + (sr_error \<times> 'st world)" where
  "np2srv_ch_connection_type_cb nc nc_datetime2time session xpath w =
     scan_children session xpath (ch_connection_type_body nc nc_datetime2time session xpath) w"

subsection \<open>np2srv\_ch\_reconnect\_strategy\_cb\<close>

definition ch_reconnect_strategy_body ::
  "'st nc_server \<Rightarrow> string \<Rightarrow> change \<Rightarrow> 'st world \<Rightarrow> fault + (sr_error option \<times> 'st world)" where
  "ch_reconnect_strategy_body nc xpath c w =
     (case list_key 2 (node c) of
        None \<Rightarrow> Inl Null_deref
      | Some client_name \<Rightarrow>
          (case (if schema_name (node c) = ''start-with'' then
                   (if oper c = SR_OP_DELETED
                    then call nc (nc_server_ch_client_set_start_with client_name NC_CH_FIRST_LISTED) w
                    else if value_str (node c) = ''first-listed''
                    then call nc (nc_server_ch_client_set_start_with client_name NC_CH_FIRST_LISTED) w
                    else if value_str (node c) = ''last-connected''
                    then call nc (nc_server_ch_client_set_start_with client_name NC_CH_LAST_CONNECTED) w
                    else if value_str (node c) = ''random-selection''
                    then call nc (nc_server_ch_client_set_start_with client_name NC_CH_RANDOM) w
                    else (0, w))
                 else if schema_name (node c) = ''max-attempts'' then
                   (if oper c = SR_OP_DELETED
                    then call nc (nc_server_ch_client_set_max_attempts client_name 3) w
                    else call nc (nc_server_ch_client_set_max_attempts client_name
                                    (uint (value_uint8 (node c)))) w)
                 else (0, w)) of
             (rc, w1) \<Rightarrow>
               if rc \<noteq> 0
               then Inr (Some SR_ERR_INTERNAL, log (Sr_free_change_iter (xpath @ ''/*'')) w1)
               else Inr (None, w1)))"

definition np2srv_ch_reconnect_strategy_cb ::
  "'st nc_server \<Rightarrow> sr_session \<Rightarrow> string \<Rightarrow> 'st world \<Rightarrow> fault + (sr_error \<times> 'st world)" where
  "np2srv_ch_reconnect_strategy_cb nc session xpath w =
     scan_children session xpath (ch_reconnect_strategy_body nc xpath) w"

section \<open>The callbacks of the transport\<close>

subsection \<open>np2srv\_hostkey\_cb\<close>

datatype NC_SSH_KEY_TYPE = NC_SSH_KEY_UNKNOWN | NC_SSH_KEY_DSA | NC_SSH_KEY_RSA | NC_SSH_KEY_ECDSA

text \<open>
  The operational datastore as the callback meets it: the result of
  \<open>sr_session_start\<close>, and for a path the result of \<open>sr_get_subtree\<close> with the value
  of \<open>data\<close> after the call (\<open>None\<close> for NULL, which \<open>data\<close> was before the call).
\<close>

record sr_datastore =
  session_start_rc :: sr_error
  get_subtree :: "string \<Rightarrow> sr_error \<times> lyd_node option"

text \<open>
  The return value and the two output parameters; \<open>None\<close> is an output that was not
  written, or, for the key data, written as NULL.
\<close>

record hostkey_result =
  hk_rc :: int
  hk_privkey_type :: "NC_SSH_KEY_TYPE option"
  hk_privkey_data :: "string option"

definition hostkey_xpath :: "string \<Rightarrow> string" where
  "hostkey_xpath name =
     ''/ietf-netconf-server:netconf-server//endpoint/ssh/ssh-server-parameters/''
     @ ''server-identity/host-key[name='' @ [CHR 0x27] @ name @ [CHR 0x27]
     @ '']/public-key/local-definition''"

text \<open>\<open>while (data->parent) data = data->parent;\<close> on a node that is not NULL.\<close>

fun doc_root :: "lyd_node \<Rightarrow> lyd_node" where
  "doc_root (Lyd_node nm vs v8 v16 vi None cs) = Lyd_node nm vs v8 v16 vi None cs"
| "doc_root (Lyd_node nm vs v8 v16 vi (Some p) cs) = doc_root p"

text \<open>
  The code from the label \<open>cleanup\<close> on. Its first step reads \<open>data->parent\<close>, whatever
  \<open>data\<close> is.
\<close>

definition hostkey_cleanup ::
  "lyd_node option \<Rightarrow> hostkey_result \<Rightarrow> 'st world \<Rightarrow> fault + (hostkey_result \<times> 'st world)" where
  "hostkey_cleanup data res w =
     (case data of
        None \<Rightarrow> Inl Null_deref
      | Some d \<Rightarrow>
          Inr (res, log Sr_session_stop (log (Lyd_free_withsiblings (doc_root d)) w)))"

text \<open>One step of \<open>LY_TREE_FOR(data->child, node)\<close> on the pair \<open>(alg, privkey)\<close>.\<close>

definition hostkey_leaf ::
  "(lyd_node option \<times> lyd_node option) \<Rightarrow> lyd_node \<Rightarrow> (lyd_node option \<times> lyd_node option)" where
  "hostkey_leaf s n =
     (if schema_name n = ''algorithm'' then (Some n, snd s)
      else if schema_name n = ''private-key'' then (fst s, Some n)
      else s)"

definition np2srv_hostkey_cb ::
  "sr_datastore \<Rightarrow> string \<Rightarrow> 'st world \<Rightarrow> fault + (hostkey_result \<times> 'st world)" where
  "np2srv_hostkey_cb ds name w =
     (let w0 = log (Sr_session_start (session_start_rc ds)) w;
          failed = \<lparr>hk_rc = - 1, hk_privkey_type = None, hk_privkey_data = None\<rparr> in
      if session_start_rc ds \<noteq> SR_ERR_OK then Inr (failed, w0)
      else
        (case alloc w0 of
           (False, w1) \<Rightarrow> hostkey_cleanup None failed w1
         | (True, w1) \<Rightarrow>
             (case get_subtree ds (hostkey_xpath name) of
                (r, data) \<Rightarrow>
                  if r \<noteq> SR_ERR_OK then hostkey_cleanup data failed w1
                  else
                    (case data of
                       None \<Rightarrow> hostkey_cleanup data failed w1
                     | Some d \<Rightarrow>
                         (case foldl hostkey_leaf (None, None) (children d) of
                            (Some alg, Some privkey) \<Rightarrow>
                              if take 3 (value_ident alg) = ''rsa'' then
                                (case alloc w1 of
                                   (False, w2) \<Rightarrow>
                                     hostkey_cleanup data
                                       (failed\<lparr>hk_privkey_type := Some NC_SSH_KEY_RSA\<rparr>) w2
                                 | (True, w2) \<Rightarrow>
                                     hostkey_cleanup data
                                       \<lparr>hk_rc = 0, hk_privkey_type = Some NC_SSH_KEY_RSA,
                                        hk_privkey_data = Some (value_str privkey)\<rparr> w2)
                              else if take 4 (value_ident alg) = ''secp'' then
                                (case alloc w1 of
                                   (False, w2) \<Rightarrow>
                                     hostkey_cleanup data
                                       (failed\<lparr>hk_privkey_type := Some NC_SSH_KEY_ECDSA\<rparr>) w2
                                 | (True, w2) \<Rightarrow>
                                     hostkey_cleanup data
                                       \<lparr>hk_rc = 0, hk_privkey_type = Some NC_SSH_KEY_ECDSA,
                                        hk_privkey_data = Some (value_str privkey)\<rparr> w2)
                              else hostkey_cleanup data failed w1
                          | _ \<Rightarrow> hostkey_cleanup data failed w1)))))"

subsection \<open>np2srv\_pubkey\_auth\_cb\<close>

record passwd =
  pw_name :: string
  pw_dir :: string

text \<open>
  Modelled from the spec: libssh's key type and \<open>ssh_key_cmp\<close> are not under src/.
  A key has public material and may have private material; \<open>ssh_key_cmp\<close> with
  \<open>SSH_KEY_CMP_PUBLIC\<close> is 0 exactly when the public material of the two keys is
  equal byte for byte.
\<close>

record ssh_key =
  key_public :: string
  key_private :: "string option"

definition ssh_key_cmp_public :: "ssh_key \<Rightarrow> ssh_key \<Rightarrow> int" where
  "ssh_key_cmp_public k1 k2 = (if key_public k1 = key_public k2 then 0 else 1)"

text \<open>
  \<open>getpwnam\<close> and \<open>ssh_pki_import_pubkey_file\<close> are parameters; the import answers
  \<open>Inl ret\<close> with \<open>ret\<close> other than \<open>SSH_OK\<close>, or \<open>Inr pub_key\<close>. \<open>username\<close> is
  what \<open>nc_session_get_username\<close> returns.
\<close>

definition np2srv_pubkey_auth_cb ::
  "(string \<Rightarrow> passwd option) \<Rightarrow> (string \<Rightarrow> int + ssh_key) \<Rightarrow> string \<Rightarrow> ssh_key \<Rightarrow> 'st world
     \<Rightarrow> int \<times> 'st world" where
  "np2srv_pubkey_auth_cb getpwnam ssh_pki_import_pubkey_file username key w =
     (case getpwnam username of
        None \<Rightarrow> (1, w)
      | Some pwd \<Rightarrow>
          (case alloc w of
             (False, w1) \<Rightarrow> (1, w1)
           | (True, w1) \<Rightarrow>
               (case ssh_pki_import_pubkey_file (pw_dir pwd @ ''/.ssh/authorized_keys'') of
                  Inl ret \<Rightarrow> (1, w1)
                | Inr pub_key \<Rightarrow>
                    if ssh_key_cmp_public key pub_key = 0 then (0, w1) else (1, w1))))"

text \<open>
  Modelled from the spec: \<open>ssh_pki_import_pubkey_file\<close> is not under src/. By the spec
  it imports only the first key found in the file. A key file is the list of the keys
  it holds, \<open>None\<close> when it cannot be read; the two failure codes are libssh's
  \<open>SSH_ERROR\<close> and \<open>SSH_EOF\<close>.
\<close>

definition import_first_key :: "(string \<Rightarrow> ssh_key list option) \<Rightarrow> string \<Rightarrow> int + ssh_key" where
  "import_first_key files path =
     (case files path of
        None \<Rightarrow> Inl (- 1)
      | Some [] \<Rightarrow> Inl (- 127)
      | Some (k # ks) \<Rightarrow> Inr k)"

section \<open>The authorized-key enumerator\<close>

subsection \<open>C strings\<close>

text \<open>
  A C string is the list of its characters before the terminating NUL; a pointer into
  it is the suffix that starts there. \<open>cstr\<close> cuts a buffer at its first NUL.
\<close>

definition cstr :: "string \<Rightarrow> string" where
  "cstr s = takeWhile (\<lambda>c. c \<noteq> CHR 0x00) s"

text \<open>\<open>strchr(s, c)\<close> for a character \<open>c\<close> other than NUL: \<open>None\<close> is NULL.\<close>

fun strchr :: "string \<Rightarrow> char \<Rightarrow> string option" where
  "strchr [] c = None"
| "strchr (x # xs) c = (if x = c then Some (x # xs) else strchr xs c)"

text \<open>
  \<open>strncmp(s, t, n) == 0\<close> for a literal \<open>t\<close> of \<open>n\<close> characters: the first \<open>n\<close>
  characters of \<open>s\<close> are those of \<open>t\<close>.
\<close>

definition strncmp_eq :: "string \<Rightarrow> string \<Rightarrow> nat \<Rightarrow> bool" where
  "strncmp_eq s t n = (take n s = take n t)"

text \<open>The successive lines \<open>getline\<close> delivers: each keeps its newline, if it has one.\<close>

fun getlines :: "string \<Rightarrow> string list" where
  "getlines [] = []"
| "getlines (c # cs) =
     (if c = CHR 0x0A then [c] # getlines cs
      else (case getlines cs of [] \<Rightarrow> [[c]] | l # ls \<Rightarrow> (c # l) # ls))"

text \<open>\<open>%d\<close> of a value that is not negative.\<close>

definition digit :: "nat \<Rightarrow> char" where
  "digit d = ''0123456789'' ! d"

function dec :: "nat \<Rightarrow> string" where
  "dec n = (if n < 10 then [digit n] else dec (n div 10) @ [digit (n mod 10)])"
  by pat_completeness auto
termination
  by (relation "measure (\<lambda>n. n)") auto

declare dec.simps [simp del]

subsection \<open>One line of a key file\<close>

text \<open>
  The inner loop that looks for the algorithm:
  \<^verbatim>\<open>
  while (strncmp(ptr, "ssh-dss", 7) && strncmp(ptr, "ssh-rsa", 7) && strncmp(ptr, "ecdsa", 5)) {
      ptr = strchr(ptr, ' ');
      if (!ptr) break;
      ++ptr;
  }
  \<close>
\<close>

function find_alg :: "string \<Rightarrow> string option" where
  "find_alg ptr =
     (if \<not> strncmp_eq ptr ''ssh-dss'' 7 \<and> \<not> strncmp_eq ptr ''ssh-rsa'' 7
         \<and> \<not> strncmp_eq ptr ''ecdsa'' 5
      then (case strchr ptr (CHR '' '') of None \<Rightarrow> None | Some p \<Rightarrow> find_alg (tl p))
      else Some ptr)"
  by pat_completeness auto
termination
proof (relation "measure length")
  show "wf (measure length)" by simp
next
  fix ptr :: string and p
  assume "strchr ptr (CHR '' '') = Some p"
  then have "p \<noteq> [] \<and> length p \<le> length ptr"
    by (induction ptr) (auto split: if_splits)
  then show "(tl p, ptr) \<in> measure length" by (cases p) auto
qed

declare find_alg.simps [simp del]

text \<open>
  The body of the line loop up to the call of \<open>np2srv_user_add_auth_key\<close>: \<open>Inr None\<close>
  where the code says \<open>continue\<close>, otherwise the four arguments \<open>alg\<close>,
  \<open>strchr(alg, ' ') - alg\<close>, \<open>data\<close> and \<open>ptr - data\<close>. The end of the data is
  looked for with
  \<^verbatim>\<open>
  if (!(ptr = strchr(ptr, ' ')) && !(ptr = strchr(ptr, '\n'))) {
      ptr = data + strlen(data);
  }
  \<close>
  When the data has no space after it, the first assignment leaves \<open>ptr\<close> NULL and the
  second \<open>strchr\<close> is called on it.
\<close>

definition authorized_key_line ::
  "string \<Rightarrow> fault + (string \<times> nat \<times> string \<times> nat) option" where
  "authorized_key_line line =
     (if line = [] \<or> hd line = CHR ''#'' then Inr None
      else
        (case find_alg line of
           None \<Rightarrow> Inr None
         | Some alg \<Rightarrow>
             (case strchr alg (CHR '' '') of
                None \<Rightarrow> Inr None
              | Some p \<Rightarrow>
                  (let data = tl p in
                   case strchr data (CHR '' '') of
                     None \<Rightarrow> Inl Null_deref
                   | Some ptr \<Rightarrow>
                       Inr (Some (alg, length alg - length p, data,
                                  length data - length ptr))))))"

subsection \<open>np2srv\_user\_add\_auth\_key\<close>

text \<open>The data tree the enumerator builds: leaves with a value and inner nodes.\<close>

datatype lyd_out = Out_leaf string string | Out_inner string "lyd_out list"

text \<open>
  \<open>user\<close> is the list of the children the \<open>user\<close> node has so far; the function answers
  its return value, the new list, the new \<open>*key_idx\<close> and the world. \<open>name\<close> has room
  for 6 characters, the terminating NUL included; \<open>sprintf\<close> writes the text and the
  NUL. \<open>strndup(s, n)\<close> is \<open>take n s\<close>.
\<close>

definition np2srv_user_add_auth_key ::
  "string \<Rightarrow> nat \<Rightarrow> string \<Rightarrow> nat \<Rightarrow> lyd_out list \<Rightarrow> 8 word \<Rightarrow> 'st world
     \<Rightarrow> fault + (int \<times> lyd_out list \<times> 8 word \<times> 'st world)" where
  "np2srv_user_add_auth_key alg alg_len key key_len user key_idx w =
     (case alloc w of
        (False, w1) \<Rightarrow> Inr (- 1, user, key_idx, w1)
      | (True, w1) \<Rightarrow>
          (let name = ''key'' @ dec (unat key_idx); key_idx' = key_idx + 1 in
           if 6 < length name + 1 then Inl Buffer_overflow
           else
             (case alloc w1 of
                (False, w2) \<Rightarrow>
                  Inr (- 1, user @ [Out_inner ''authorized-key'' []], key_idx', w2)
              | (True, w2) \<Rightarrow>
                  (case alloc w2 of
                     (False, w3) \<Rightarrow>
                       Inr (- 1, user @ [Out_inner ''authorized-key'' [Out_leaf ''name'' name]],
                            key_idx', w3)
                   | (True, w3) \<Rightarrow>
                       (case alloc w3 of
                          (alg_ok, w4) \<Rightarrow>
                            (let leaves =
                                   Out_leaf ''name'' name
                                   # (if alg_ok then [Out_leaf ''algorithm'' (take alg_len alg)]
                                      else [])
                             in case alloc w4 of
                                  (False, w5) \<Rightarrow>
                                    Inr (- 1, user @ [Out_inner ''authorized-key'' leaves],
                                         key_idx', w5)
                                | (True, w5) \<Rightarrow>
                                    (case alloc w5 of
                                       (key_ok, w6) \<Rightarrow>
                                         Inr (0,
                                              user @ [Out_inner ''authorized-key''
                                                (leaves @ (if key_ok
                                                   then [Out_leaf ''key-data'' (take key_len key)]
                                                   else []))],
                                              key_idx', w6))))))))"

subsection \<open>np2srv\_endpt\_ssh\_auth\_users\_oper\_cb\<close>

datatype errno = ENOENT | EACCES | EMFILE | ENOMEM

text \<open>
  A key file that opens: \<open>file_data\<close> is what \<open>getline\<close> delivers before it first
  returns -1, \<open>file_error\<close> is what \<open>ferror\<close> says then. \<open>fopen\<close> answers a file or
  NULL with \<open>errno\<close>.
\<close>

record key_file =
  file_data :: string
  file_error :: bool

datatype fopen_result = Fopen_null errno | Fopen_file key_file

text \<open>The loop over the lines of one file; it stops when a key cannot be added.\<close>

fun auth_keys_loop ::
  "string list \<Rightarrow> lyd_out list \<Rightarrow> 8 word \<Rightarrow> 'st world
     \<Rightarrow> fault + (int \<times> lyd_out list \<times> 8 word \<times> 'st world)" where
  "auth_keys_loop [] user key_idx w = Inr (0, user, key_idx, w)"
| "auth_keys_loop (line # ls) user key_idx w =
     (case authorized_key_line (cstr line) of
        Inl f \<Rightarrow> Inl f
      | Inr None \<Rightarrow> auth_keys_loop ls user key_idx w
      | Inr (Some (alg, alg_len, data, key_len)) \<Rightarrow>
          (case np2srv_user_add_auth_key alg alg_len data key_len user key_idx w of
             Inl f \<Rightarrow> Inl f
           | Inr (r, user', key_idx', w') \<Rightarrow>
               if r \<noteq> 0 then Inr (r, user', key_idx', w')
               else auth_keys_loop ls user' key_idx' w'))"

text \<open>
  The loop over the accounts \<open>getpwent\<close> delivers; \<open>users\<close> is the list of the children
  of the \<open>users\<close> node so far. When \<open>fopen\<close> fails with an error other than
  \<open>ENOENT\<close> the code logs before it leaves:
  \<^verbatim>\<open>
  ERR("Opening \"%s\" authorized key file failed (%s).", strerror(errno));
  goto cleanup;
  \<close>
  The format has two \<open>%s\<close> and the call one argument for them, so the logger reads an
  argument that was not passed.
\<close>

fun users_loop ::
  "(string \<Rightarrow> fopen_result) \<Rightarrow> passwd list \<Rightarrow> lyd_out list \<Rightarrow> 'st world
     \<Rightarrow> fault + (sr_error \<times> lyd_out list \<times> 'st world)" where
  "users_loop fopen [] users w = Inr (SR_ERR_OK, users, w)"
| "users_loop fopen (pwd # pwds) users w =
     (case alloc w of
        (False, w1) \<Rightarrow> Inr (SR_ERR_INTERNAL, users, w1)
      | (True, w1) \<Rightarrow>
          (case alloc w1 of
             (name_ok, w2) \<Rightarrow>
               (let user = (if name_ok then [Out_leaf ''name'' (pw_name pwd)] else []) in
                case alloc w2 of
                  (False, w3) \<Rightarrow> Inr (SR_ERR_INTERNAL, users @ [Out_inner ''user'' user], w3)
                | (True, w3) \<Rightarrow>
                    (case fopen (pw_dir pwd @ ''/.ssh/authorized_keys'') of
                       Fopen_null e \<Rightarrow>
                         if e \<noteq> ENOENT then Inl Missing_argument
                         else users_loop fopen pwds (users @ [Out_inner ''user'' user]) w3
                     | Fopen_file f \<Rightarrow>
                         (case auth_keys_loop (getlines (file_data f)) user 1 w3 of
                            Inl flt \<Rightarrow> Inl flt
                          | Inr (r, user', key_idx, w4) \<Rightarrow>
                              if r \<noteq> 0
                              then Inr (SR_ERR_INTERNAL, users @ [Out_inner ''user'' user'], w4)
                              else if file_error f
                              then Inr (SR_ERR_INTERNAL, users @ [Out_inner ''user'' user'], w4)
                              else users_loop fopen pwds (users @ [Out_inner ''user'' user']) w4)))))"

text \<open>
  The callback: the result code and the \<open>users\<close> node added under \<open>*parent\<close>
  (\<open>None\<close> when \<open>lyd_new\<close> failed for it).
\<close>

definition np2srv_endpt_ssh_auth_users_oper_cb ::
  "(string \<Rightarrow> fopen_result) \<Rightarrow> passwd list \<Rightarrow> 'st world
     \<Rightarrow> fault + (sr_error \<times> lyd_out option \<times> 'st world)" where
  "np2srv_endpt_ssh_auth_users_oper_cb fopen pwds w =
     (case alloc w of
        (False, w1) \<Rightarrow> Inr (SR_ERR_INTERNAL, None, w1)
      | (True, w1) \<Rightarrow>
          (case users_loop fopen pwds [] w1 of
             Inl f \<Rightarrow> Inl f
           | Inr (rc, users, w2) \<Rightarrow> Inr (rc, Some (Out_inner ''users'' users), w2)))"

section \<open>Notions the properties are stated with\<close>

text \<open>
  A live-server call whose result the callback checks: on a result other than 0 the
  callback frees its iterator and returns \<open>SR_ERR_INTERNAL\<close>.
\<close>

definition checked_call ::
  "'st nc_server \<Rightarrow> nc_call \<Rightarrow> string \<Rightarrow> 'st world \<Rightarrow> fault + (sr_error option \<times> 'st world)" where
  "checked_call nc c iter w =
     (case call nc c w of
        (rc, w1) \<Rightarrow>
          if rc \<noteq> 0 then Inr (Some SR_ERR_INTERNAL, log (Sr_free_change_iter iter) w1)
          else Inr (None, w1))"

text \<open>
  The end of \<open>np2srv_tcp_keepalives\<close> on an iterator that opened and ran to its end:
  the iterator is freed, then the one call is made and its result checked.
\<close>

definition call_after_scan ::
  "'st nc_server \<Rightarrow> nc_call \<Rightarrow> string \<Rightarrow> 'st world \<Rightarrow> sr_error \<times> 'st world" where
  "call_after_scan nc c xpath w =
     (case call nc c (log (Sr_free_change_iter xpath)
                        (log (Sr_get_changes_iter xpath SR_ERR_OK) w)) of
        (rc, w3) \<Rightarrow> (if rc \<noteq> 0 then SR_ERR_INTERNAL else SR_ERR_OK, w3))"

text \<open>
  \<open>run_calls\<close> makes the calls of a list one after the other, each on the state the
  one before left, and answers the calls with their results and the last state; it
  never stops and never takes a call back.
\<close>

fun run_calls :: "'st nc_server \<Rightarrow> nc_call list \<Rightarrow> 'st \<Rightarrow> (nc_call \<times> int) list \<times> 'st" where
  "run_calls nc [] s = ([], s)"
| "run_calls nc (c # cs) s =
     (case nc c s of
        (r, s') \<Rightarrow> (case run_calls nc cs s' of (tr, s'') \<Rightarrow> ((c, r) # tr, s'')))"

definition called :: "(nc_call \<times> int) list \<Rightarrow> event list" where
  "called tr = map (\<lambda>(c, r). Nc c r) tr"

definition succeeded :: "(nc_call \<times> int) list \<Rightarrow> bool" where
  "succeeded tr = list_all (\<lambda>(c, r). r = 0) tr"

text \<open>
  By the spec (section 4.4) a host-key change stands for one call: Created inserts the
  key, Deleted removes it, Moved puts it after \<open>prev_val\<close>, and any other operation
  stands for none. \<open>None\<close> is a tree without the ancestors or the key leaf the callback
  reads.
\<close>

definition hostkey_mutation :: "change \<Rightarrow> nc_call list option" where
  "hostkey_mutation c =
     (case list_key 4 (node c) of
        None \<Rightarrow> None
      | Some ep \<Rightarrow>
          if oper c = SR_OP_MODIFIED then Some []
          else
            (case child (node c) of
               None \<Rightarrow> None
             | Some k \<Rightarrow>
                 Some [if oper c = SR_OP_CREATED
                       then nc_server_ssh_endpt_add_hostkey ep (value_str k) (- 1)
                       else if oper c = SR_OP_DELETED
                       then nc_server_ssh_endpt_del_hostkey ep (value_str k) (- 1)
                       else nc_server_ssh_endpt_mov_hostkey ep (value_str k) (prev_val c)]))"

text \<open>
  The other handlers that check every call, read the same way (spec sections 4.3, 4.4
  and 4.6): a Created or Modified leaf stands for the call that sets its value and a
  Deleted leaf for the call that sets the default the handler names; a leaf the handler
  does not know stands for no call. A created call-home client stands for two calls, the
  one that adds it and the one that dispatches its connection.
\<close>

definition ch_hostkey_mutation :: "change \<Rightarrow> nc_call list option" where
  "ch_hostkey_mutation c =
     (case list_key 4 (node c) of
        None \<Rightarrow> None
      | Some ep \<Rightarrow>
          (case list_key 6 (node c) of
             None \<Rightarrow> None
           | Some cl \<Rightarrow>
               if oper c = SR_OP_MODIFIED then Some []
               else
                 (case child (node c) of
                    None \<Rightarrow> None
                  | Some k \<Rightarrow>
                      Some [if oper c = SR_OP_CREATED
                            then nc_server_ssh_ch_client_endpt_add_hostkey cl ep (value_str k) (- 1)
                            else if oper c = SR_OP_DELETED
                            then nc_server_ssh_ch_client_endpt_del_hostkey cl ep (value_str k) (- 1)
                            else nc_server_ssh_ch_client_endpt_mov_hostkey cl ep (value_str k)
                                   (prev_val c)])))"

definition auth_mutation :: "change \<Rightarrow> nc_call list option" where
  "auth_mutation c =
     (case list_key 4 (node c) of
        None \<Rightarrow> None
      | Some ep \<Rightarrow>
          Some (if schema_name (node c) = ''max-wait''
                then [nc_server_ssh_endpt_set_auth_timeout ep
                        (if oper c = SR_OP_DELETED then 30 else uint (value_uint16 (node c)))]
                else if schema_name (node c) = ''max-attempts''
                then [nc_server_ssh_endpt_set_auth_attempts ep
                        (if oper c = SR_OP_DELETED then 3 else uint (value_uint8 (node c)))]
                else []))"

definition ch_auth_mutation :: "change \<Rightarrow> nc_call list option" where
  "ch_auth_mutation c =
     (case list_key 4 (node c) of
        None \<Rightarrow> None
      | Some ep \<Rightarrow>
          (case list_key 6 (node c) of
             None \<Rightarrow> None
           | Some cl \<Rightarrow>
               Some (if schema_name (node c) = ''max-wait''
                     then [nc_server_ssh_ch_client_endpt_set_auth_timeout cl ep
                             (if oper c = SR_OP_DELETED then 30 else uint (value_uint16 (node c)))]
                     else if schema_name (node c) = ''max-attempts''
                     then [nc_server_ssh_ch_client_endpt_set_auth_attempts cl ep
                             (if oper c = SR_OP_DELETED then 3 else uint (value_uint8 (node c)))]
                     else [])))"

definition ch_client_mutation :: "change \<Rightarrow> nc_call list option" where
  "ch_client_mutation c =
     (case child (node c) of
        None \<Rightarrow> None
      | Some k \<Rightarrow>
          Some (if oper c = SR_OP_CREATED
                then [nc_server_ch_add_client (value_str k),
                      nc_connect_ch_client_dispatch (value_str k)]
                else if oper c = SR_OP_DELETED then [nc_server_ch_del_client (value_str k)]
                else []))"

definition periodic_mutation :: "(string \<Rightarrow> int) \<Rightarrow> string \<Rightarrow> change \<Rightarrow> nc_call list option" where
  "periodic_mutation nc_datetime2time cl c =
     Some (if schema_name (node c) = ''period''
           then [nc_server_ch_client_periodic_set_period cl
                   (if oper c = SR_OP_DELETED then 60 else uint (value_uint16 (node c)))]
           else if schema_name (node c) = ''anchor-time''
           then [nc_server_ch_client_periodic_set_anchor_time cl
                   (if oper c = SR_OP_DELETED then 0 else nc_datetime2time (value_str (node c)))]
           else if schema_name (node c) = ''idle-timeout''
           then [nc_server_ch_client_periodic_set_idle_timeout cl
                   (if oper c = SR_OP_DELETED then 120 else uint (value_uint16 (node c)))]
           else [])"

definition reconnect_mutation :: "change \<Rightarrow> nc_call list option" where
  "reconnect_mutation c =
     (case list_key 2 (node c) of
        None \<Rightarrow> None
      | Some cl \<Rightarrow>
          Some (if schema_name (node c) = ''start-with''
                then (if oper c = SR_OP_DELETED \<or> value_str (node c) = ''first-listed''
                      then [nc_server_ch_client_set_start_with cl NC_CH_FIRST_LISTED]
                      else if value_str (node c) = ''last-connected''
                      then [nc_server_ch_client_set_start_with cl NC_CH_LAST_CONNECTED]
                      else if value_str (node c) = ''random-selection''
                      then [nc_server_ch_client_set_start_with cl NC_CH_RANDOM]
                      else [])
                else if schema_name (node c) = ''max-attempts''
                then [nc_server_ch_client_set_max_attempts cl
                        (if oper c = SR_OP_DELETED then 3 else uint (value_uint8 (node c)))]
                else []))"

definition idle_timeout_mutations :: "change list \<Rightarrow> nc_call list" where
  "idle_timeout_mutations cs =
     map (\<lambda>c. nc_server_set_idle_timeout (uint (value_uint16 (node c))))
       (filter (\<lambda>c. oper c = SR_OP_CREATED \<or> oper c = SR_OP_MODIFIED) cs)"

text \<open>\<open>replay\<close> makes the calls of a list in order and stops after the first that fails.\<close>

fun replay :: "'st nc_server \<Rightarrow> nc_call list \<Rightarrow> 'st world \<Rightarrow> int \<times> 'st world" where
  "replay nc [] w = (0, w)"
| "replay nc (c # cs) w =
     (case call nc c w of (r, w') \<Rightarrow> if r \<noteq> 0 then (r, w') else replay nc cs w')"

text \<open>
  \<open>stop_at_failure\<close> is one pass of a handler's loop for a change that stands for the
  calls \<open>m\<close>: the calls are made in order; after the first that fails the iterator is
  freed and the pass answers \<open>SR_ERR_INTERNAL\<close>. \<open>None\<close> is a dereference of a node
  that is not there.
\<close>

definition stop_at_failure ::
  "'st nc_server \<Rightarrow> string \<Rightarrow> nc_call list option \<Rightarrow> 'st world
     \<Rightarrow> fault + (sr_error option \<times> 'st world)" where
  "stop_at_failure nc path m w =
     (case m of
        None \<Rightarrow> Inl Null_deref
      | Some cs \<Rightarrow>
          (case replay nc cs w of
             (r, w') \<Rightarrow>
               if r \<noteq> 0 then Inr (Some SR_ERR_INTERNAL, log (Sr_free_change_iter path) w')
               else Inr (None, w')))"

text \<open>
  \<open>applied_in_order\<close> says of the result of a handler that it made the first \<open>n\<close>
  of \<open>calls\<close> and no other, each on the state the one before left, that all but the
  last of them succeeded and nothing was taken back, and that the result is
  \<open>SR_ERR_INTERNAL\<close> when the last call made failed and otherwise \<open>SR_ERR_OK\<close> for
  an iterator that ended with \<open>SR_ERR_NOT_FOUND\<close> and the iterator's error for one
  that did not.
\<close>

definition applied_in_order ::
  "'st nc_server \<Rightarrow> change_iter \<Rightarrow> string \<Rightarrow> nc_call list \<Rightarrow> 'st world
     \<Rightarrow> sr_error \<times> 'st world \<Rightarrow> bool" where
  "applied_in_order nc it path calls w res =
     (\<exists>n tr s rc.
        n \<le> length calls
      \<and> run_calls nc (take n calls) (live w) = (tr, s)
      \<and> res = (rc, w\<lparr>live := s,
                        trace := trace w @ [Sr_get_changes_iter path SR_ERR_OK] @ called tr
                                 @ [Sr_free_change_iter path]\<rparr>)
      \<and> succeeded (butlast tr)
      \<and> (if succeeded tr
          then n = length calls
             \<and> rc = (if iter_end it = SR_ERR_NOT_FOUND then SR_ERR_OK else iter_end it)
          else rc = SR_ERR_INTERNAL)
      \<and> (rc = SR_ERR_OK) = (iter_end it = SR_ERR_NOT_FOUND \<and> succeeded tr))"

text \<open>
  The handlers that do not test every call at once are described by steps. A
  \<open>Checked\<close> call is tested at once: when it fails, nothing more is called for the
  event and the event fails. A \<open>Deferred\<close> call is tested after the other calls of its
  event were made. The result of an \<open>Unchecked\<close> call is dropped. \<open>Derived g f\<close> calls
  \<open>g\<close> for the value it answers, which is not tested, and then makes the checked call
  \<open>f\<close> of that value. \<open>Scanned p\<close> is a nested scan of the path \<open>p\<close> that opens
  and runs to its end with no call to the live server. \<open>apply_steps\<close> makes the
  calls of one event and says whether the event failed.
\<close>

datatype step =
    Checked nc_call
  | Deferred nc_call
  | Unchecked nc_call
  | Derived nc_call "int \<Rightarrow> nc_call"
  | Scanned string

fun apply_steps :: "'st nc_server \<Rightarrow> step list \<Rightarrow> bool \<Rightarrow> 'st world \<Rightarrow> bool \<times> 'st world" where
  "apply_steps nc [] failed w = (failed, w)"
| "apply_steps nc (Checked c # ss) failed w =
     (case call nc c w of (r, w') \<Rightarrow> if r \<noteq> 0 then (True, w') else apply_steps nc ss failed w')"
| "apply_steps nc (Deferred c # ss) failed w =
     (case call nc c w of (r, w') \<Rightarrow> apply_steps nc ss (failed \<or> r \<noteq> 0) w')"
| "apply_steps nc (Unchecked c # ss) failed w =
     (case call nc c w of (r, w') \<Rightarrow> apply_steps nc ss failed w')"
| "apply_steps nc (Derived g f # ss) failed w =
     (case call nc g w of
        (a, w1) \<Rightarrow>
          (case call nc (f a) w1 of
             (r, w2) \<Rightarrow> if r \<noteq> 0 then (True, w2) else apply_steps nc ss failed w2))"
| "apply_steps nc (Scanned p # ss) failed w =
     apply_steps nc ss failed
       (log (Sr_free_change_iter p) (log (Sr_get_changes_iter p SR_ERR_OK) w))"

text \<open>
  \<open>apply_event\<close> is one pass of a handler's loop for an event that stands for the
  steps \<open>ss\<close>: when the event fails the iterator is freed and the pass answers
  \<open>SR_ERR_INTERNAL\<close>.
\<close>

definition apply_event ::
  "'st nc_server \<Rightarrow> string \<Rightarrow> step list \<Rightarrow> 'st world \<Rightarrow> fault + (sr_error option \<times> 'st world)" where
  "apply_event nc path ss w =
     (case apply_steps nc ss False w of
        (failed, w') \<Rightarrow>
          if failed then Inr (Some SR_ERR_INTERNAL, log (Sr_free_change_iter path) w')
          else Inr (None, w'))"

text \<open>
  By the spec (section 7) the mutations of a change-set are applied in event order as
  the scan proceeds, with no transaction and no undo: \<open>apply_events\<close> applies the
  steps of one event after the other, each to the world the one before left, and stops
  after the first event that fails, with what was applied left as it is.
  \<open>reconciled\<close> is the handler around it: the iterator is opened, the events are
  applied, the iterator is freed; the result is \<open>SR_ERR_INTERNAL\<close> when an event
  failed, and otherwise \<open>SR_ERR_OK\<close> for an iterator that ended with
  \<open>SR_ERR_NOT_FOUND\<close> and the iterator's error for one that did not.
\<close>

fun apply_events :: "'st nc_server \<Rightarrow> step list list \<Rightarrow> 'st world \<Rightarrow> bool \<times> 'st world" where
  "apply_events nc [] w = (False, w)"
| "apply_events nc (m # ms) w =
     (case apply_steps nc m False w of
        (failed, w') \<Rightarrow> if failed then (True, w') else apply_events nc ms w')"

definition reconciled ::
  "'st nc_server \<Rightarrow> change_iter \<Rightarrow> string \<Rightarrow> step list list \<Rightarrow> 'st world
     \<Rightarrow> sr_error \<times> 'st world" where
  "reconciled nc it path ms w =
     (case apply_events nc ms (log (Sr_get_changes_iter path SR_ERR_OK) w) of
        (failed, w') \<Rightarrow>
          (if failed then SR_ERR_INTERNAL
           else if iter_end it = SR_ERR_NOT_FOUND then SR_ERR_OK else iter_end it,
           log (Sr_free_change_iter path) w'))"

text \<open>
  The steps an event stands for, handler by handler. By the spec (section 4.6) a created
  endpoint is added and its authentication methods are then set to 0, and a deleted
  endpoint is removed; the code tests the result of the add after the methods were set
  and never the result of setting them. By section 4.5 an authentication-method event
  reads the mask of the endpoint and sets the mask \<open>np2srv_ssh_update_auth_method\<close>
  makes of it. By section 4.3 a created or modified address or port is set. A created
  connection type is set. \<open>None\<close> is a tree without the ancestors the handler reads,
  and also a Modified event of the connection type, for which the handler runs the
  nested scan of the periodic parameters.
\<close>

definition endpt_ssh_steps :: "change \<Rightarrow> step list option" where
  "endpt_ssh_steps c =
     (case list_key 1 (node c) of
        None \<Rightarrow> None
      | Some ep \<Rightarrow>
          Some (if oper c = SR_OP_CREATED
                then [Deferred (nc_server_add_endpt ep),
                      Unchecked (nc_server_ssh_endpt_set_auth_methods ep 0)]
                else if oper c = SR_OP_DELETED then [Checked (nc_server_del_endpt ep)]
                else []))"

definition ch_client_endpt_ssh_steps :: "change \<Rightarrow> step list option" where
  "ch_client_endpt_ssh_steps c =
     (case list_key 1 (node c) of
        None \<Rightarrow> None
      | Some ep \<Rightarrow>
          (case list_key 3 (node c) of
             None \<Rightarrow> None
           | Some cl \<Rightarrow>
               Some (if oper c = SR_OP_CREATED
                     then [Deferred (nc_server_ch_client_add_endpt cl ep),
                           Unchecked (nc_server_ssh_ch_client_endpt_set_auth_methods cl ep 0)]
                     else if oper c = SR_OP_DELETED
                     then [Checked (nc_server_ch_client_del_endpt cl ep)]
                     else [])))"

definition ch_client_steps :: "change \<Rightarrow> step list option" where
  "ch_client_steps c =
     (case child (node c) of
        None \<Rightarrow> None
      | Some k \<Rightarrow>
          Some (if oper c = SR_OP_CREATED
                then [Checked (nc_server_ch_add_client (value_str k)),
                      Checked (nc_connect_ch_client_dispatch (value_str k))]
                else if oper c = SR_OP_DELETED
                then [Checked (nc_server_ch_del_client (value_str k))]
                else []))"

definition auth_methods_steps :: "change \<Rightarrow> step list option" where
  "auth_methods_steps c =
     (case list_key 5 (node c) of
        None \<Rightarrow> None
      | Some ep \<Rightarrow>
          Some [Derived (nc_server_ssh_endpt_get_auth_methods ep)
                  (\<lambda>auth. nc_server_ssh_endpt_set_auth_methods ep
                            (np2srv_ssh_update_auth_method (node c) (oper c) auth))])"

definition ch_auth_methods_steps :: "change \<Rightarrow> step list option" where
  "ch_auth_methods_steps c =
     (case list_key 5 (node c) of
        None \<Rightarrow> None
      | Some ep \<Rightarrow>
          (case list_key 7 (node c) of
             None \<Rightarrow> None
           | Some cl \<Rightarrow>
               Some [Derived (nc_server_ssh_ch_client_endpt_get_auth_methods cl ep)
                       (\<lambda>auth. nc_server_ssh_ch_client_endpt_set_auth_methods cl ep
                                 (np2srv_ssh_update_auth_method (node c) (oper c) auth))]))"

text \<open>
  The keepalive parameters are not applied as their events are scanned:
  \<open>np2srv_tcp_keepalives\<close> makes one call after its scan. \<open>keepalive_param\<close> is the
  value that call gets for a leaf: the value of the last event of the change-set for
  the leaf, the default when that event is a Deleted one, and -1 when the change-set has
  no event for the leaf. \<open>keepalives_call\<close> is the call, for a listening endpoint
  (no client) and for the endpoint of a call-home client.
\<close>

definition keepalive_param :: "string \<Rightarrow> int \<Rightarrow> change list \<Rightarrow> int" where
  "keepalive_param leaf_name dflt cs =
     (case rev (filter (\<lambda>c. schema_name (node c) = leaf_name) cs) of
        [] \<Rightarrow> - 1
      | c # _ \<Rightarrow> if oper c = SR_OP_DELETED then dflt else uint (value_uint16 (node c)))"

definition keepalives_call :: "string option \<Rightarrow> string \<Rightarrow> change list \<Rightarrow> nc_call" where
  "keepalives_call client ep cs =
     (case client of
        None \<Rightarrow>
          nc_server_endpt_set_keepalives ep (keepalive_param ''idle-time'' 1 cs)
            (keepalive_param ''max-probes'' 10 cs) (keepalive_param ''probe-interval'' 5 cs)
      | Some cl \<Rightarrow>
          nc_server_ch_client_endpt_set_keepalives cl ep (keepalive_param ''idle-time'' 1 cs)
            (keepalive_param ''max-probes'' 10 cs) (keepalive_param ''probe-interval'' 5 cs))"

text \<open>
  For a \<open>keepalives\<close> event of the TCP parameters the handler switches the keepalives
  on (Created) or off (Deleted) and then runs \<open>np2srv_tcp_keepalives\<close> on the
  nested path: when the nested iterator opens and runs to its end, that is a nested
  scan followed by the one call of the keepalive parameters. \<open>None\<close> is also a
  \<open>keepalives\<close> event whose nested iterator does not open or does not end with
  \<open>SR_ERR_NOT_FOUND\<close>.
\<close>

definition tcp_params_steps :: "sr_session \<Rightarrow> string \<Rightarrow> change \<Rightarrow> step list option" where
  "tcp_params_steps session xpath c =
     (case list_key 3 (node c) of
        None \<Rightarrow> None
      | Some ep \<Rightarrow>
          if schema_name (node c) = ''keepalives''
          then (let nested = session (xpath @ ''/keepalives/*'') in
                if iter_rc nested = SR_ERR_OK \<and> iter_end nested = SR_ERR_NOT_FOUND
                then Some ((if oper c = SR_OP_CREATED
                            then [Checked (nc_server_endpt_enable_keepalives ep 1)]
                            else if oper c = SR_OP_DELETED
                            then [Checked (nc_server_endpt_enable_keepalives ep 0)]
                            else [])
                           @ [Scanned (xpath @ ''/keepalives/*''),
                              Checked (keepalives_call None ep (iter_changes nested))])
                else None)
          else if oper c = SR_OP_CREATED \<or> oper c = SR_OP_MODIFIED
          then Some (if schema_name (node c) = ''local-address''
                     then [Checked (nc_server_endpt_set_address ep (value_str (node c)))]
                     else if schema_name (node c) = ''local-port''
                     then [Checked (nc_server_endpt_set_port ep (uint (value_uint16 (node c))))]
                     else [])
          else Some [])"

definition ch_tcp_params_steps :: "sr_session \<Rightarrow> string \<Rightarrow> change \<Rightarrow> step list option" where
  "ch_tcp_params_steps session xpath c =
     (case list_key 3 (node c) of
        None \<Rightarrow> None
      | Some ep \<Rightarrow>
          (case list_key 5 (node c) of
             None \<Rightarrow> None
           | Some cl \<Rightarrow>
               if schema_name (node c) = ''keepalives''
               then (let nested = session (xpath @ ''/keepalives/*'') in
                     if iter_rc nested = SR_ERR_OK \<and> iter_end nested = SR_ERR_NOT_FOUND
                     then Some ((if oper c = SR_OP_CREATED
                                 then [Checked (nc_server_ch_client_endpt_enable_keepalives cl ep 1)]
                                 else if oper c = SR_OP_DELETED
                                 then [Checked (nc_server_ch_client_endpt_enable_keepalives cl ep 0)]
                                 else [])
                                @ [Scanned (xpath @ ''/keepalives/*''),
                                   Checked (keepalives_call (Some cl) ep (iter_changes nested))])
                     else None)
               else if oper c = SR_OP_CREATED \<or> oper c = SR_OP_MODIFIED
               then Some (if schema_name (node c) = ''remote-address''
                          then [Checked (nc_server_ch_client_endpt_set_address cl ep
                                           (value_str (node c)))]
                          else if schema_name (node c) = ''remote-port''
                          then [Checked (nc_server_ch_client_endpt_set_port cl ep
                                           (uint (value_uint16 (node c))))]
                          else [])
               else Some []))"

definition connection_type_steps :: "change \<Rightarrow> step list option" where
  "connection_type_steps c =
     (case list_key 2 (node c) of
        None \<Rightarrow> None
      | Some cl \<Rightarrow>
          if oper c = SR_OP_MODIFIED then None
          else if oper c = SR_OP_CREATED
          then Some (if schema_name (node c) = ''persistent''
                     then [Checked (nc_server_ch_client_set_conn_type cl NC_CH_PERSIST)]
                     else if schema_name (node c) = ''periodic''
                     then [Checked (nc_server_ch_client_set_conn_type cl NC_CH_PERIOD)]
                     else [])
          else Some [])"

text \<open>
  The method flags \<open>np2srv_ssh_update_auth_method\<close> knows, by the names and the value
  its comparisons use, with the bit of each. A flag stands after a sequence of events
  when the last Created or Deleted event on it is a Created one: it was created and not
  deleted afterwards. \<open>auth_after\<close> is the mask after the events, each applied to the
  mask the one before left.
\<close>

definition recognized_flag :: "lyd_node \<Rightarrow> int option" where
  "recognized_flag n =
     (if schema_name n = ''publickey'' then Some NC_SSH_AUTH_PUBLICKEY
      else if schema_name n = ''passsword'' then Some NC_SSH_AUTH_PASSWORD
      else if schema_name n = ''other'' \<and> value_str n = ''interactive''
      then Some NC_SSH_AUTH_INTERACTIVE
      else None)"

definition standing :: "int \<Rightarrow> change list \<Rightarrow> bool" where
  "standing b evs =
     (case rev (filter (\<lambda>c. recognized_flag (node c) = Some b
                            \<and> (oper c = SR_OP_CREATED \<or> oper c = SR_OP_DELETED)) evs) of
        [] \<Rightarrow> False
      | c # _ \<Rightarrow> oper c = SR_OP_CREATED)"

definition auth_after :: "int \<Rightarrow> change list \<Rightarrow> int" where
  "auth_after m evs = foldl (\<lambda>a c. np2srv_ssh_update_auth_method (node c) (oper c) a) m evs"




definition comment_or_blank :: "string \<Rightarrow> bool" where
  "comment_or_blank line =
     (take 1 line = ''#'' \<or> set line \<subseteq> {CHR '' '', CHR 0x09, CHR 0x0D, CHR 0x0A})"

text \<open>
  The iterators a trace opened and never freed.
\<close>

definition unreleased :: "event list \<Rightarrow> string list" where
  "unreleased es =
     concat (map (\<lambda>e. case e of
                     Sr_get_changes_iter p rc \<Rightarrow>
                       if rc = SR_ERR_OK \<and> Sr_free_change_iter p \<notin> set es then [p] else []
                   | _ \<Rightarrow> []) es)"

section \<open>Concrete inputs\<close>

text \<open>
  A live server that records the calls it receives and answers each with \<open>answer\<close>;
  \<open>refuse bad\<close> answers -1 to the call \<open>bad\<close> and 0 to every other.
\<close>

definition nc_record :: "(nc_call \<Rightarrow> int) \<Rightarrow> nc_call list nc_server" where
  "nc_record answer c s = (answer c, s @ [c])"

definition w0 :: "nc_call list world" where
  "w0 = \<lparr>live = [], allocs = [], trace = []\<rparr>"

definition refuse :: "nc_call \<Rightarrow> nc_call \<Rightarrow> int" where
  "refuse bad c = (if c = bad then - 1 else 0)"

text \<open>
  Data nodes: a leaf, a list entry whose first child is its key leaf \<open>name\<close>, and the
  nodes of the endpoint \<open>ep1\<close> and of the call-home client \<open>cl1\<close>.
\<close>

definition leaf :: "string \<Rightarrow> string \<Rightarrow> lyd_node option \<Rightarrow> lyd_node" where
  "leaf nm v p = Lyd_node nm v 0 0 [] p []"

definition entry :: "string \<Rightarrow> string \<Rightarrow> lyd_node option \<Rightarrow> lyd_node" where
  "entry nm key p = Lyd_node nm [] 0 0 [] p [leaf ''name'' key None]"

definition ex_ssh :: lyd_node where
  "ex_ssh = leaf ''ssh'' [] (Some (entry ''endpoint'' ''ep1'' None))"

definition ex_params :: lyd_node where
  "ex_params = leaf ''ssh-server-parameters'' [] (Some ex_ssh)"

definition ex_hostkey :: "string \<Rightarrow> lyd_node" where
  "ex_hostkey k = entry ''host-key'' k (Some (leaf ''server-identity'' [] (Some ex_params)))"

definition ex_max_wait :: lyd_node where
  "ex_max_wait = leaf ''max-wait'' [] (Some (leaf ''keepalives'' [] (Some ex_params)))"

definition ex_tcp_keepalives :: lyd_node where
  "ex_tcp_keepalives =
     leaf ''keepalives'' [] (Some (leaf ''tcp-server-parameters'' [] (Some ex_ssh)))"

definition ex_client :: lyd_node where
  "ex_client = entry ''netconf-client'' ''cl1'' None"

definition ex_periodic :: lyd_node where
  "ex_periodic = leaf ''periodic'' [] (Some (leaf ''connection-type'' [] (Some ex_client)))"

text \<open>
  A live server whose state is the authentication mask of its one endpoint; a leaf of
  the authentication methods of \<open>ep1\<close>; the \<open>ssh\<close> node of the endpoint \<open>ep1\<close>
  of the call-home client \<open>cl1\<close>.
\<close>

definition nc_mask :: "int nc_server" where
  "nc_mask c s =
     (case c of
        nc_server_ssh_endpt_get_auth_methods ep \<Rightarrow> (s, s)
      | nc_server_ssh_endpt_set_auth_methods ep m \<Rightarrow> (0, m)
      | _ \<Rightarrow> (0, s))"

definition ex_auth_method :: "string \<Rightarrow> string \<Rightarrow> lyd_node" where
  "ex_auth_method nm v =
     leaf nm v (Some (leaf ''supported-authentication-methods'' []
                        (Some (leaf ''client-authentication'' [] (Some ex_params)))))"

definition ex_ch_ssh :: lyd_node where
  "ex_ch_ssh =
     leaf ''ssh'' [] (Some (entry ''endpoint'' ''ep1'' (Some (leaf ''endpoints'' [] (Some ex_client)))))"

definition changed :: "sr_change_oper \<Rightarrow> lyd_node \<Rightarrow> change" where
  "changed opr n = \<lparr>oper = opr, node = n, prev_val = None\<rparr>"

definition delivers :: "string \<Rightarrow> change list \<Rightarrow> sr_session" where
  "delivers path cs p =
     (if p = path then \<lparr>iter_rc = SR_ERR_OK, iter_changes = cs, iter_end = SR_ERR_NOT_FOUND\<rparr>
      else \<lparr>iter_rc = SR_ERR_INTERNAL, iter_changes = [], iter_end = SR_ERR_NOT_FOUND\<rparr>)"

text \<open>
  A datastore that delivers changes for a path and for a second, nested path; the
  \<open>keepalives\<close> node of the TCP parameters of the endpoint \<open>ep1\<close> of the client
  \<open>cl1\<close>.
\<close>

definition delivers_nested ::
  "string \<Rightarrow> change list \<Rightarrow> string \<Rightarrow> change list \<Rightarrow> sr_session" where
  "delivers_nested path cs nested ncs p =
     (if p = nested
      then \<lparr>iter_rc = SR_ERR_OK, iter_changes = ncs, iter_end = SR_ERR_NOT_FOUND\<rparr>
      else delivers path cs p)"

definition ex_ch_tcp_keepalives :: lyd_node where
  "ex_ch_tcp_keepalives =
     leaf ''keepalives'' [] (Some (leaf ''tcp-client-parameters'' [] (Some ex_ch_ssh)))"

definition ex_hostkey_changes :: "change list" where
  "ex_hostkey_changes =
     [changed SR_OP_CREATED (ex_hostkey ''k1''), changed SR_OP_CREATED (ex_hostkey ''k2''),
      changed SR_OP_CREATED (ex_hostkey ''k3'')]"

text \<open>The key file of the spec's example, an account and its files, and two keys.\<close>

definition example_key_file :: string where
  "example_key_file =
     ''# comment'' @ [CHR 0x0A, CHR 0x0A] @ ''ssh-rsa AAAAB3Nz... user@host'' @ [CHR 0x0A]"

definition alice :: passwd where
  "alice = \<lparr>pw_name = ''alice'', pw_dir = ''/home/alice''\<rparr>"

definition alice_file :: "fopen_result \<Rightarrow> string \<Rightarrow> fopen_result" where
  "alice_file f p = (if p = ''/home/alice/.ssh/authorized_keys'' then f else Fopen_null ENOENT)"


definition ex_passwd :: "string \<Rightarrow> passwd option" where
  "ex_passwd u = (if u = ''alice'' then Some alice else None)"

definition ex_pubkey :: "string \<Rightarrow> ssh_key" where
  "ex_pubkey m = \<lparr>key_public = m, key_private = None\<rparr>"

definition ex_keys :: "string \<Rightarrow> ssh_key list option" where
  "ex_keys p =
     (if p = ''/home/alice/.ssh/authorized_keys'' then Some [ex_pubkey ''AAAA'', ex_pubkey ''BBBB'']
      else None)"

section \<open>Lemmas\<close>

lemmas ex_defs = leaf_def entry_def ex_ssh_def ex_params_def ex_hostkey_def ex_max_wait_def
  ex_tcp_keepalives_def ex_client_def ex_periodic_def changed_def delivers_def w0_def
  nc_record_def list_key_def child_def eval_nat_numeral

lemmas run_defs = scan_children_def scan_changes_def Let_def alloc_def log_def call_def

lemma alloc_unlimited: "allocs w = [] \<Longrightarrow> alloc w = (True, w)"
  by (simp add: alloc_def)

lemma dec_length_1: "n < 10 \<Longrightarrow> length (dec n) = 1"
  by (subst dec.simps) simp

lemma dec_length_2: "10 \<le> n \<Longrightarrow> n < 100 \<Longrightarrow> length (dec n) = 2"
  by (subst dec.simps) (simp add: dec_length_1)



lemma key_name_fits: "unat key_idx \<le> 99 \<Longrightarrow> length (''key'' @ dec (unat key_idx)) + 1 \<le> 6"
proof -
  assume a: "unat key_idx \<le> 99"
  show ?thesis
  proof (cases "unat key_idx < 10")
    case True
    then show ?thesis by (simp add: dec_length_1)
  next
    case False
    with a show ?thesis by (simp add: dec_length_2)
  qed
qed




lemma add_auth_key_unlimited:
  assumes "unat key_idx \<le> 99" and "allocs w = []"
  shows "np2srv_user_add_auth_key alg alg_len key key_len user key_idx w
           = Inr (0, user @ [Out_inner ''authorized-key''
                     [Out_leaf ''name'' (''key'' @ dec (unat key_idx)),
                      Out_leaf ''algorithm'' (take alg_len alg),
                      Out_leaf ''key-data'' (take key_len key)]], key_idx + 1, w)"
  using key_name_fits [OF assms(1)] assms(2)
  by (simp add: np2srv_user_add_auth_key_def Let_def alloc_unlimited)






lemma strchr_set: "strchr s c = Some p \<Longrightarrow> set p \<subseteq> set s"
  by (induction s) (auto split: if_splits)

lemma find_alg_blank:
  "set s \<subseteq> {CHR '' '', CHR 0x09, CHR 0x0D, CHR 0x0A} \<Longrightarrow> find_alg s = None"
proof (induction s rule: find_alg.induct)
  case (1 ptr)
  have no: "\<not> strncmp_eq ptr ''ssh-dss'' 7 \<and> \<not> strncmp_eq ptr ''ssh-rsa'' 7
         \<and> \<not> strncmp_eq ptr ''ecdsa'' 5"
    using "1.prems" by (cases ptr) (auto simp: strncmp_eq_def)
  show ?case
  proof (cases "strchr ptr (CHR '' '')")
    case None
    with no show ?thesis by (subst find_alg.simps) simp
  next
    case (Some p)
    from strchr_set [OF Some] "1.prems" have "set p \<subseteq> {CHR '' '', CHR 0x09, CHR 0x0D, CHR 0x0A}"
      by blast
    moreover have "set (tl p) \<subseteq> set p" by (cases p) auto
    ultimately have "set (tl p) \<subseteq> {CHR '' '', CHR 0x09, CHR 0x0D, CHR 0x0A}" by blast
    with "1.IH" no Some have "find_alg (tl p) = None" by blast
    with no Some show ?thesis by (subst find_alg.simps) simp
  qed
qed

lemma comment_or_blank_skipped:
  assumes "comment_or_blank line"
  shows "authorized_key_line (cstr line) = Inr None"
proof (cases "take 1 line = ''#''")
  case True
  then obtain rest where "line = CHR ''#'' # rest" by (cases line) auto
  then show ?thesis by (simp add: authorized_key_line_def cstr_def)
next
  case False
  with assms have "set line \<subseteq> {CHR '' '', CHR 0x09, CHR 0x0D, CHR 0x0A}"
    by (simp add: comment_or_blank_def)
  moreover have "set (cstr line) \<subseteq> set line"
    unfolding cstr_def by (auto dest: set_takeWhileD)
  ultimately have "set (cstr line) \<subseteq> {CHR '' '', CHR 0x09, CHR 0x0D, CHR 0x0A}" by blast
  then have "find_alg (cstr line) = None" by (rule find_alg_blank)
  then show ?thesis by (simp add: authorized_key_line_def)
qed

lemma auth_keys_loop_skips:
  "list_all comment_or_blank ls \<Longrightarrow> auth_keys_loop ls user key_idx w = Inr (0, user, key_idx, w)"
  by (induction ls) (simp_all add: comment_or_blank_skipped)

lemma example_lines:
  "getlines example_key_file
     = [''# comment'' @ [CHR 0x0A], [CHR 0x0A], ''ssh-rsa AAAAB3Nz... user@host'' @ [CHR 0x0A]]"
  by (simp add: example_key_file_def)

lemma example_line_1: "authorized_key_line (cstr (''# comment'' @ [CHR 0x0A])) = Inr None"
  by (simp add: comment_or_blank_skipped comment_or_blank_def)

lemma example_line_2: "authorized_key_line (cstr [CHR 0x0A]) = Inr None"
  by (simp add: comment_or_blank_skipped comment_or_blank_def)

lemma example_line_3:
  "authorized_key_line (cstr (''ssh-rsa AAAAB3Nz... user@host'' @ [CHR 0x0A]))
     = Inr (Some (''ssh-rsa AAAAB3Nz... user@host'' @ [CHR 0x0A], 7,
                  ''AAAAB3Nz... user@host'' @ [CHR 0x0A], 11))"
  by code_simp

lemma key_without_comment_faults:
  "authorized_key_line (cstr (''ssh-rsa AAAAB3Nz...'' @ [CHR 0x0A])) = Inl Null_deref"
  by code_simp

lemma dec_1: "dec (Suc 0) = ''1''"
  by (subst dec.simps) (simp add: digit_def)

lemma example_keys:
  "allocs w = [] \<Longrightarrow>
   auth_keys_loop (getlines example_key_file) user 1 w
     = Inr (0, user @ [Out_inner ''authorized-key''
                         [Out_leaf ''name'' ''key1'', Out_leaf ''algorithm'' ''ssh-rsa'',
                          Out_leaf ''key-data'' ''AAAAB3Nz...'']], 2, w)"
  by (simp add: example_lines example_line_1 [simplified] example_line_2 [simplified]
      example_line_3 [simplified] add_auth_key_unlimited dec_1)



lemma key_files_of_an_account:
  assumes "allocs w = []"
  shows
   "(fopen (pw_dir pwd @ ''/.ssh/authorized_keys'')
        = Fopen_file \<lparr>file_data = example_key_file, file_error = False\<rparr> \<longrightarrow>
      users_loop fopen (pwd # pwds) users w
        = users_loop fopen pwds
            (users @ [Out_inner ''user''
               [Out_leaf ''name'' (pw_name pwd),
                Out_inner ''authorized-key''
                  [Out_leaf ''name'' ''key1'', Out_leaf ''algorithm'' ''ssh-rsa'',
                   Out_leaf ''key-data'' ''AAAAB3Nz...'']]]) w)
  \<and> (fopen (pw_dir pwd @ ''/.ssh/authorized_keys'')
        = Fopen_file \<lparr>file_data = d, file_error = False\<rparr>
      \<and> list_all comment_or_blank (getlines d) \<longrightarrow>
      users_loop fopen (pwd # pwds) users w
        = users_loop fopen pwds (users @ [Out_inner ''user'' [Out_leaf ''name'' (pw_name pwd)]]) w)
  \<and> (fopen (pw_dir pwd @ ''/.ssh/authorized_keys'') = Fopen_null ENOENT \<longrightarrow>
      users_loop fopen (pwd # pwds) users w
        = users_loop fopen pwds (users @ [Out_inner ''user'' [Out_leaf ''name'' (pw_name pwd)]]) w)
  \<and> (fopen (pw_dir pwd @ ''/.ssh/authorized_keys'') = Fopen_null e \<and> e \<noteq> ENOENT \<longrightarrow>
      users_loop fopen (pwd # pwds) users w = Inl Missing_argument)"
  using assms
  by (simp add: alloc_unlimited example_keys auth_keys_loop_skips)

lemma key_files_of_alice:
  "np2srv_endpt_ssh_auth_users_oper_cb
      (alice_file (Fopen_file \<lparr>file_data = example_key_file, file_error = False\<rparr>)) [alice] w0
    = Inr (SR_ERR_OK,
           Some (Out_inner ''users''
             [Out_inner ''user''
                [Out_leaf ''name'' ''alice'',
                 Out_inner ''authorized-key''
                   [Out_leaf ''name'' ''key1'', Out_leaf ''algorithm'' ''ssh-rsa'',
                    Out_leaf ''key-data'' ''AAAAB3Nz...'']]]), w0)
 \<and> np2srv_endpt_ssh_auth_users_oper_cb
      (alice_file (Fopen_file \<lparr>file_data = ''# only a comment'' @ [CHR 0x0A, CHR 0x0A],
                              file_error = False\<rparr>)) [alice] w0
    = Inr (SR_ERR_OK,
           Some (Out_inner ''users'' [Out_inner ''user'' [Out_leaf ''name'' ''alice'']]), w0)
 \<and> np2srv_endpt_ssh_auth_users_oper_cb (alice_file (Fopen_null ENOENT)) [alice] w0
    = Inr (SR_ERR_OK,
           Some (Out_inner ''users'' [Out_inner ''user'' [Out_leaf ''name'' ''alice'']]), w0)"
proof -
  have a: "allocs w0 = []" by (simp add: w0_def)
  have p: "\<And>f. alice_file f (pw_dir alice @ ''/.ssh/authorized_keys'') = f"
    by (simp add: alice_file_def alice_def)
  have c: "list_all comment_or_blank (getlines (''# only a comment'' @ [CHR 0x0A, CHR 0x0A]))"
    by (simp add: comment_or_blank_def)
  note t = key_files_of_an_account [OF a, where pwd = alice and pwds = "[]" and users = "[]"
      and d = "''# only a comment'' @ [CHR 0x0A, CHR 0x0A]"]
  from t [where fopen = "alice_file (Fopen_file \<lparr>file_data = example_key_file, file_error = False\<rparr>)"] p
  have "users_loop (alice_file (Fopen_file \<lparr>file_data = example_key_file, file_error = False\<rparr>))
          [alice] [] w0
    = Inr (SR_ERR_OK,
             [Out_inner ''user''
                [Out_leaf ''name'' ''alice'',
                 Out_inner ''authorized-key''
                   [Out_leaf ''name'' ''key1'', Out_leaf ''algorithm'' ''ssh-rsa'',
                    Out_leaf ''key-data'' ''AAAAB3Nz...'']]], w0)"
    by (simp add: alice_def)
  moreover
  from t [where fopen = "alice_file (Fopen_file \<lparr>file_data = ''# only a comment'' @ [CHR 0x0A, CHR 0x0A],
                              file_error = False\<rparr>)"] p c
  have "users_loop (alice_file (Fopen_file \<lparr>file_data = ''# only a comment'' @ [CHR 0x0A, CHR 0x0A],
                              file_error = False\<rparr>)) [alice] [] w0
    = Inr (SR_ERR_OK, [Out_inner ''user'' [Out_leaf ''name'' ''alice'']], w0)"
    by (simp add: alice_def)
  moreover
  from t [where fopen = "alice_file (Fopen_null ENOENT)"] p
  have "users_loop (alice_file (Fopen_null ENOENT)) [alice] [] w0
    = Inr (SR_ERR_OK, [Out_inner ''user'' [Out_leaf ''name'' ''alice'']], w0)"
    by (simp add: alice_def)
  ultimately show ?thesis
    by (simp add: np2srv_endpt_ssh_auth_users_oper_cb_def alloc_unlimited [OF a])
qed

lemma replay_run_calls:
  "\<exists>n tr s. n \<le> length cs \<and> run_calls nc (take n cs) (live w) = (tr, s)
     \<and> snd (replay nc cs w) = w\<lparr>live := s, trace := trace w @ called tr\<rparr>
     \<and> succeeded (butlast tr)
     \<and> (fst (replay nc cs w) \<noteq> 0 \<longrightarrow> tr \<noteq> [] \<and> snd (last tr) \<noteq> 0)
     \<and> (fst (replay nc cs w) = 0 \<longrightarrow> n = length cs \<and> succeeded tr)"
proof (induction cs arbitrary: w)
  case Nil
  show ?case by (simp add: called_def succeeded_def)
next
  case (Cons c cs)
  obtain r s1 where ncs: "nc c (live w) = (r, s1)" by (cases "nc c (live w)")
  define w1 where "w1 = w\<lparr>live := s1, trace := trace w @ [Nc c r]\<rparr>"
  have c1: "call nc c w = (r, w1)" by (simp add: call_def ncs w1_def)
  show ?case
  proof (cases "r = 0")
    case False
    have "run_calls nc (take 1 (c # cs)) (live w) = ([(c, r)], s1)"
      by (simp add: ncs)
    moreover have "snd (replay nc (c # cs) w) = w\<lparr>live := s1, trace := trace w @ called [(c, r)]\<rparr>"
      using False c1 by (simp add: w1_def called_def)
    moreover have "fst (replay nc (c # cs) w) \<noteq> 0" using False c1 by simp
    ultimately show ?thesis
      by (intro exI [of _ 1] exI [of _ "[(c, r)]"] exI [of _ s1]) (simp add: succeeded_def False)
  next
    case True
    from Cons.IH [of w1] obtain n tr s where n: "n \<le> length cs"
      and run: "run_calls nc (take n cs) (live w1) = (tr, s)"
      and snd: "snd (replay nc cs w1) = w1\<lparr>live := s, trace := trace w1 @ called tr\<rparr>"
      and bl: "succeeded (butlast tr)"
      and f: "fst (replay nc cs w1) \<noteq> 0 \<longrightarrow> tr \<noteq> [] \<and> snd (last tr) \<noteq> 0"
      and z: "fst (replay nc cs w1) = 0 \<longrightarrow> n = length cs \<and> succeeded tr"
      by blast
    have rp: "replay nc (c # cs) w = replay nc cs w1" using True c1 by simp
    have "run_calls nc (take (Suc n) (c # cs)) (live w) = ((c, r) # tr, s)"
      using run ncs by (simp add: w1_def)
    moreover have "snd (replay nc (c # cs) w) = w\<lparr>live := s, trace := trace w @ called ((c, r) # tr)\<rparr>"
      using snd rp by (simp add: w1_def called_def)
    moreover have "succeeded (butlast ((c, r) # tr))"
      using bl True by (simp add: succeeded_def)
    moreover have "fst (replay nc (c # cs) w) \<noteq> 0 \<longrightarrow> (c, r) # tr \<noteq> [] \<and> snd (last ((c, r) # tr)) \<noteq> 0"
      using f rp by simp
    moreover have "fst (replay nc (c # cs) w) = 0 \<longrightarrow> Suc n = length (c # cs) \<and> succeeded ((c, r) # tr)"
      using z rp True by (simp add: succeeded_def)
    ultimately show ?thesis using n
      by (intro exI [of _ "Suc n"] exI [of _ "(c, r) # tr"] exI [of _ s]) simp
  qed
qed

lemma replay_append:
  "replay nc (xs @ ys) w =
     (case replay nc xs w of (r, w') \<Rightarrow> if r \<noteq> 0 then (r, w') else replay nc ys w')"
  by (induction xs arbitrary: w) (auto split: prod.splits)

lemma changes_loop_replay:
  assumes "\<And>c w. body c w = stop_at_failure nc path (muts c) w"
  shows "those (map muts evs) = Some ms \<Longrightarrow>
         changes_loop body evs w = stop_at_failure nc path (Some (concat ms)) w"
proof (induction evs arbitrary: w ms)
  case Nil
  then show ?case by (simp add: stop_at_failure_def)
next
  case (Cons c evs)
  from Cons.prems obtain m ms' where m: "muts c = Some m"
    and ms': "those (map muts evs) = Some ms'" and ms: "ms = m # ms'"
    by (auto split: option.splits)
  obtain r w1 where r: "replay nc m w = (r, w1)" by (cases "replay nc m w")
  show ?case
  proof (cases "r = 0")
    case False
    with r m ms show ?thesis
      by (simp add: assms stop_at_failure_def replay_append)
  next
    case True
    with r m have "body c w = Inr (None, w1)" by (simp add: assms stop_at_failure_def)
    with Cons.IH [OF ms', of w1] r True ms show ?thesis
      by (simp add: stop_at_failure_def replay_append)
  qed
qed

lemma scan_changes_applied_in_order:
  assumes body: "\<And>c w. body c w = stop_at_failure nc path (muts c) w"
    and it: "session path = it" "iter_rc it = SR_ERR_OK" "iter_end it \<noteq> SR_ERR_OK"
    and shape: "those (map muts (iter_changes it)) = Some ms"
  shows "\<exists>res. scan_changes session path body w = Inr res
           \<and> applied_in_order nc it path (concat ms) w res"
proof -
  define w1 where "w1 = log (Sr_get_changes_iter path SR_ERR_OK) w"
  from replay_run_calls [of "concat ms" nc w1]
  obtain n tr s where n: "n \<le> length (concat ms)"
    and run: "run_calls nc (take n (concat ms)) (live w1) = (tr, s)"
    and snd: "snd (replay nc (concat ms) w1) = w1\<lparr>live := s, trace := trace w1 @ called tr\<rparr>"
    and bl: "succeeded (butlast tr)"
    and f: "fst (replay nc (concat ms) w1) \<noteq> 0 \<longrightarrow> tr \<noteq> [] \<and> snd (last tr) \<noteq> 0"
    and z: "fst (replay nc (concat ms) w1) = 0 \<longrightarrow> n = length (concat ms) \<and> succeeded tr"
    by blast
  obtain r w2 where rp: "replay nc (concat ms) w1 = (r, w2)"
    by (cases "replay nc (concat ms) w1")
  with snd have w2: "w2 = w1\<lparr>live := s, trace := trace w1 @ called tr\<rparr>" by simp
  have loop: "changes_loop body (iter_changes it) w1 =
      (if r \<noteq> 0 then Inr (Some SR_ERR_INTERNAL, log (Sr_free_change_iter path) w2)
       else Inr (None, w2))"
    using changes_loop_replay [of body nc path muts, OF body shape, of w1] rp
    by (simp add: stop_at_failure_def)
  define rc where "rc = (if r \<noteq> 0 then SR_ERR_INTERNAL
      else if iter_end it = SR_ERR_NOT_FOUND then SR_ERR_OK else iter_end it)"
  define w' where "w' = w\<lparr>live := s,
                 trace := trace w @ [Sr_get_changes_iter path SR_ERR_OK] @ called tr
                          @ [Sr_free_change_iter path]\<rparr>"
  have cb: "scan_changes session path body w = Inr (rc, w')"
    using it(1,2) loop
    by (simp add: scan_changes_def Let_def w1_def [symmetric] rc_def)
       (simp add: w2 w1_def log_def w'_def)
  have fails: "r \<noteq> 0 \<Longrightarrow> \<not> succeeded tr"
  proof -
    assume "r \<noteq> 0"
    with f rp have ne: "tr \<noteq> []" and l: "snd (last tr) \<noteq> 0" by simp_all
    from ne l have "\<exists>x\<in>set tr. snd x \<noteq> 0"
      by (intro bexI [of _ "last tr"]) simp_all
    then show "\<not> succeeded tr" by (auto simp: succeeded_def list_all_iff)
  qed
  have ok: "r = 0 \<Longrightarrow> n = length (concat ms) \<and> succeeded tr" using z rp by simp
  have c1: "(if succeeded tr
            then n = length (concat ms)
               \<and> rc = (if iter_end it = SR_ERR_NOT_FOUND then SR_ERR_OK else iter_end it)
            else rc = SR_ERR_INTERNAL)"
    using fails ok by (cases "r = 0") (simp_all add: rc_def)
  have c2: "(rc = SR_ERR_OK) = (iter_end it = SR_ERR_NOT_FOUND \<and> succeeded tr)"
    using fails ok it(3) by (cases "r = 0") (auto simp: rc_def)
  from run have run': "run_calls nc (take n (concat ms)) (live w) = (tr, s)"
    by (simp add: w1_def log_def)
  have "applied_in_order nc it path (concat ms) w (rc, w')"
    unfolding applied_in_order_def
    using n run' bl c1 c2
    by (intro exI [of _ n] exI [of _ tr] exI [of _ s] exI [of _ rc]) (simp add: w'_def)
  with cb show ?thesis by blast
qed


lemma stop_at_failure_one:
  "stop_at_failure nc path (Some [c]) w = checked_call nc c path w"
  by (simp add: stop_at_failure_def checked_call_def split: prod.splits)

lemma stop_at_failure_none:
  "stop_at_failure nc path (Some []) w = Inr (None, w)"
  by (simp add: stop_at_failure_def)

lemma hostkey_body_stops:
  "endpt_ssh_hostkey_body nc xpath c w = stop_at_failure nc xpath (hostkey_mutation c) w"
proof (cases "list_key 4 (node c)")
  case None
  then show ?thesis
    by (simp add: endpt_ssh_hostkey_body_def hostkey_mutation_def stop_at_failure_def)
next
  case (Some ep)
  show ?thesis
  proof (cases "child (node c)")
    case None
    with Some show ?thesis
      by (cases "oper c")
         (simp_all add: endpt_ssh_hostkey_body_def hostkey_mutation_def stop_at_failure_def)
  next
    case (Some k)
    with \<open>list_key 4 (node c) = Some ep\<close> show ?thesis
      by (cases "oper c")
         (simp_all add: endpt_ssh_hostkey_body_def hostkey_mutation_def stop_at_failure_one
            stop_at_failure_none checked_call_def split: prod.splits)
  qed
qed

lemma ch_hostkey_body_stops:
  "ch_endpt_ssh_hostkey_body nc xpath c w = stop_at_failure nc xpath (ch_hostkey_mutation c) w"
proof (cases "list_key 4 (node c)")
  case None
  then show ?thesis
    by (simp add: ch_endpt_ssh_hostkey_body_def ch_hostkey_mutation_def stop_at_failure_def)
next
  case ep: (Some ep)
  show ?thesis
  proof (cases "list_key 6 (node c)")
    case None
    with ep show ?thesis
      by (simp add: ch_endpt_ssh_hostkey_body_def ch_hostkey_mutation_def stop_at_failure_def)
  next
    case cl: (Some cl)
    show ?thesis
    proof (cases "child (node c)")
      case None
      with ep cl show ?thesis
        by (cases "oper c")
           (simp_all add: ch_endpt_ssh_hostkey_body_def ch_hostkey_mutation_def
              stop_at_failure_def)
    next
      case (Some k)
      with ep cl show ?thesis
        by (cases "oper c")
           (simp_all add: ch_endpt_ssh_hostkey_body_def ch_hostkey_mutation_def
              stop_at_failure_one stop_at_failure_none checked_call_def split: prod.splits)
    qed
  qed
qed

lemma auth_body_stops:
  "endpt_ssh_keepalives_body nc xpath c w
     = stop_at_failure nc (xpath @ ''/*'') (auth_mutation c) w"
proof (cases "list_key 4 (node c)")
  case None
  then show ?thesis
    by (simp add: endpt_ssh_keepalives_body_def auth_mutation_def stop_at_failure_def)
next
  case (Some ep)
  then show ?thesis
    by (simp add: endpt_ssh_keepalives_body_def auth_mutation_def stop_at_failure_one
          stop_at_failure_none checked_call_def split: prod.splits)
qed

lemma ch_auth_body_stops:
  "ch_endpt_ssh_keepalives_body nc xpath c w
     = stop_at_failure nc (xpath @ ''/*'') (ch_auth_mutation c) w"
proof (cases "list_key 4 (node c)")
  case None
  then show ?thesis
    by (simp add: ch_endpt_ssh_keepalives_body_def ch_auth_mutation_def stop_at_failure_def)
next
  case ep: (Some ep)
  show ?thesis
  proof (cases "list_key 6 (node c)")
    case None
    with ep show ?thesis
      by (simp add: ch_endpt_ssh_keepalives_body_def ch_auth_mutation_def stop_at_failure_def)
  next
    case (Some cl)
    with ep show ?thesis
      by (simp add: ch_endpt_ssh_keepalives_body_def ch_auth_mutation_def stop_at_failure_one
            stop_at_failure_none checked_call_def split: prod.splits)
  qed
qed

lemma ch_client_body_stops:
  "ch_client_body nc xpath c w = stop_at_failure nc xpath (ch_client_mutation c) w"
proof (cases "child (node c)")
  case None
  then show ?thesis
    by (simp add: ch_client_body_def ch_client_mutation_def stop_at_failure_def)
next
  case (Some k)
  then show ?thesis
    by (cases "oper c")
       (auto simp: ch_client_body_def ch_client_mutation_def stop_at_failure_def
          split: prod.splits)
qed

lemma periodic_body_stops:
  "ch_periodic_body nc dt cl xpath c w = stop_at_failure nc xpath (periodic_mutation dt cl c) w"
  by (simp add: ch_periodic_body_def periodic_mutation_def stop_at_failure_one
        stop_at_failure_none checked_call_def split: prod.splits)

lemma reconnect_body_stops:
  "ch_reconnect_strategy_body nc xpath c w
     = stop_at_failure nc (xpath @ ''/*'') (reconnect_mutation c) w"
proof (cases "list_key 2 (node c)")
  case None
  then show ?thesis
    by (simp add: ch_reconnect_strategy_body_def reconnect_mutation_def stop_at_failure_def)
next
  case (Some cl)
  then show ?thesis
    by (simp add: ch_reconnect_strategy_body_def reconnect_mutation_def stop_at_failure_one
          stop_at_failure_none checked_call_def split: prod.splits)
qed


lemma idle_timeout_loop_run:
  "run_calls nc (idle_timeout_mutations evs) (live w) = (tr, s) \<Longrightarrow>
   changes_loop (idle_timeout_body nc) evs w
     = Inr (None, w\<lparr>live := s, trace := trace w @ called tr\<rparr>)"
proof (induction evs arbitrary: w tr s)
  case Nil
  then show ?case by (simp add: idle_timeout_mutations_def called_def)
next
  case (Cons c evs)
  show ?case
  proof (cases "oper c = SR_OP_CREATED \<or> oper c = SR_OP_MODIFIED")
    case False
    with Cons.prems have "run_calls nc (idle_timeout_mutations evs) (live w) = (tr, s)"
      by (simp add: idle_timeout_mutations_def)
    from Cons.IH [OF this] False show ?thesis by (simp add: idle_timeout_body_def)
  next
    case True
    define m where "m = nc_server_set_idle_timeout (uint (value_uint16 (node c)))"
    obtain r s1 where ncs: "nc m (live w) = (r, s1)" by (cases "nc m (live w)")
    define w1 where "w1 = w\<lparr>live := s1, trace := trace w @ [Nc m r]\<rparr>"
    obtain tr' s' where run': "run_calls nc (idle_timeout_mutations evs) s1 = (tr', s')"
      by (cases "run_calls nc (idle_timeout_mutations evs) s1")
    from True Cons.prems ncs run' have tr: "tr = (m, r) # tr'" and s: "s = s'"
      by (auto simp: idle_timeout_mutations_def m_def)
    from run' have "run_calls nc (idle_timeout_mutations evs) (live w1) = (tr', s')"
      by (simp add: w1_def)
    from Cons.IH [OF this] have "changes_loop (idle_timeout_body nc) evs w1
        = Inr (None, w1\<lparr>live := s', trace := trace w1 @ called tr'\<rparr>)" .
    moreover from True ncs have "idle_timeout_body nc c w = Inr (None, w1)"
      by (simp add: idle_timeout_body_def call_def m_def w1_def)
    ultimately show ?thesis by (simp add: tr s w1_def called_def)
  qed
qed

lemma endpt_ssh_created:
  assumes "oper c = SR_OP_CREATED" and "list_key 1 (node c) = Some ep"
  shows "\<exists>r1 s1 r2 s2.
         nc (nc_server_add_endpt ep) (live w) = (r1, s1)
       \<and> nc (nc_server_ssh_endpt_set_auth_methods ep 0) s1 = (r2, s2)
       \<and> endpt_ssh_body nc xpath c w =
           Inr (if r1 \<noteq> 0 then Some SR_ERR_INTERNAL else None,
                w\<lparr>live := s2,
                  trace := trace w @ [Nc (nc_server_add_endpt ep) r1,
                                      Nc (nc_server_ssh_endpt_set_auth_methods ep 0) r2]
                           @ (if r1 \<noteq> 0 then [Sr_free_change_iter xpath] else [])\<rparr>)"
proof -
  obtain r1 s1 where a: "nc (nc_server_add_endpt ep) (live w) = (r1, s1)"
    by (cases "nc (nc_server_add_endpt ep) (live w)")
  obtain r2 s2 where b: "nc (nc_server_ssh_endpt_set_auth_methods ep 0) s1 = (r2, s2)"
    by (cases "nc (nc_server_ssh_endpt_set_auth_methods ep 0) s1")
  have "endpt_ssh_body nc xpath c w =
           Inr (if r1 \<noteq> 0 then Some SR_ERR_INTERNAL else None,
                w\<lparr>live := s2,
                  trace := trace w @ [Nc (nc_server_add_endpt ep) r1,
                                      Nc (nc_server_ssh_endpt_set_auth_methods ep 0) r2]
                           @ (if r1 \<noteq> 0 then [Sr_free_change_iter xpath] else [])\<rparr>)"
    using assms a b by (simp add: endpt_ssh_body_def call_def log_def)
  with a b show ?thesis by blast
qed

lemma ch_client_endpt_ssh_created:
  assumes "oper c = SR_OP_CREATED" and "list_key 1 (node c) = Some ep"
    and "list_key 3 (node c) = Some cl"
  shows "\<exists>r1 s1 r2 s2.
         nc (nc_server_ch_client_add_endpt cl ep) (live w) = (r1, s1)
       \<and> nc (nc_server_ssh_ch_client_endpt_set_auth_methods cl ep 0) s1 = (r2, s2)
       \<and> ch_client_endpt_ssh_body nc xpath c w =
           Inr (if r1 \<noteq> 0 then Some SR_ERR_INTERNAL else None,
                w\<lparr>live := s2,
                  trace := trace w @ [Nc (nc_server_ch_client_add_endpt cl ep) r1,
                                      Nc (nc_server_ssh_ch_client_endpt_set_auth_methods cl ep 0) r2]
                           @ (if r1 \<noteq> 0 then [Sr_free_change_iter xpath] else [])\<rparr>)"
proof -
  obtain r1 s1 where a: "nc (nc_server_ch_client_add_endpt cl ep) (live w) = (r1, s1)"
    by (cases "nc (nc_server_ch_client_add_endpt cl ep) (live w)")
  obtain r2 s2 where b: "nc (nc_server_ssh_ch_client_endpt_set_auth_methods cl ep 0) s1 = (r2, s2)"
    by (cases "nc (nc_server_ssh_ch_client_endpt_set_auth_methods cl ep 0) s1")
  have "ch_client_endpt_ssh_body nc xpath c w =
           Inr (if r1 \<noteq> 0 then Some SR_ERR_INTERNAL else None,
                w\<lparr>live := s2,
                  trace := trace w @ [Nc (nc_server_ch_client_add_endpt cl ep) r1,
                                      Nc (nc_server_ssh_ch_client_endpt_set_auth_methods cl ep 0) r2]
                           @ (if r1 \<noteq> 0 then [Sr_free_change_iter xpath] else [])\<rparr>)"
    using assms a b by (simp add: ch_client_endpt_ssh_body_def call_def log_def)
  with a b show ?thesis by blast
qed

lemma ch_client_created:
  assumes "oper c = SR_OP_CREATED" and "child (node c) = Some k"
  shows "\<exists>r1 s1 r2 s2.
         nc (nc_server_ch_add_client (value_str k)) (live w) = (r1, s1)
       \<and> nc (nc_connect_ch_client_dispatch (value_str k)) s1 = (r2, s2)
       \<and> ch_client_body nc xpath c w =
           (if r1 \<noteq> 0
            then Inr (Some SR_ERR_INTERNAL,
                      w\<lparr>live := s1,
                        trace := trace w @ [Nc (nc_server_ch_add_client (value_str k)) r1,
                                            Sr_free_change_iter xpath]\<rparr>)
            else Inr (if r2 \<noteq> 0 then Some SR_ERR_INTERNAL else None,
                      w\<lparr>live := s2,
                        trace := trace w @ [Nc (nc_server_ch_add_client (value_str k)) 0,
                                            Nc (nc_connect_ch_client_dispatch (value_str k)) r2]
                                 @ (if r2 \<noteq> 0 then [Sr_free_change_iter xpath] else [])\<rparr>))"
proof -
  obtain r1 s1 where a: "nc (nc_server_ch_add_client (value_str k)) (live w) = (r1, s1)"
    by (cases "nc (nc_server_ch_add_client (value_str k)) (live w)")
  obtain r2 s2 where b: "nc (nc_connect_ch_client_dispatch (value_str k)) s1 = (r2, s2)"
    by (cases "nc (nc_connect_ch_client_dispatch (value_str k)) s1")
  have "ch_client_body nc xpath c w =
           (if r1 \<noteq> 0
            then Inr (Some SR_ERR_INTERNAL,
                      w\<lparr>live := s1,
                        trace := trace w @ [Nc (nc_server_ch_add_client (value_str k)) r1,
                                            Sr_free_change_iter xpath]\<rparr>)
            else Inr (if r2 \<noteq> 0 then Some SR_ERR_INTERNAL else None,
                      w\<lparr>live := s2,
                        trace := trace w @ [Nc (nc_server_ch_add_client (value_str k)) 0,
                                            Nc (nc_connect_ch_client_dispatch (value_str k)) r2]
                                 @ (if r2 \<noteq> 0 then [Sr_free_change_iter xpath] else [])\<rparr>))"
    using assms a b by (simp add: ch_client_body_def call_def log_def)
  with a b show ?thesis by blast
qed

lemma lifecycle_deleted:
  assumes "oper c = SR_OP_DELETED"
  shows "list_key 1 (node c) = Some ep \<Longrightarrow>
      \<exists>r s. nc (nc_server_del_endpt ep) (live w) = (r, s)
       \<and> endpt_ssh_body nc xpath c w =
           Inr (if r \<noteq> 0 then Some SR_ERR_INTERNAL else None,
                w\<lparr>live := s,
                  trace := trace w @ [Nc (nc_server_del_endpt ep) r]
                           @ (if r \<noteq> 0 then [Sr_free_change_iter xpath] else [])\<rparr>)"
    and "list_key 1 (node c) = Some ep \<Longrightarrow> list_key 3 (node c) = Some cl \<Longrightarrow>
      \<exists>r s. nc (nc_server_ch_client_del_endpt cl ep) (live w) = (r, s)
       \<and> ch_client_endpt_ssh_body nc xpath c w =
           Inr (if r \<noteq> 0 then Some SR_ERR_INTERNAL else None,
                w\<lparr>live := s,
                  trace := trace w @ [Nc (nc_server_ch_client_del_endpt cl ep) r]
                           @ (if r \<noteq> 0 then [Sr_free_change_iter xpath] else [])\<rparr>)"
    and "child (node c) = Some k \<Longrightarrow>
      \<exists>r s. nc (nc_server_ch_del_client (value_str k)) (live w) = (r, s)
       \<and> ch_client_body nc xpath c w =
           Inr (if r \<noteq> 0 then Some SR_ERR_INTERNAL else None,
                w\<lparr>live := s,
                  trace := trace w @ [Nc (nc_server_ch_del_client (value_str k)) r]
                           @ (if r \<noteq> 0 then [Sr_free_change_iter xpath] else [])\<rparr>)"
proof -
  show "list_key 1 (node c) = Some ep \<Longrightarrow>
      \<exists>r s. nc (nc_server_del_endpt ep) (live w) = (r, s)
       \<and> endpt_ssh_body nc xpath c w =
           Inr (if r \<noteq> 0 then Some SR_ERR_INTERNAL else None,
                w\<lparr>live := s,
                  trace := trace w @ [Nc (nc_server_del_endpt ep) r]
                           @ (if r \<noteq> 0 then [Sr_free_change_iter xpath] else [])\<rparr>)"
    using assms
    by (cases "nc (nc_server_del_endpt ep) (live w)")
       (simp add: endpt_ssh_body_def call_def log_def)
  show "list_key 1 (node c) = Some ep \<Longrightarrow> list_key 3 (node c) = Some cl \<Longrightarrow>
      \<exists>r s. nc (nc_server_ch_client_del_endpt cl ep) (live w) = (r, s)
       \<and> ch_client_endpt_ssh_body nc xpath c w =
           Inr (if r \<noteq> 0 then Some SR_ERR_INTERNAL else None,
                w\<lparr>live := s,
                  trace := trace w @ [Nc (nc_server_ch_client_del_endpt cl ep) r]
                           @ (if r \<noteq> 0 then [Sr_free_change_iter xpath] else [])\<rparr>)"
    using assms
    by (cases "nc (nc_server_ch_client_del_endpt cl ep) (live w)")
       (simp add: ch_client_endpt_ssh_body_def call_def log_def)
  show "child (node c) = Some k \<Longrightarrow>
      \<exists>r s. nc (nc_server_ch_del_client (value_str k)) (live w) = (r, s)
       \<and> ch_client_body nc xpath c w =
           Inr (if r \<noteq> 0 then Some SR_ERR_INTERNAL else None,
                w\<lparr>live := s,
                  trace := trace w @ [Nc (nc_server_ch_del_client (value_str k)) r]
                           @ (if r \<noteq> 0 then [Sr_free_change_iter xpath] else [])\<rparr>)"
    using assms
    by (cases "nc (nc_server_ch_del_client (value_str k)) (live w)")
       (simp add: ch_client_body_def call_def log_def)
qed

lemma pubkey_auth_accepts:
  "(fst (np2srv_pubkey_auth_cb getpwnam imp username key w) = 0) =
     (\<exists>pwd pub_key.
        getpwnam username = Some pwd \<and> fst (alloc w)
      \<and> imp (pw_dir pwd @ ''/.ssh/authorized_keys'') = Inr pub_key
      \<and> key_public key = key_public pub_key)"
proof (cases "getpwnam username")
  case None
  then show ?thesis by (simp add: np2srv_pubkey_auth_cb_def)
next
  case (Some pwd)
  obtain b w1 where a: "alloc w = (b, w1)" by (cases "alloc w")
  show ?thesis
  proof (cases b)
    case False
    with Some a show ?thesis by (simp add: np2srv_pubkey_auth_cb_def)
  next
    case True
    show ?thesis
    proof (cases "imp (pw_dir pwd @ ''/.ssh/authorized_keys'')")
      case (Inl ret)
      with Some a True show ?thesis by (simp add: np2srv_pubkey_auth_cb_def)
    next
      case (Inr pub_key)
      with Some a True show ?thesis
        by (simp add: np2srv_pubkey_auth_cb_def ssh_key_cmp_public_def)
    qed
  qed
qed

lemma pubkey_auth_result:
  "fst (np2srv_pubkey_auth_cb getpwnam imp username key w) = 0
     \<or> fst (np2srv_pubkey_auth_cb getpwnam imp username key w) = 1"
  by (simp add: np2srv_pubkey_auth_cb_def split: option.split prod.split bool.split sum.split)

lemma hostkey_cb_with_subtree:
  assumes "session_start_rc ds = SR_ERR_OK" and "get_subtree ds (hostkey_xpath name) = (r, Some d)"
    and "fst (alloc w)"
  shows "\<exists>res w'. np2srv_hostkey_cb ds name w = Inr (res, w')
           \<and> trace w' = trace w @ [Sr_session_start SR_ERR_OK,
                                     Lyd_free_withsiblings (doc_root d), Sr_session_stop]"
proof -
  obtain w1 where a1: "alloc (log (Sr_session_start SR_ERR_OK) w) = (True, w1)"
    and t1: "trace w1 = trace w @ [Sr_session_start SR_ERR_OK]"
    using assms(3) by (auto simp: alloc_def log_def split: list.splits)
  obtain b2 w2 where a2: "alloc w1 = (b2, w2)" by (cases "alloc w1")
  then have t2: "trace w2 = trace w1" by (auto simp: alloc_def split: list.splits)
  show ?thesis
    using assms(1,2) a1 a2 t1 t2
    by (cases b2)
       (auto simp: np2srv_hostkey_cb_def hostkey_cleanup_def Let_def log_def
          split: prod.splits option.splits)
qed

lemma hostkey_cb_algorithm_prefix:
  assumes "session_start_rc ds = SR_ERR_OK"
    and "get_subtree ds (hostkey_xpath name) = (SR_ERR_OK, Some d)"
    and "foldl hostkey_leaf (None, None) (children d) = (Some alg, Some privkey)"
    and "allocs w = []"
  shows "\<exists>w'. np2srv_hostkey_cb ds name w =
     Inr (if take 3 (value_ident alg) = ''rsa''
          then \<lparr>hk_rc = 0, hk_privkey_type = Some NC_SSH_KEY_RSA,
                hk_privkey_data = Some (value_str privkey)\<rparr>
          else if take 4 (value_ident alg) = ''secp''
          then \<lparr>hk_rc = 0, hk_privkey_type = Some NC_SSH_KEY_ECDSA,
                hk_privkey_data = Some (value_str privkey)\<rparr>
          else \<lparr>hk_rc = - 1, hk_privkey_type = None, hk_privkey_data = None\<rparr>, w')"
proof -
  have a: "alloc (log (Sr_session_start SR_ERR_OK) w) = (True, log (Sr_session_start SR_ERR_OK) w)"
    using assms(4) by (simp add: alloc_def log_def)
  show ?thesis
    using assms(1-3) a
    by (simp add: np2srv_hostkey_cb_def hostkey_cleanup_def Let_def)
qed

lemma hostkey_cb_missing_leaf:
  assumes "session_start_rc ds = SR_ERR_OK"
    and "get_subtree ds (hostkey_xpath name) = (SR_ERR_OK, Some d)"
    and "foldl hostkey_leaf (None, None) (children d) = (alg, privkey)"
    and "alg = None \<or> privkey = None" and "fst (alloc w)"
  shows "\<exists>w'. np2srv_hostkey_cb ds name w =
     Inr (\<lparr>hk_rc = - 1, hk_privkey_type = None, hk_privkey_data = None\<rparr>, w')"
proof -
  obtain w1 where a: "alloc (log (Sr_session_start SR_ERR_OK) w) = (True, w1)"
    using assms(5) by (auto simp: alloc_def log_def split: list.splits)
  show ?thesis
    using assms(1-4) a
    by (auto simp: np2srv_hostkey_cb_def hostkey_cleanup_def Let_def split: option.splits)
qed

lemma hostkey_cb_strdup_fails:
  assumes "session_start_rc ds = SR_ERR_OK"
    and "get_subtree ds (hostkey_xpath name) = (SR_ERR_OK, Some d)"
    and "allocs w = [True, False]"
  shows "\<exists>res w'. np2srv_hostkey_cb ds name w = Inr (res, w')
           \<and> hk_rc res = - 1 \<and> hk_privkey_data res = None"
proof -
  have a: "alloc (log (Sr_session_start SR_ERR_OK) w)
      = (True, (log (Sr_session_start SR_ERR_OK) w)\<lparr>allocs := [False]\<rparr>)"
    "alloc ((log (Sr_session_start SR_ERR_OK) w)\<lparr>allocs := [False]\<rparr>)
      = (False, (log (Sr_session_start SR_ERR_OK) w)\<lparr>allocs := []\<rparr>)"
    using assms(3) by (simp_all add: alloc_def log_def)
  show ?thesis
    using assms(1,2) a
    by (cases "foldl hostkey_leaf (None, None) (children d)")
       (auto simp: np2srv_hostkey_cb_def hostkey_cleanup_def Let_def split: option.splits)
qed

lemma standing_snoc:
  "standing b (evs @ [c]) =
     (if recognized_flag (node c) = Some b \<and> (oper c = SR_OP_CREATED \<or> oper c = SR_OP_DELETED)
      then oper c = SR_OP_CREATED else standing b evs)"
  by (auto simp: standing_def)

lemma auth_after_snoc:
  "auth_after m (evs @ [c]) = np2srv_ssh_update_auth_method (node c) (oper c) (auth_after m evs)"
  by (simp add: auth_after_def)

lemma update_recognized:
  "recognized_flag n = Some b \<Longrightarrow>
   np2srv_ssh_update_auth_method n opr a =
     (if opr = SR_OP_CREATED then a OR b else if opr = SR_OP_DELETED then a AND NOT b else a)"
  by (auto simp: recognized_flag_def np2srv_ssh_update_auth_method_def split: if_splits)

lemma update_unrecognized:
  "recognized_flag n = None \<Longrightarrow> np2srv_ssh_update_auth_method n opr a = a"
  by (auto simp: recognized_flag_def np2srv_ssh_update_auth_method_def split: if_splits)

lemma recognized_flag_cases:
  "recognized_flag n = None \<or> recognized_flag n = Some NC_SSH_AUTH_PUBLICKEY
   \<or> recognized_flag n = Some NC_SSH_AUTH_PASSWORD \<or> recognized_flag n = Some NC_SSH_AUTH_INTERACTIVE"
  by (simp add: recognized_flag_def)

lemma auth_after_standing:
  "auth_after 0 evs =
     (if standing NC_SSH_AUTH_PUBLICKEY evs then NC_SSH_AUTH_PUBLICKEY else 0)
     OR (if standing NC_SSH_AUTH_PASSWORD evs then NC_SSH_AUTH_PASSWORD else 0)
     OR (if standing NC_SSH_AUTH_INTERACTIVE evs then NC_SSH_AUTH_INTERACTIVE else 0)"
proof (induction evs rule: rev_induct)
  case Nil
  show ?case by (simp add: auth_after_def standing_def)
next
  case (snoc c evs)
  consider (none) "recognized_flag (node c) = None"
    | (pk) "recognized_flag (node c) = Some NC_SSH_AUTH_PUBLICKEY"
    | (pw) "recognized_flag (node c) = Some NC_SSH_AUTH_PASSWORD"
    | (ia) "recognized_flag (node c) = Some NC_SSH_AUTH_INTERACTIVE"
    using recognized_flag_cases [of "node c"] by (elim disjE) simp_all
  then show ?case
  proof cases
    case none
    then show ?thesis
      using snoc.IH by (simp add: auth_after_snoc standing_snoc update_unrecognized)
  next
    case pk
    then show ?thesis
      using snoc.IH
      by (cases "oper c"; cases "standing NC_SSH_AUTH_PUBLICKEY evs";
          cases "standing NC_SSH_AUTH_PASSWORD evs"; cases "standing NC_SSH_AUTH_INTERACTIVE evs")
         (simp_all add: auth_after_snoc standing_snoc update_recognized
            NC_SSH_AUTH_PUBLICKEY_def NC_SSH_AUTH_PASSWORD_def NC_SSH_AUTH_INTERACTIVE_def)
  next
    case pw
    then show ?thesis
      using snoc.IH
      by (cases "oper c"; cases "standing NC_SSH_AUTH_PUBLICKEY evs";
          cases "standing NC_SSH_AUTH_PASSWORD evs"; cases "standing NC_SSH_AUTH_INTERACTIVE evs")
         (simp_all add: auth_after_snoc standing_snoc update_recognized
            NC_SSH_AUTH_PUBLICKEY_def NC_SSH_AUTH_PASSWORD_def NC_SSH_AUTH_INTERACTIVE_def)
  next
    case ia
    then show ?thesis
      using snoc.IH
      by (cases "oper c"; cases "standing NC_SSH_AUTH_PUBLICKEY evs";
          cases "standing NC_SSH_AUTH_PASSWORD evs"; cases "standing NC_SSH_AUTH_INTERACTIVE evs")
         (simp_all add: auth_after_snoc standing_snoc update_recognized
            NC_SSH_AUTH_PUBLICKEY_def NC_SSH_AUTH_PASSWORD_def NC_SSH_AUTH_INTERACTIVE_def)
  qed
qed


lemma keepalive_param_snoc:
  "keepalive_param nm d (cs @ [c]) =
     (if schema_name (node c) = nm
      then (if oper c = SR_OP_DELETED then d else uint (value_uint16 (node c)))
      else keepalive_param nm d cs)"
  by (simp add: keepalive_param_def)

lemma keepalive_fold:
  "foldl tcp_keepalives_step (- 1, - 1, - 1) cs =
     (keepalive_param ''idle-time'' 1 cs, keepalive_param ''max-probes'' 10 cs,
      keepalive_param ''probe-interval'' 5 cs)"
proof (induction cs rule: rev_induct)
  case Nil
  show ?case by (simp add: keepalive_param_def)
next
  case (snoc c cs)
  then show ?case by (simp add: keepalive_param_snoc tcp_keepalives_step_def)
qed

lemma tcp_keepalives_run:
  assumes "session xpath = it" and "iter_rc it = SR_ERR_OK"
  shows "np2srv_tcp_keepalives nc client ep session xpath w =
           (if iter_end it = SR_ERR_NOT_FOUND
            then call_after_scan nc (keepalives_call client ep (iter_changes it)) xpath w
            else (iter_end it,
                  w\<lparr>trace := trace w @ [Sr_get_changes_iter xpath SR_ERR_OK,
                                         Sr_free_change_iter xpath]\<rparr>))"
  using assms
  by (cases client)
     (simp_all add: np2srv_tcp_keepalives_def keepalive_fold keepalives_call_def
        call_after_scan_def log_def Let_def split: prod.splits)

lemma keepalive_param_last_deleted:
  assumes "cs = pre @ c # post" and "\<forall>d\<in>set post. schema_name (node d) \<noteq> schema_name (node c)"
    and "oper c = SR_OP_DELETED"
  shows "keepalive_param (schema_name (node c)) d cs = d"
proof -
  from assms(2) have "filter (\<lambda>x. schema_name (node x) = schema_name (node c)) post = []"
    by (simp add: filter_empty_conv)
  with assms(1,3) show ?thesis by (simp add: keepalive_param_def)
qed


lemma changes_loop_apply_events:
  assumes "\<And>c ss w. muts c = Some ss \<Longrightarrow> body c w = apply_event nc path ss w"
  shows "those (map muts evs) = Some ms \<Longrightarrow>
         changes_loop body evs w =
           (case apply_events nc ms w of
              (failed, w') \<Rightarrow>
                if failed then Inr (Some SR_ERR_INTERNAL, log (Sr_free_change_iter path) w')
                else Inr (None, w'))"
proof (induction evs arbitrary: w ms)
  case Nil
  then show ?case by simp
next
  case (Cons c evs)
  from Cons.prems obtain m ms' where m: "muts c = Some m"
    and ms': "those (map muts evs) = Some ms'" and ms: "ms = m # ms'"
    by (auto split: option.splits)
  obtain failed w1 where r: "apply_steps nc m False w = (failed, w1)"
    by (cases "apply_steps nc m False w")
  show ?case
  proof (cases failed)
    case True
    with r m ms show ?thesis by (simp add: assms apply_event_def)
  next
    case False
    with r m have "body c w = Inr (None, w1)" by (simp add: assms apply_event_def)
    with Cons.IH [OF ms', of w1] r False ms show ?thesis by simp
  qed
qed

lemma scan_changes_reconciled:
  assumes body: "\<And>c ss w. muts c = Some ss \<Longrightarrow> body c w = apply_event nc path ss w"
    and it: "session path = it" "iter_rc it = SR_ERR_OK"
    and shape: "those (map muts (iter_changes it)) = Some ms"
  shows "scan_changes session path body w = Inr (reconciled nc it path ms w)"
proof -
  define w1 where "w1 = log (Sr_get_changes_iter path SR_ERR_OK) w"
  obtain failed w2 where r: "apply_events nc ms w1 = (failed, w2)"
    by (cases "apply_events nc ms w1")
  from changes_loop_apply_events [of muts body nc path, OF body shape, of w1] r
  have loop: "changes_loop body (iter_changes it) w1 =
      (if failed then Inr (Some SR_ERR_INTERNAL, log (Sr_free_change_iter path) w2)
       else Inr (None, w2))"
    by simp
  show ?thesis
    using it loop r
    by (simp add: scan_changes_def reconciled_def Let_def w1_def [symmetric])
qed

lemma apply_events_stops:
  "apply_events nc ms w = (True, w') \<Longrightarrow>
   \<exists>n w1. n < length ms \<and> apply_events nc (take n ms) w = (False, w1)
         \<and> apply_steps nc (ms ! n) False w1 = (True, w')"
proof (induction ms arbitrary: w)
  case Nil
  then show ?case by simp
next
  case (Cons m ms)
  obtain failed w1 where r: "apply_steps nc m False w = (failed, w1)"
    by (cases "apply_steps nc m False w")
  show ?case
  proof (cases failed)
    case True
    with r Cons.prems have "w1 = w'" by simp
    with r True have "0 < length (m # ms) \<and> apply_events nc (take 0 (m # ms)) w = (False, w)
         \<and> apply_steps nc ((m # ms) ! 0) False w = (True, w')"
      by simp
    then show ?thesis by blast
  next
    case False
    with r Cons.prems have "apply_events nc ms w1 = (True, w')" by simp
    from Cons.IH [OF this] obtain n w2 where n: "n < length ms"
      and p: "apply_events nc (take n ms) w1 = (False, w2)"
      and f: "apply_steps nc (ms ! n) False w2 = (True, w')"
      by blast
    from n p f r False
    have "Suc n < length (m # ms) \<and> apply_events nc (take (Suc n) (m # ms)) w = (False, w2)
         \<and> apply_steps nc ((m # ms) ! Suc n) False w2 = (True, w')"
      by simp
    then show ?thesis by blast
  qed
qed

lemma call_allocs: "allocs (snd (call nc c w)) = allocs w"
  by (simp add: call_def split: prod.splits)

lemma apply_steps_allocs: "allocs (snd (apply_steps nc ss failed w)) = allocs w"
proof (induction nc ss failed w rule: apply_steps.induct)
  case (1 nc failed w)
  show ?case by simp
next
  case (2 nc c ss failed w)
  obtain r w' where c: "call nc c w = (r, w')" by (cases "call nc c w")
  with call_allocs [of nc c w] have "allocs w' = allocs w" by simp
  with 2 [OF c [symmetric]] c show ?case by (cases "r = 0") simp_all
next
  case (3 nc c ss failed w)
  obtain r w' where c: "call nc c w = (r, w')" by (cases "call nc c w")
  with call_allocs [of nc c w] have "allocs w' = allocs w" by simp
  with 3 [OF c [symmetric]] c show ?case by simp
next
  case (4 nc c ss failed w)
  obtain r w' where c: "call nc c w = (r, w')" by (cases "call nc c w")
  with call_allocs [of nc c w] have "allocs w' = allocs w" by simp
  with 4 [OF c [symmetric]] c show ?case by simp
next
  case (5 nc g f ss failed w)
  obtain a w1 where g: "call nc g w = (a, w1)" by (cases "call nc g w")
  obtain r w2 where c: "call nc (f a) w1 = (r, w2)" by (cases "call nc (f a) w1")
  from call_allocs [of nc g w] g have "allocs w1 = allocs w" by simp
  with call_allocs [of nc "f a" w1] c have "allocs w2 = allocs w" by simp
  with 5 [OF g [symmetric] c [symmetric]] g c show ?case by (cases "r = 0") simp_all
next
  case (6 nc p ss failed w)
  then show ?case by (simp add: log_def)
qed

lemma changes_loop_apply_events_unlimited:
  assumes "\<And>c ss w. muts c = Some ss \<Longrightarrow> allocs w = [] \<Longrightarrow> body c w = apply_event nc path ss w"
  shows "those (map muts evs) = Some ms \<Longrightarrow> allocs w = [] \<Longrightarrow>
         changes_loop body evs w =
           (case apply_events nc ms w of
              (failed, w') \<Rightarrow>
                if failed then Inr (Some SR_ERR_INTERNAL, log (Sr_free_change_iter path) w')
                else Inr (None, w'))"
proof (induction evs arbitrary: w ms)
  case Nil
  then show ?case by simp
next
  case (Cons c evs)
  from Cons.prems obtain m ms' where m: "muts c = Some m"
    and ms': "those (map muts evs) = Some ms'" and ms: "ms = m # ms'"
    by (auto split: option.splits)
  obtain failed w1 where r: "apply_steps nc m False w = (failed, w1)"
    by (cases "apply_steps nc m False w")
  from apply_steps_allocs [of nc m False w] r Cons.prems(2) have a1: "allocs w1 = []" by simp
  note b = assms [OF m Cons.prems(2)]
  show ?case
  proof (cases failed)
    case True
    with r b ms show ?thesis by (simp add: apply_event_def)
  next
    case False
    with r b have "body c w = Inr (None, w1)" by (simp add: apply_event_def)
    with Cons.IH [OF ms' a1] r False ms show ?thesis by simp
  qed
qed

lemma scan_changes_reconciled_unlimited:
  assumes body: "\<And>c ss w. muts c = Some ss \<Longrightarrow> allocs w = [] \<Longrightarrow>
                   body c w = apply_event nc path ss w"
    and it: "session path = it" "iter_rc it = SR_ERR_OK"
    and shape: "those (map muts (iter_changes it)) = Some ms"
    and unlimited: "allocs w = []"
  shows "scan_changes session path body w = Inr (reconciled nc it path ms w)"
proof -
  define w1 where "w1 = log (Sr_get_changes_iter path SR_ERR_OK) w"
  have a1: "allocs w1 = []" using unlimited by (simp add: w1_def log_def)
  obtain failed w2 where r: "apply_events nc ms w1 = (failed, w2)"
    by (cases "apply_events nc ms w1")
  from changes_loop_apply_events_unlimited [of muts body nc path, OF body shape a1] r
  have loop: "changes_loop body (iter_changes it) w1 =
      (if failed then Inr (Some SR_ERR_INTERNAL, log (Sr_free_change_iter path) w2)
       else Inr (None, w2))"
    by simp
  show ?thesis
    using it loop r
    by (simp add: scan_changes_def reconciled_def Let_def w1_def [symmetric])
qed

lemma endpt_ssh_body_steps:
  assumes "endpt_ssh_steps c = Some ss"
  shows "endpt_ssh_body nc xpath c w = apply_event nc xpath ss w"
proof -
  from assms obtain ep where ep: "list_key 1 (node c) = Some ep"
    by (cases "list_key 1 (node c)") (simp_all add: endpt_ssh_steps_def)
  with assms have ss: "ss = (if oper c = SR_OP_CREATED
                then [Deferred (nc_server_add_endpt ep),
                      Unchecked (nc_server_ssh_endpt_set_auth_methods ep 0)]
                else if oper c = SR_OP_DELETED then [Checked (nc_server_del_endpt ep)]
                else [])"
    by (simp add: endpt_ssh_steps_def)
  show ?thesis
    by (cases "oper c")
       (simp_all add: ss ep [simplified] endpt_ssh_body_def apply_event_def split: prod.splits)
qed


lemma ch_client_endpt_ssh_body_steps:
  assumes "ch_client_endpt_ssh_steps c = Some ss"
  shows "ch_client_endpt_ssh_body nc xpath c w = apply_event nc xpath ss w"
proof -
  from assms obtain ep where ep: "list_key 1 (node c) = Some ep"
    by (cases "list_key 1 (node c)") (simp_all add: ch_client_endpt_ssh_steps_def)
  with assms obtain cl where cl: "list_key 3 (node c) = Some cl"
    by (cases "list_key 3 (node c)") (simp_all add: ch_client_endpt_ssh_steps_def)
  with ep assms have ss: "ss = (if oper c = SR_OP_CREATED
                     then [Deferred (nc_server_ch_client_add_endpt cl ep),
                           Unchecked (nc_server_ssh_ch_client_endpt_set_auth_methods cl ep 0)]
                     else if oper c = SR_OP_DELETED
                     then [Checked (nc_server_ch_client_del_endpt cl ep)]
                     else [])"
    by (simp add: ch_client_endpt_ssh_steps_def)
  show ?thesis
    by (cases "oper c")
       (simp_all add: ss ep [simplified] cl ch_client_endpt_ssh_body_def apply_event_def
          split: prod.splits)
qed

lemma ch_client_body_steps:
  assumes "ch_client_steps c = Some ss"
  shows "ch_client_body nc xpath c w = apply_event nc xpath ss w"
proof -
  from assms obtain k where k: "child (node c) = Some k"
    by (cases "child (node c)") (simp_all add: ch_client_steps_def)
  with assms have ss: "ss = (if oper c = SR_OP_CREATED
                then [Checked (nc_server_ch_add_client (value_str k)),
                      Checked (nc_connect_ch_client_dispatch (value_str k))]
                else if oper c = SR_OP_DELETED
                then [Checked (nc_server_ch_del_client (value_str k))]
                else [])"
    by (simp add: ch_client_steps_def)
  show ?thesis
    by (cases "oper c")
       (simp_all add: ss k ch_client_body_def apply_event_def split: prod.splits)
qed

lemma auth_methods_body_steps:
  assumes "auth_methods_steps c = Some ss"
  shows "endpt_ssh_auth_methods_body nc xpath c w = apply_event nc (xpath @ ''/*'') ss w"
proof -
  from assms obtain ep where ep: "list_key 5 (node c) = Some ep"
    by (cases "list_key 5 (node c)") (simp_all add: auth_methods_steps_def)
  with assms have ss: "ss = [Derived (nc_server_ssh_endpt_get_auth_methods ep)
                  (\<lambda>auth. nc_server_ssh_endpt_set_auth_methods ep
                            (np2srv_ssh_update_auth_method (node c) (oper c) auth))]"
    by (simp add: auth_methods_steps_def)
  show ?thesis
    by (simp add: ss ep endpt_ssh_auth_methods_body_def apply_event_def split: prod.splits)
qed

lemma ch_auth_methods_body_steps:
  assumes "ch_auth_methods_steps c = Some ss"
  shows "ch_endpt_ssh_auth_methods_body nc xpath c w = apply_event nc (xpath @ ''/*'') ss w"
proof -
  from assms obtain ep where ep: "list_key 5 (node c) = Some ep"
    by (cases "list_key 5 (node c)") (simp_all add: ch_auth_methods_steps_def)
  with assms obtain cl where cl: "list_key 7 (node c) = Some cl"
    by (cases "list_key 7 (node c)") (simp_all add: ch_auth_methods_steps_def)
  with ep assms have ss: "ss = [Derived (nc_server_ssh_ch_client_endpt_get_auth_methods cl ep)
                       (\<lambda>auth. nc_server_ssh_ch_client_endpt_set_auth_methods cl ep
                                 (np2srv_ssh_update_auth_method (node c) (oper c) auth))]"
    by (simp add: ch_auth_methods_steps_def)
  show ?thesis
    by (simp add: ss ep cl ch_endpt_ssh_auth_methods_body_def apply_event_def split: prod.splits)
qed

lemma tcp_params_body_steps:
  assumes "tcp_params_steps session xpath c = Some ss" and "allocs w = []"
  shows "endpt_tcp_params_body nc session xpath c w = apply_event nc (xpath @ ''/*'') ss w"
proof -
  from assms(1) obtain ep where ep: "list_key 3 (node c) = Some ep"
    by (cases "list_key 3 (node c)") (simp_all add: tcp_params_steps_def)
  show ?thesis
  proof (cases "schema_name (node c) = ''keepalives''")
    case False
    with ep assms(1) have ss: "ss = (if oper c = SR_OP_CREATED \<or> oper c = SR_OP_MODIFIED
          then (if schema_name (node c) = ''local-address''
                     then [Checked (nc_server_endpt_set_address ep (value_str (node c)))]
                     else if schema_name (node c) = ''local-port''
                     then [Checked (nc_server_endpt_set_port ep (uint (value_uint16 (node c))))]
                     else [])
          else [])"
      by (auto simp: tcp_params_steps_def split: if_splits)
    show ?thesis
      using False
      by (simp add: ss ep endpt_tcp_params_body_def apply_event_def split: prod.splits)
  next
    case True
    define nested where "nested = session (xpath @ ''/keepalives/*'')"
    define kc where "kc = keepalives_call None ep (iter_changes nested)"
    from True ep assms(1) have ok: "iter_rc nested = SR_ERR_OK" "iter_end nested = SR_ERR_NOT_FOUND"
      by (auto simp: tcp_params_steps_def nested_def Let_def split: if_splits)
    with True ep assms(1) have ss: "ss =
        (if oper c = SR_OP_CREATED then [Checked (nc_server_endpt_enable_keepalives ep 1)]
         else if oper c = SR_OP_DELETED then [Checked (nc_server_endpt_enable_keepalives ep 0)]
         else [])
        @ [Scanned (xpath @ ''/keepalives/*''), Checked kc]"
      by (auto simp: tcp_params_steps_def nested_def kc_def Let_def split: if_splits)
    have nest: "\<And>v. np2srv_tcp_keepalives nc None ep session (xpath @ ''/keepalives/*'') v
        = call_after_scan nc kc (xpath @ ''/keepalives/*'') v"
      using tcp_keepalives_run [of session "xpath @ ''/keepalives/*''" nested nc None ep] ok
      by (simp add: nested_def kc_def)
    have al: "\<And>v. allocs v = [] \<Longrightarrow> alloc v = (True, v)" by (rule alloc_unlimited)
    have tail: "\<And>v. allocs v = [] \<Longrightarrow>
        (case alloc v of
           (False, w2) \<Rightarrow> Inr (Some SR_ERR_NOMEM, w2)
         | (True, w2) \<Rightarrow>
             (case np2srv_tcp_keepalives nc None ep session (xpath @ ''/keepalives/*'') w2 of
                (rc2, w3) \<Rightarrow>
                  if rc2 \<noteq> SR_ERR_OK
                  then Inr (Some rc2, log (Sr_free_change_iter (xpath @ ''/*'')) w3)
                  else Inr (None, w3)))
        = apply_event nc (xpath @ ''/*'') [Scanned (xpath @ ''/keepalives/*''), Checked kc] v"
      by (simp add: al nest call_after_scan_def apply_event_def split: prod.splits)
    show ?thesis
    proof (cases "oper c = SR_OP_CREATED \<or> oper c = SR_OP_DELETED")
      case False
      with ss have ss': "ss = [Scanned (xpath @ ''/keepalives/*''), Checked kc]" by simp
      from False True ep tail [OF assms(2)] show ?thesis
        by (simp add: ss' endpt_tcp_params_body_def)
    next
      case cd: True
      define e where "e = nc_server_endpt_enable_keepalives ep (if oper c = SR_OP_CREATED then 1 else 0)"
      from cd ss have ss': "ss = [Checked e, Scanned (xpath @ ''/keepalives/*''), Checked kc]"
        by (auto simp: e_def)
      obtain r w1 where c1: "call nc e w = (r, w1)" by (cases "call nc e w")
      from call_allocs [of nc e w] c1 assms(2) have a1: "allocs w1 = []" by simp
      have body: "endpt_tcp_params_body nc session xpath c w =
          (if r \<noteq> 0 then Inr (Some SR_ERR_INTERNAL, log (Sr_free_change_iter (xpath @ ''/*'')) w1)
           else apply_event nc (xpath @ ''/*'') [Scanned (xpath @ ''/keepalives/*''), Checked kc] w1)"
        using cd True ep c1 tail [OF a1]
        by (auto simp: endpt_tcp_params_body_def e_def)
      show ?thesis
        unfolding body ss' using c1 by (simp add: apply_event_def)
    qed
  qed
qed

lemma ch_tcp_params_body_steps:
  assumes "ch_tcp_params_steps session xpath c = Some ss" and "allocs w = []"
  shows "ch_client_endpt_tcp_params_body nc session xpath c w
           = apply_event nc (xpath @ ''/*'') ss w"
proof -
  from assms(1) obtain ep where ep: "list_key 3 (node c) = Some ep"
    by (cases "list_key 3 (node c)") (simp_all add: ch_tcp_params_steps_def)
  with assms(1) obtain cl where cl: "list_key 5 (node c) = Some cl"
    by (cases "list_key 5 (node c)") (simp_all add: ch_tcp_params_steps_def)
  show ?thesis
  proof (cases "schema_name (node c) = ''keepalives''")
    case False
    with ep cl assms(1) have ss: "ss = (if oper c = SR_OP_CREATED \<or> oper c = SR_OP_MODIFIED
               then (if schema_name (node c) = ''remote-address''
                          then [Checked (nc_server_ch_client_endpt_set_address cl ep
                                           (value_str (node c)))]
                          else if schema_name (node c) = ''remote-port''
                          then [Checked (nc_server_ch_client_endpt_set_port cl ep
                                           (uint (value_uint16 (node c))))]
                          else [])
               else [])"
      by (auto simp: ch_tcp_params_steps_def split: if_splits)
    show ?thesis
      using False
      by (simp add: ss ep cl ch_client_endpt_tcp_params_body_def apply_event_def split: prod.splits)
  next
    case True
    define nested where "nested = session (xpath @ ''/keepalives/*'')"
    define kc where "kc = keepalives_call (Some cl) ep (iter_changes nested)"
    from True ep cl assms(1)
    have ok: "iter_rc nested = SR_ERR_OK" "iter_end nested = SR_ERR_NOT_FOUND"
      by (auto simp: ch_tcp_params_steps_def nested_def Let_def split: if_splits)
    with True ep cl assms(1) have ss: "ss =
        (if oper c = SR_OP_CREATED
         then [Checked (nc_server_ch_client_endpt_enable_keepalives cl ep 1)]
         else if oper c = SR_OP_DELETED
         then [Checked (nc_server_ch_client_endpt_enable_keepalives cl ep 0)]
         else [])
        @ [Scanned (xpath @ ''/keepalives/*''), Checked kc]"
      by (auto simp: ch_tcp_params_steps_def nested_def kc_def Let_def split: if_splits)
    have nest: "\<And>v. np2srv_tcp_keepalives nc (Some cl) ep session (xpath @ ''/keepalives/*'') v
        = call_after_scan nc kc (xpath @ ''/keepalives/*'') v"
      using tcp_keepalives_run [of session "xpath @ ''/keepalives/*''" nested nc "Some cl" ep] ok
      by (simp add: nested_def kc_def)
    have al: "\<And>v. allocs v = [] \<Longrightarrow> alloc v = (True, v)" by (rule alloc_unlimited)
    have tail: "\<And>v. allocs v = [] \<Longrightarrow>
        (case alloc v of
           (False, w2) \<Rightarrow> Inr (Some SR_ERR_NOMEM, w2)
         | (True, w2) \<Rightarrow>
             (case np2srv_tcp_keepalives nc (Some cl) ep session (xpath @ ''/keepalives/*'') w2 of
                (rc2, w3) \<Rightarrow>
                  if rc2 \<noteq> SR_ERR_OK
                  then Inr (Some rc2, log (Sr_free_change_iter (xpath @ ''/*'')) w3)
                  else Inr (None, w3)))
        = apply_event nc (xpath @ ''/*'') [Scanned (xpath @ ''/keepalives/*''), Checked kc] v"
      by (simp add: al nest call_after_scan_def apply_event_def split: prod.splits)
    show ?thesis
    proof (cases "oper c = SR_OP_CREATED \<or> oper c = SR_OP_DELETED")
      case False
      with ss have ss': "ss = [Scanned (xpath @ ''/keepalives/*''), Checked kc]" by simp
      from False True ep cl tail [OF assms(2)] show ?thesis
        by (simp add: ss' ch_client_endpt_tcp_params_body_def)
    next
      case cd: True
      define e where "e = nc_server_ch_client_endpt_enable_keepalives cl ep
                            (if oper c = SR_OP_CREATED then 1 else 0)"
      from cd ss have ss': "ss = [Checked e, Scanned (xpath @ ''/keepalives/*''), Checked kc]"
        by (auto simp: e_def)
      obtain r w1 where c1: "call nc e w = (r, w1)" by (cases "call nc e w")
      from call_allocs [of nc e w] c1 assms(2) have a1: "allocs w1 = []" by simp
      have body: "ch_client_endpt_tcp_params_body nc session xpath c w =
          (if r \<noteq> 0 then Inr (Some SR_ERR_INTERNAL, log (Sr_free_change_iter (xpath @ ''/*'')) w1)
           else apply_event nc (xpath @ ''/*'') [Scanned (xpath @ ''/keepalives/*''), Checked kc] w1)"
        using cd True ep cl c1 tail [OF a1]
        by (auto simp: ch_client_endpt_tcp_params_body_def e_def)
      show ?thesis
        unfolding body ss' using c1 by (simp add: apply_event_def)
    qed
  qed
qed

lemma connection_type_body_steps:
  assumes "connection_type_steps c = Some ss"
  shows "ch_connection_type_body nc dt session xpath c w = apply_event nc (xpath @ ''/*'') ss w"
proof -
  from assms obtain cl where cl: "list_key 2 (node c) = Some cl"
    by (cases "list_key 2 (node c)") (simp_all add: connection_type_steps_def)
  with assms have nm: "oper c \<noteq> SR_OP_MODIFIED"
    by (auto simp: connection_type_steps_def split: if_splits)
  with cl assms have ss: "ss = (if oper c = SR_OP_CREATED
          then (if schema_name (node c) = ''persistent''
                     then [Checked (nc_server_ch_client_set_conn_type cl NC_CH_PERSIST)]
                     else if schema_name (node c) = ''periodic''
                     then [Checked (nc_server_ch_client_set_conn_type cl NC_CH_PERIOD)]
                     else [])
          else [])"
    by (auto simp: connection_type_steps_def split: if_splits)
  show ?thesis
    using nm
    by (simp add: ss cl ch_connection_type_body_def apply_event_def split: prod.splits)
qed


lemma lifecycle_handlers:
  assumes "session path = it" and "iter_rc it = SR_ERR_OK"
  shows "(those (map endpt_ssh_steps (iter_changes it)) = Some ms \<longrightarrow>
         np2srv_endpt_ssh_cb nc session path w = Inr (reconciled nc it path ms w))
    \<and> (those (map ch_client_endpt_ssh_steps (iter_changes it)) = Some ms \<longrightarrow>
         np2srv_ch_client_endpt_ssh_cb nc session path w = Inr (reconciled nc it path ms w))
    \<and> (those (map ch_client_steps (iter_changes it)) = Some ms \<longrightarrow>
         np2srv_ch_client_cb nc session path w = Inr (reconciled nc it path ms w))"
proof (intro conjI impI)
  assume m: "those (map endpt_ssh_steps (iter_changes it)) = Some ms"
  show "np2srv_endpt_ssh_cb nc session path w = Inr (reconciled nc it path ms w)"
    unfolding np2srv_endpt_ssh_cb_def
    by (rule scan_changes_reconciled [where muts = endpt_ssh_steps and body = "endpt_ssh_body nc path"
          and nc = nc and path = path and session = session and it = it and ms = ms and w = w,
          OF endpt_ssh_body_steps assms m])
next
  assume m: "those (map ch_client_endpt_ssh_steps (iter_changes it)) = Some ms"
  show "np2srv_ch_client_endpt_ssh_cb nc session path w = Inr (reconciled nc it path ms w)"
    unfolding np2srv_ch_client_endpt_ssh_cb_def
    by (rule scan_changes_reconciled [where muts = ch_client_endpt_ssh_steps and body = "ch_client_endpt_ssh_body nc path"
          and nc = nc and path = path and session = session and it = it and ms = ms and w = w,
          OF ch_client_endpt_ssh_body_steps assms m])
next
  assume m: "those (map ch_client_steps (iter_changes it)) = Some ms"
  show "np2srv_ch_client_cb nc session path w = Inr (reconciled nc it path ms w)"
    unfolding np2srv_ch_client_cb_def
    by (rule scan_changes_reconciled [where muts = ch_client_steps and body = "ch_client_body nc path"
          and nc = nc and path = path and session = session and it = it and ms = ms and w = w,
          OF ch_client_body_steps assms m])
qed

lemma handlers_applied_in_order:
  assumes "session path = it" and "iter_rc it = SR_ERR_OK" and "iter_end it \<noteq> SR_ERR_OK"
  shows
   "(those (map hostkey_mutation (iter_changes it)) = Some ms \<longrightarrow>
      (\<exists>res. np2srv_endpt_ssh_hostkey_cb nc session path w = Inr res
           \<and> applied_in_order nc it path (concat ms) w res))
  \<and> (those (map ch_hostkey_mutation (iter_changes it)) = Some ms \<longrightarrow>
      (\<exists>res. np2srv_ch_endpt_ssh_hostkey_cb nc session path w = Inr res
           \<and> applied_in_order nc it path (concat ms) w res))
  \<and> (those (map ch_client_mutation (iter_changes it)) = Some ms \<longrightarrow>
      (\<exists>res. np2srv_ch_client_cb nc session path w = Inr res
           \<and> applied_in_order nc it path (concat ms) w res))
  \<and> (those (map (periodic_mutation dt cl) (iter_changes it)) = Some ms \<longrightarrow>
      (\<exists>res. np2srv_ch_periodic_connection_params nc dt cl session path w = Inr res
           \<and> applied_in_order nc it path (concat ms) w res))
  \<and> (path = xpath @ ''/*'' \<and> alloc w' = (True, w)
        \<and> those (map auth_mutation (iter_changes it)) = Some ms \<longrightarrow>
      (\<exists>res. np2srv_endpt_ssh_keepalives_cb nc session xpath w' = Inr res
           \<and> applied_in_order nc it path (concat ms) w res))
  \<and> (path = xpath @ ''/*'' \<and> alloc w' = (True, w)
        \<and> those (map ch_auth_mutation (iter_changes it)) = Some ms \<longrightarrow>
      (\<exists>res. np2srv_ch_endpt_ssh_keepalives_cb nc session xpath w' = Inr res
           \<and> applied_in_order nc it path (concat ms) w res))
  \<and> (path = xpath @ ''/*'' \<and> alloc w' = (True, w)
        \<and> those (map reconnect_mutation (iter_changes it)) = Some ms \<longrightarrow>
      (\<exists>res. np2srv_ch_reconnect_strategy_cb nc session xpath w' = Inr res
           \<and> applied_in_order nc it path (concat ms) w res))
  \<and> (\<exists>tr s rc.
          run_calls nc (idle_timeout_mutations (iter_changes it)) (live w) = (tr, s)
        \<and> np2srv_idle_timeout_cb nc session path w =
            Inr (rc, w\<lparr>live := s,
                       trace := trace w @ [Sr_get_changes_iter path SR_ERR_OK] @ called tr
                                @ [Sr_free_change_iter path]\<rparr>)
        \<and> (rc = SR_ERR_OK) = (iter_end it = SR_ERR_NOT_FOUND))"
proof (intro conjI impI; (elim conjE)?)
  assume "those (map hostkey_mutation (iter_changes it)) = Some ms"
  from scan_changes_applied_in_order [where body = "endpt_ssh_hostkey_body nc path" and muts = "hostkey_mutation"
      and nc = nc and path = path and session = session and it = it and ms = ms and w = w,
      OF hostkey_body_stops assms this]
  show "\<exists>res. np2srv_endpt_ssh_hostkey_cb nc session path w = Inr res
           \<and> applied_in_order nc it path (concat ms) w res"
    by (simp add: np2srv_endpt_ssh_hostkey_cb_def)
next
  assume "those (map ch_hostkey_mutation (iter_changes it)) = Some ms"
  from scan_changes_applied_in_order [where body = "ch_endpt_ssh_hostkey_body nc path" and muts = "ch_hostkey_mutation"
      and nc = nc and path = path and session = session and it = it and ms = ms and w = w,
      OF ch_hostkey_body_stops assms this]
  show "\<exists>res. np2srv_ch_endpt_ssh_hostkey_cb nc session path w = Inr res
           \<and> applied_in_order nc it path (concat ms) w res"
    by (simp add: np2srv_ch_endpt_ssh_hostkey_cb_def)
next
  assume "those (map ch_client_mutation (iter_changes it)) = Some ms"
  from scan_changes_applied_in_order [where body = "ch_client_body nc path" and muts = "ch_client_mutation"
      and nc = nc and path = path and session = session and it = it and ms = ms and w = w,
      OF ch_client_body_stops assms this]
  show "\<exists>res. np2srv_ch_client_cb nc session path w = Inr res
           \<and> applied_in_order nc it path (concat ms) w res"
    by (simp add: np2srv_ch_client_cb_def)
next
  assume "those (map (periodic_mutation dt cl) (iter_changes it)) = Some ms"
  from scan_changes_applied_in_order [where body = "ch_periodic_body nc dt cl path" and muts = "periodic_mutation dt cl"
      and nc = nc and path = path and session = session and it = it and ms = ms and w = w,
      OF periodic_body_stops assms this]
  show "\<exists>res. np2srv_ch_periodic_connection_params nc dt cl session path w = Inr res
           \<and> applied_in_order nc it path (concat ms) w res"
    by (simp add: np2srv_ch_periodic_connection_params_def)
next
  assume p: "path = xpath @ ''/*''" and a: "alloc w' = (True, w)"
    and m: "those (map auth_mutation (iter_changes it)) = Some ms"
  from scan_changes_applied_in_order [where body = "endpt_ssh_keepalives_body nc xpath" and muts = "auth_mutation"
      and nc = nc and path = "xpath @ ''/*''" and session = session and it = it and ms = ms
      and w = w, OF auth_body_stops assms [unfolded p] m]
  show "\<exists>res. np2srv_endpt_ssh_keepalives_cb nc session xpath w' = Inr res
           \<and> applied_in_order nc it path (concat ms) w res"
    by (simp add: np2srv_endpt_ssh_keepalives_cb_def scan_children_def a p)
next
  assume p: "path = xpath @ ''/*''" and a: "alloc w' = (True, w)"
    and m: "those (map ch_auth_mutation (iter_changes it)) = Some ms"
  from scan_changes_applied_in_order [where body = "ch_endpt_ssh_keepalives_body nc xpath" and muts = "ch_auth_mutation"
      and nc = nc and path = "xpath @ ''/*''" and session = session and it = it and ms = ms
      and w = w, OF ch_auth_body_stops assms [unfolded p] m]
  show "\<exists>res. np2srv_ch_endpt_ssh_keepalives_cb nc session xpath w' = Inr res
           \<and> applied_in_order nc it path (concat ms) w res"
    by (simp add: np2srv_ch_endpt_ssh_keepalives_cb_def scan_children_def a p)
next
  assume p: "path = xpath @ ''/*''" and a: "alloc w' = (True, w)"
    and m: "those (map reconnect_mutation (iter_changes it)) = Some ms"
  from scan_changes_applied_in_order [where body = "ch_reconnect_strategy_body nc xpath" and muts = "reconnect_mutation"
      and nc = nc and path = "xpath @ ''/*''" and session = session and it = it and ms = ms
      and w = w, OF reconnect_body_stops assms [unfolded p] m]
  show "\<exists>res. np2srv_ch_reconnect_strategy_cb nc session xpath w' = Inr res
           \<and> applied_in_order nc it path (concat ms) w res"
    by (simp add: np2srv_ch_reconnect_strategy_cb_def scan_children_def a p)
next
  define w1 where "w1 = log (Sr_get_changes_iter path SR_ERR_OK) w"
  obtain tr s where run: "run_calls nc (idle_timeout_mutations (iter_changes it)) (live w) = (tr, s)"
    by (cases "run_calls nc (idle_timeout_mutations (iter_changes it)) (live w)")
  then have "run_calls nc (idle_timeout_mutations (iter_changes it)) (live w1) = (tr, s)"
    by (simp add: w1_def log_def)
  from idle_timeout_loop_run [OF this]
  have loop: "changes_loop (idle_timeout_body nc) (iter_changes it) w1
     = Inr (None, w1\<lparr>live := s, trace := trace w1 @ called tr\<rparr>)" .
  define rc where "rc = (if iter_end it = SR_ERR_NOT_FOUND then SR_ERR_OK else iter_end it)"
  have "np2srv_idle_timeout_cb nc session path w =
            Inr (rc, w\<lparr>live := s,
                       trace := trace w @ [Sr_get_changes_iter path SR_ERR_OK] @ called tr
                                @ [Sr_free_change_iter path]\<rparr>)"
    using assms(1,2) loop
    by (simp add: np2srv_idle_timeout_cb_def scan_changes_def Let_def w1_def [symmetric] rc_def)
       (simp add: w1_def log_def)
  moreover have "(rc = SR_ERR_OK) = (iter_end it = SR_ERR_NOT_FOUND)"
    using assms(3) by (simp add: rc_def)
  ultimately show "\<exists>tr s rc.
          run_calls nc (idle_timeout_mutations (iter_changes it)) (live w) = (tr, s)
        \<and> np2srv_idle_timeout_cb nc session path w =
            Inr (rc, w\<lparr>live := s,
                       trace := trace w @ [Sr_get_changes_iter path SR_ERR_OK] @ called tr
                                @ [Sr_free_change_iter path]\<rparr>)
        \<and> (rc = SR_ERR_OK) = (iter_end it = SR_ERR_NOT_FOUND)"
    using run by blast
qed

lemma step_handlers:
  assumes "session path = it" and "iter_rc it = SR_ERR_OK"
  shows "(those (map endpt_ssh_steps (iter_changes it)) = Some ss \<longrightarrow>
      np2srv_endpt_ssh_cb nc session path w = Inr (reconciled nc it path ss w))
  \<and> (those (map ch_client_endpt_ssh_steps (iter_changes it)) = Some ss \<longrightarrow>
      np2srv_ch_client_endpt_ssh_cb nc session path w = Inr (reconciled nc it path ss w))
  \<and> (path = xpath @ ''/*'' \<and> alloc w' = (True, w)
        \<and> those (map auth_methods_steps (iter_changes it)) = Some ss \<longrightarrow>
      np2srv_endpt_ssh_auth_methods_cb nc session xpath w' = Inr (reconciled nc it path ss w))
  \<and> (path = xpath @ ''/*'' \<and> alloc w' = (True, w)
        \<and> those (map ch_auth_methods_steps (iter_changes it)) = Some ss \<longrightarrow>
      np2srv_ch_endpt_ssh_auth_methods_cb nc session xpath w' = Inr (reconciled nc it path ss w))
  \<and> (path = xpath @ ''/*'' \<and> alloc w' = (True, w) \<and> allocs w = []
        \<and> those (map (tcp_params_steps session xpath) (iter_changes it)) = Some ss \<longrightarrow>
      np2srv_endpt_tcp_params_cb nc session xpath w' = Inr (reconciled nc it path ss w))
  \<and> (path = xpath @ ''/*'' \<and> alloc w' = (True, w) \<and> allocs w = []
        \<and> those (map (ch_tcp_params_steps session xpath) (iter_changes it)) = Some ss \<longrightarrow>
      np2srv_ch_client_endpt_tcp_params_cb nc session xpath w' = Inr (reconciled nc it path ss w))
  \<and> (path = xpath @ ''/*'' \<and> alloc w' = (True, w)
        \<and> those (map connection_type_steps (iter_changes it)) = Some ss \<longrightarrow>
      np2srv_ch_connection_type_cb nc dt session xpath w' = Inr (reconciled nc it path ss w))"
proof (intro conjI impI; (elim conjE)?)
  assume m: "those (map endpt_ssh_steps (iter_changes it)) = Some ss"
  show "np2srv_endpt_ssh_cb nc session path w = Inr (reconciled nc it path ss w)"
    unfolding np2srv_endpt_ssh_cb_def
    by (rule scan_changes_reconciled [where muts = endpt_ssh_steps and body = "endpt_ssh_body nc path"
          and nc = nc and path = path and session = session and it = it and ms = ss and w = w,
          OF endpt_ssh_body_steps assms m])
next
  assume m: "those (map ch_client_endpt_ssh_steps (iter_changes it)) = Some ss"
  show "np2srv_ch_client_endpt_ssh_cb nc session path w = Inr (reconciled nc it path ss w)"
    unfolding np2srv_ch_client_endpt_ssh_cb_def
    by (rule scan_changes_reconciled [where muts = ch_client_endpt_ssh_steps
          and body = "ch_client_endpt_ssh_body nc path"
          and nc = nc and path = path and session = session and it = it and ms = ss and w = w,
          OF ch_client_endpt_ssh_body_steps assms m])
next
  assume p: "path = xpath @ ''/*''" and a: "alloc w' = (True, w)"
    and m: "those (map auth_methods_steps (iter_changes it)) = Some ss"
  from scan_changes_reconciled [where muts = auth_methods_steps
          and body = "endpt_ssh_auth_methods_body nc xpath"
          and nc = nc and path = "xpath @ ''/*''" and session = session and it = it and ms = ss
          and w = w, OF auth_methods_body_steps assms [unfolded p] m]
  show "np2srv_endpt_ssh_auth_methods_cb nc session xpath w' = Inr (reconciled nc it path ss w)"
    by (simp add: np2srv_endpt_ssh_auth_methods_cb_def scan_children_def a p)
next
  assume p: "path = xpath @ ''/*''" and a: "alloc w' = (True, w)"
    and m: "those (map ch_auth_methods_steps (iter_changes it)) = Some ss"
  from scan_changes_reconciled [where muts = ch_auth_methods_steps
          and body = "ch_endpt_ssh_auth_methods_body nc xpath"
          and nc = nc and path = "xpath @ ''/*''" and session = session and it = it and ms = ss
          and w = w, OF ch_auth_methods_body_steps assms [unfolded p] m]
  show "np2srv_ch_endpt_ssh_auth_methods_cb nc session xpath w' = Inr (reconciled nc it path ss w)"
    by (simp add: np2srv_ch_endpt_ssh_auth_methods_cb_def scan_children_def a p)
next
  assume p: "path = xpath @ ''/*''" and a: "alloc w' = (True, w)" and u: "allocs w = []"
    and m: "those (map (tcp_params_steps session xpath) (iter_changes it)) = Some ss"
  from scan_changes_reconciled_unlimited [where muts = "tcp_params_steps session xpath"
          and body = "endpt_tcp_params_body nc session xpath"
          and nc = nc and path = "xpath @ ''/*''" and session = session and it = it and ms = ss
          and w = w, OF tcp_params_body_steps assms [unfolded p] m u]
  show "np2srv_endpt_tcp_params_cb nc session xpath w' = Inr (reconciled nc it path ss w)"
    by (simp add: np2srv_endpt_tcp_params_cb_def scan_children_def a p)
next
  assume p: "path = xpath @ ''/*''" and a: "alloc w' = (True, w)" and u: "allocs w = []"
    and m: "those (map (ch_tcp_params_steps session xpath) (iter_changes it)) = Some ss"
  from scan_changes_reconciled_unlimited [where muts = "ch_tcp_params_steps session xpath"
          and body = "ch_client_endpt_tcp_params_body nc session xpath"
          and nc = nc and path = "xpath @ ''/*''" and session = session and it = it and ms = ss
          and w = w, OF ch_tcp_params_body_steps assms [unfolded p] m u]
  show "np2srv_ch_client_endpt_tcp_params_cb nc session xpath w' = Inr (reconciled nc it path ss w)"
    by (simp add: np2srv_ch_client_endpt_tcp_params_cb_def scan_children_def a p)
next
  assume p: "path = xpath @ ''/*''" and a: "alloc w' = (True, w)"
    and m: "those (map connection_type_steps (iter_changes it)) = Some ss"
  from scan_changes_reconciled [where muts = connection_type_steps
          and body = "ch_connection_type_body nc dt session xpath"
          and nc = nc and path = "xpath @ ''/*''" and session = session and it = it and ms = ss
          and w = w, OF connection_type_body_steps assms [unfolded p] m]
  show "np2srv_ch_connection_type_cb nc dt session xpath w' = Inr (reconciled nc it path ss w)"
    by (simp add: np2srv_ch_connection_type_cb_def scan_children_def a p)
qed

lemma reconciled_ok:
  assumes "iter_end it \<noteq> SR_ERR_OK"
  shows "(fst (reconciled nc it path ss w) = SR_ERR_OK) =
      (iter_end it = SR_ERR_NOT_FOUND
       \<and> \<not> fst (apply_events nc ss (log (Sr_get_changes_iter path SR_ERR_OK) w)))"
  using assms by (auto simp: reconciled_def split: prod.splits)

section \<open>The claims\<close>

subsection \<open>C1: the authentication-method bitmask\<close>

text \<open>
  Claim C1 with the name the code compares with. After any sequence of events, each
  applied by \<open>np2srv_ssh_update_auth_method\<close> to the mask the one before left and the
  first to the empty mask, the mask is the bitwise OR of the bits of the flags that
  stand: the flags whose last Created or Deleted event is a Created one. The flags are
  the leaves named \<open>publickey\<close> and \<open>passsword\<close> (with three s) and the leaf
  \<open>other\<close> with the value \<open>interactive\<close>; on any mask a Created event of a flag sets
  its bit and a Deleted event clears it. A leaf named \<open>password\<close>, \<open>hostbased\<close> or
  \<open>none\<close>, a leaf \<open>other\<close> with another value and any leaf that is no flag leave
  the mask as it is, and so does an event that is neither Created nor Deleted.
\<close>

theorem auth_mask_of_standing_flags:
  "auth_after 0 evs =
     (if standing NC_SSH_AUTH_PUBLICKEY evs then NC_SSH_AUTH_PUBLICKEY else 0)
     OR (if standing NC_SSH_AUTH_PASSWORD evs then NC_SSH_AUTH_PASSWORD else 0)
     OR (if standing NC_SSH_AUTH_INTERACTIVE evs then NC_SSH_AUTH_INTERACTIVE else 0)
 \<and> (schema_name n = ''publickey'' \<longrightarrow>
       np2srv_ssh_update_auth_method n SR_OP_CREATED a = a OR NC_SSH_AUTH_PUBLICKEY
     \<and> np2srv_ssh_update_auth_method n SR_OP_DELETED a = a AND NOT NC_SSH_AUTH_PUBLICKEY)
 \<and> (schema_name n = ''passsword'' \<longrightarrow>
       np2srv_ssh_update_auth_method n SR_OP_CREATED a = a OR NC_SSH_AUTH_PASSWORD
     \<and> np2srv_ssh_update_auth_method n SR_OP_DELETED a = a AND NOT NC_SSH_AUTH_PASSWORD)
 \<and> (schema_name n = ''other'' \<and> value_str n = ''interactive'' \<longrightarrow>
       np2srv_ssh_update_auth_method n SR_OP_CREATED a = a OR NC_SSH_AUTH_INTERACTIVE
     \<and> np2srv_ssh_update_auth_method n SR_OP_DELETED a = a AND NOT NC_SSH_AUTH_INTERACTIVE)
 \<and> (schema_name n = ''password'' \<or> schema_name n = ''hostbased'' \<or> schema_name n = ''none''
      \<or> (schema_name n = ''other'' \<and> value_str n \<noteq> ''interactive'')
      \<or> recognized_flag n = None \<longrightarrow>
       np2srv_ssh_update_auth_method n opr a = a)
 \<and> (opr \<noteq> SR_OP_CREATED \<and> opr \<noteq> SR_OP_DELETED \<longrightarrow>
       np2srv_ssh_update_auth_method n opr a = a)"
proof (intro conjI impI)
  show "auth_after 0 evs =
     (if standing NC_SSH_AUTH_PUBLICKEY evs then NC_SSH_AUTH_PUBLICKEY else 0)
     OR (if standing NC_SSH_AUTH_PASSWORD evs then NC_SSH_AUTH_PASSWORD else 0)
     OR (if standing NC_SSH_AUTH_INTERACTIVE evs then NC_SSH_AUTH_INTERACTIVE else 0)"
    by (rule auth_after_standing)
next
  assume "schema_name n = ''password'' \<or> schema_name n = ''hostbased'' \<or> schema_name n = ''none''
      \<or> (schema_name n = ''other'' \<and> value_str n \<noteq> ''interactive'')
      \<or> recognized_flag n = None"
  then have "recognized_flag n = None" by (auto simp: recognized_flag_def)
  then show "np2srv_ssh_update_auth_method n opr a = a" by (rule update_unrecognized)
qed (simp_all add: np2srv_ssh_update_auth_method_def)

text \<open>
  The theorem for six events, after which the password flag and the interactive flag
  stand, and for single events on the masks 5 and 7.
\<close>

theorem auth_mask_of_standing_flags_witness:
  "auth_after 0
     [changed SR_OP_CREATED (leaf ''publickey'' [] None),
      changed SR_OP_CREATED (leaf ''passsword'' [] None),
      changed SR_OP_DELETED (leaf ''publickey'' [] None),
      changed SR_OP_CREATED (leaf ''other'' ''interactive'' None),
      changed SR_OP_CREATED (leaf ''hostbased'' [] None),
      changed SR_OP_MODIFIED (leaf ''passsword'' [] None)] = 6
 \<and> schema_name (leaf ''passsword'' [] None) = ''passsword''
 \<and> np2srv_ssh_update_auth_method (leaf ''passsword'' [] None) SR_OP_CREATED 5 = 7
 \<and> np2srv_ssh_update_auth_method (leaf ''passsword'' [] None) SR_OP_DELETED 7 = 5
 \<and> schema_name (leaf ''none'' [] None) = ''none''
 \<and> np2srv_ssh_update_auth_method (leaf ''none'' [] None) SR_OP_CREATED 5 = 5"
proof -
  define evs where "evs =
     [changed SR_OP_CREATED (leaf ''publickey'' [] None),
      changed SR_OP_CREATED (leaf ''passsword'' [] None),
      changed SR_OP_DELETED (leaf ''publickey'' [] None),
      changed SR_OP_CREATED (leaf ''other'' ''interactive'' None),
      changed SR_OP_CREATED (leaf ''hostbased'' [] None),
      changed SR_OP_MODIFIED (leaf ''passsword'' [] None)]"
  have s: "\<not> standing NC_SSH_AUTH_PUBLICKEY evs" "standing NC_SSH_AUTH_PASSWORD evs"
    "standing NC_SSH_AUTH_INTERACTIVE evs"
    by (simp_all add: evs_def standing_def recognized_flag_def changed_def leaf_def
        NC_SSH_AUTH_PUBLICKEY_def NC_SSH_AUTH_PASSWORD_def NC_SSH_AUTH_INTERACTIVE_def)
  have pw: "schema_name (leaf ''passsword'' [] None) = ''passsword''"
    and no: "schema_name (leaf ''none'' [] None) = ''none''"
    by (simp_all add: leaf_def)
  note t = auth_mask_of_standing_flags [where evs = evs and a = 5 and opr = SR_OP_CREATED]
  from t [where n = "leaf ''passsword'' [] None"] s
  have "auth_after 0 evs = 6"
    by (simp add: NC_SSH_AUTH_PASSWORD_def NC_SSH_AUTH_INTERACTIVE_def)
  moreover
  from t [where n = "leaf ''passsword'' [] None"] pw
  have "np2srv_ssh_update_auth_method (leaf ''passsword'' [] None) SR_OP_CREATED 5 = 7"
    by (simp add: NC_SSH_AUTH_PASSWORD_def)
  moreover
  from auth_mask_of_standing_flags [where evs = evs and a = 7 and opr = SR_OP_CREATED
      and n = "leaf ''passsword'' [] None"] pw
  have "np2srv_ssh_update_auth_method (leaf ''passsword'' [] None) SR_OP_DELETED 7 = 5"
    by (simp add: NC_SSH_AUTH_PASSWORD_def)
  moreover
  from t [where n = "leaf ''none'' [] None"] no
  have "np2srv_ssh_update_auth_method (leaf ''none'' [] None) SR_OP_CREATED 5 = 5"
    by simp
  ultimately show ?thesis using pw no by (simp add: evs_def)
qed

text \<open>
  Claim C1 as it is stated fails for the leaf it names: a Created event on a leaf whose
  schema name is \<open>password\<close> leaves the empty mask empty, and a Deleted event on it
  leaves the mask 7 at 7.
\<close>

theorem password_leaf_not_recognized:
  "np2srv_ssh_update_auth_method (leaf ''password'' [] None) SR_OP_CREATED 0 = 0
 \<and> np2srv_ssh_update_auth_method (leaf ''password'' [] None) SR_OP_DELETED 7 = 7
 \<and> auth_after 0 [changed SR_OP_CREATED (leaf ''password'' [] None)] = 0"
  by (simp add: np2srv_ssh_update_auth_method_def auth_after_def leaf_def changed_def)

subsection \<open>C2: a deleted leaf and its default\<close>

text \<open>
  Claim C2, as the code has it. The keepalive parameters are passed to the live server
  in one call after the scan of their change-set, to \<open>nc_server_endpt_set_keepalives\<close>
  for a listening endpoint and to \<open>nc_server_ch_client_endpt_set_keepalives\<close> for the
  endpoint of a call-home client; the call gets for each of \<open>idle-time\<close>,
  \<open>max-probes\<close> and \<open>probe-interval\<close> the value of the last event of the change-set
  for that leaf, and that is the default 1, 10 or 5 when the Deleted event is the last
  event for its leaf. For a Deleted event \<open>max-wait\<close> and \<open>max-attempts\<close> of an
  endpoint and of a call-home endpoint are set to 30 and 3; \<open>period\<close>,
  \<open>anchor-time\<close> and \<open>idle-timeout\<close> of a periodic connection are set to 60, 0 and
  120; \<open>start-with\<close> and \<open>max-attempts\<close> of the reconnect strategy are set to
  first-listed and 3; each whatever the live state was. A Deleted event on the listen
  \<open>idle-timeout\<close>, on \<open>local-address\<close> and \<open>local-port\<close>, and on
  \<open>remote-address\<close> and \<open>remote-port\<close> makes no call: the world stays as it was.
\<close>

theorem deleted_leaf_defaults:
  assumes "oper c = SR_OP_DELETED"
  shows
   "(session xpath = it \<and> iter_rc it = SR_ERR_OK \<and> iter_end it = SR_ERR_NOT_FOUND
        \<and> iter_changes it = cs \<longrightarrow>
       np2srv_tcp_keepalives nc None ep session xpath w
         = call_after_scan nc
             (nc_server_endpt_set_keepalives ep (keepalive_param ''idle-time'' 1 cs)
                (keepalive_param ''max-probes'' 10 cs) (keepalive_param ''probe-interval'' 5 cs))
             xpath w
     \<and> np2srv_tcp_keepalives nc (Some cl) ep session xpath w
         = call_after_scan nc
             (nc_server_ch_client_endpt_set_keepalives cl ep (keepalive_param ''idle-time'' 1 cs)
                (keepalive_param ''max-probes'' 10 cs) (keepalive_param ''probe-interval'' 5 cs))
             xpath w)
  \<and> (cs = pre @ c # post \<and> (\<forall>d\<in>set post. schema_name (node d) \<noteq> schema_name (node c)) \<longrightarrow>
       (schema_name (node c) = ''idle-time'' \<longrightarrow> keepalive_param ''idle-time'' 1 cs = 1)
     \<and> (schema_name (node c) = ''max-probes'' \<longrightarrow> keepalive_param ''max-probes'' 10 cs = 10)
     \<and> (schema_name (node c) = ''probe-interval'' \<longrightarrow>
          keepalive_param ''probe-interval'' 5 cs = 5))
  \<and> (schema_name (node c) = ''max-wait'' \<and> list_key 4 (node c) = Some ep \<longrightarrow>
       endpt_ssh_keepalives_body nc xpath c w
         = checked_call nc (nc_server_ssh_endpt_set_auth_timeout ep 30) (xpath @ ''/*'') w)
  \<and> (schema_name (node c) = ''max-attempts'' \<and> list_key 4 (node c) = Some ep \<longrightarrow>
       endpt_ssh_keepalives_body nc xpath c w
         = checked_call nc (nc_server_ssh_endpt_set_auth_attempts ep 3) (xpath @ ''/*'') w)
  \<and> (schema_name (node c) = ''max-wait'' \<and> list_key 4 (node c) = Some ep
        \<and> list_key 6 (node c) = Some cl \<longrightarrow>
       ch_endpt_ssh_keepalives_body nc xpath c w
         = checked_call nc (nc_server_ssh_ch_client_endpt_set_auth_timeout cl ep 30) (xpath @ ''/*'') w)
  \<and> (schema_name (node c) = ''max-attempts'' \<and> list_key 4 (node c) = Some ep
        \<and> list_key 6 (node c) = Some cl \<longrightarrow>
       ch_endpt_ssh_keepalives_body nc xpath c w
         = checked_call nc (nc_server_ssh_ch_client_endpt_set_auth_attempts cl ep 3) (xpath @ ''/*'') w)
  \<and> (schema_name (node c) = ''idle-time'' \<longrightarrow>
       tcp_keepalives_step (idle_time, max_probes, probe_interval) c = (1, max_probes, probe_interval))
  \<and> (schema_name (node c) = ''max-probes'' \<longrightarrow>
       tcp_keepalives_step (idle_time, max_probes, probe_interval) c = (idle_time, 10, probe_interval))
  \<and> (schema_name (node c) = ''probe-interval'' \<longrightarrow>
       tcp_keepalives_step (idle_time, max_probes, probe_interval) c = (idle_time, max_probes, 5))
  \<and> (schema_name (node c) = ''period'' \<longrightarrow>
       ch_periodic_body nc dt cl xpath c w
         = checked_call nc (nc_server_ch_client_periodic_set_period cl 60) xpath w)
  \<and> (schema_name (node c) = ''anchor-time'' \<longrightarrow>
       ch_periodic_body nc dt cl xpath c w
         = checked_call nc (nc_server_ch_client_periodic_set_anchor_time cl 0) xpath w)
  \<and> (schema_name (node c) = ''idle-timeout'' \<longrightarrow>
       ch_periodic_body nc dt cl xpath c w
         = checked_call nc (nc_server_ch_client_periodic_set_idle_timeout cl 120) xpath w)
  \<and> (schema_name (node c) = ''start-with'' \<and> list_key 2 (node c) = Some cl \<longrightarrow>
       ch_reconnect_strategy_body nc xpath c w
         = checked_call nc (nc_server_ch_client_set_start_with cl NC_CH_FIRST_LISTED) (xpath @ ''/*'') w)
  \<and> (schema_name (node c) = ''max-attempts'' \<and> list_key 2 (node c) = Some cl \<longrightarrow>
       ch_reconnect_strategy_body nc xpath c w
         = checked_call nc (nc_server_ch_client_set_max_attempts cl 3) (xpath @ ''/*'') w)
  \<and> idle_timeout_body nc c w = Inr (None, w)
  \<and> ((schema_name (node c) = ''local-address'' \<or> schema_name (node c) = ''local-port'')
        \<and> list_key 3 (node c) = Some ep \<longrightarrow>
       endpt_tcp_params_body nc session xpath c w = Inr (None, w))
  \<and> ((schema_name (node c) = ''remote-address'' \<or> schema_name (node c) = ''remote-port'')
        \<and> list_key 3 (node c) = Some ep \<and> list_key 5 (node c) = Some cl \<longrightarrow>
       ch_client_endpt_tcp_params_body nc session xpath c w = Inr (None, w))"
proof (rule conjI [OF _ conjI])
  show "session xpath = it \<and> iter_rc it = SR_ERR_OK \<and> iter_end it = SR_ERR_NOT_FOUND
        \<and> iter_changes it = cs \<longrightarrow>
       np2srv_tcp_keepalives nc None ep session xpath w
         = call_after_scan nc
             (nc_server_endpt_set_keepalives ep (keepalive_param ''idle-time'' 1 cs)
                (keepalive_param ''max-probes'' 10 cs) (keepalive_param ''probe-interval'' 5 cs))
             xpath w
     \<and> np2srv_tcp_keepalives nc (Some cl) ep session xpath w
         = call_after_scan nc
             (nc_server_ch_client_endpt_set_keepalives cl ep (keepalive_param ''idle-time'' 1 cs)
                (keepalive_param ''max-probes'' 10 cs) (keepalive_param ''probe-interval'' 5 cs))
             xpath w"
    by (simp add: tcp_keepalives_run keepalives_call_def)
next
  show "cs = pre @ c # post \<and> (\<forall>d\<in>set post. schema_name (node d) \<noteq> schema_name (node c)) \<longrightarrow>
       (schema_name (node c) = ''idle-time'' \<longrightarrow> keepalive_param ''idle-time'' 1 cs = 1)
     \<and> (schema_name (node c) = ''max-probes'' \<longrightarrow> keepalive_param ''max-probes'' 10 cs = 10)
     \<and> (schema_name (node c) = ''probe-interval'' \<longrightarrow>
          keepalive_param ''probe-interval'' 5 cs = 5)"
  proof (intro impI; elim conjE)
    assume cs: "cs = pre @ c # post"
      and post: "\<forall>d\<in>set post. schema_name (node d) \<noteq> schema_name (node c)"
    note k = keepalive_param_last_deleted [OF cs post assms]
    show "(schema_name (node c) = ''idle-time'' \<longrightarrow> keepalive_param ''idle-time'' 1 cs = 1)
     \<and> (schema_name (node c) = ''max-probes'' \<longrightarrow> keepalive_param ''max-probes'' 10 cs = 10)
     \<and> (schema_name (node c) = ''probe-interval'' \<longrightarrow>
          keepalive_param ''probe-interval'' 5 cs = 5)"
      using k [of 1] k [of 10] k [of 5] by (intro conjI impI) simp_all
  qed
next
  show "(schema_name (node c) = ''max-wait'' \<and> list_key 4 (node c) = Some ep \<longrightarrow>
       endpt_ssh_keepalives_body nc xpath c w
         = checked_call nc (nc_server_ssh_endpt_set_auth_timeout ep 30) (xpath @ ''/*'') w)
  \<and> (schema_name (node c) = ''max-attempts'' \<and> list_key 4 (node c) = Some ep \<longrightarrow>
       endpt_ssh_keepalives_body nc xpath c w
         = checked_call nc (nc_server_ssh_endpt_set_auth_attempts ep 3) (xpath @ ''/*'') w)
  \<and> (schema_name (node c) = ''max-wait'' \<and> list_key 4 (node c) = Some ep
        \<and> list_key 6 (node c) = Some cl \<longrightarrow>
       ch_endpt_ssh_keepalives_body nc xpath c w
         = checked_call nc (nc_server_ssh_ch_client_endpt_set_auth_timeout cl ep 30) (xpath @ ''/*'') w)
  \<and> (schema_name (node c) = ''max-attempts'' \<and> list_key 4 (node c) = Some ep
        \<and> list_key 6 (node c) = Some cl \<longrightarrow>
       ch_endpt_ssh_keepalives_body nc xpath c w
         = checked_call nc (nc_server_ssh_ch_client_endpt_set_auth_attempts cl ep 3) (xpath @ ''/*'') w)
  \<and> (schema_name (node c) = ''idle-time'' \<longrightarrow>
       tcp_keepalives_step (idle_time, max_probes, probe_interval) c = (1, max_probes, probe_interval))
  \<and> (schema_name (node c) = ''max-probes'' \<longrightarrow>
       tcp_keepalives_step (idle_time, max_probes, probe_interval) c = (idle_time, 10, probe_interval))
  \<and> (schema_name (node c) = ''probe-interval'' \<longrightarrow>
       tcp_keepalives_step (idle_time, max_probes, probe_interval) c = (idle_time, max_probes, 5))
  \<and> (schema_name (node c) = ''period'' \<longrightarrow>
       ch_periodic_body nc dt cl xpath c w
         = checked_call nc (nc_server_ch_client_periodic_set_period cl 60) xpath w)
  \<and> (schema_name (node c) = ''anchor-time'' \<longrightarrow>
       ch_periodic_body nc dt cl xpath c w
         = checked_call nc (nc_server_ch_client_periodic_set_anchor_time cl 0) xpath w)
  \<and> (schema_name (node c) = ''idle-timeout'' \<longrightarrow>
       ch_periodic_body nc dt cl xpath c w
         = checked_call nc (nc_server_ch_client_periodic_set_idle_timeout cl 120) xpath w)
  \<and> (schema_name (node c) = ''start-with'' \<and> list_key 2 (node c) = Some cl \<longrightarrow>
       ch_reconnect_strategy_body nc xpath c w
         = checked_call nc (nc_server_ch_client_set_start_with cl NC_CH_FIRST_LISTED) (xpath @ ''/*'') w)
  \<and> (schema_name (node c) = ''max-attempts'' \<and> list_key 2 (node c) = Some cl \<longrightarrow>
       ch_reconnect_strategy_body nc xpath c w
         = checked_call nc (nc_server_ch_client_set_max_attempts cl 3) (xpath @ ''/*'') w)
  \<and> idle_timeout_body nc c w = Inr (None, w)
  \<and> ((schema_name (node c) = ''local-address'' \<or> schema_name (node c) = ''local-port'')
        \<and> list_key 3 (node c) = Some ep \<longrightarrow>
       endpt_tcp_params_body nc session xpath c w = Inr (None, w))
  \<and> ((schema_name (node c) = ''remote-address'' \<or> schema_name (node c) = ''remote-port'')
        \<and> list_key 3 (node c) = Some ep \<and> list_key 5 (node c) = Some cl \<longrightarrow>
       ch_client_endpt_tcp_params_body nc session xpath c w = Inr (None, w))"
    using assms
    by (simp add: endpt_ssh_keepalives_body_def ch_endpt_ssh_keepalives_body_def
      checked_call_def tcp_keepalives_step_def ch_periodic_body_def
      ch_reconnect_strategy_body_def idle_timeout_body_def endpt_tcp_params_body_def
      ch_client_endpt_tcp_params_body_def)
qed


text \<open>
  The theorem at concrete events: \<open>max-wait\<close> of \<open>ep1\<close> deleted after the timeout
  was set to 77, \<open>idle-time\<close> deleted with the locals at 7, 8 and 9, \<open>period\<close> of
  \<open>cl1\<close> deleted after it was set to 5, the listen \<open>idle-timeout\<close> deleted
  after it was set to 7, and a keepalive change-set in which \<open>idle-time\<close> is created
  with 7 and then deleted and \<open>max-probes\<close> is created with 4, for the endpoint
  \<open>ep1\<close> and for the endpoint \<open>ep1\<close> of the client \<open>cl1\<close>; in the last
  change-set \<open>idle-time\<close> is deleted and then created with 7, and 7 is what is set.
\<close>

theorem deleted_leaf_defaults_witness:
  "endpt_ssh_keepalives_body (nc_record (\<lambda>c. 0)) ''/ka'' (changed SR_OP_DELETED ex_max_wait)
      (w0\<lparr>live := [nc_server_ssh_endpt_set_auth_timeout ''ep1'' 77]\<rparr>)
    = Inr (None,
           \<lparr>live = [nc_server_ssh_endpt_set_auth_timeout ''ep1'' 77,
                    nc_server_ssh_endpt_set_auth_timeout ''ep1'' 30],
            allocs = [], trace = [Nc (nc_server_ssh_endpt_set_auth_timeout ''ep1'' 30) 0]\<rparr>)
 \<and> tcp_keepalives_step (7, 8, 9) (changed SR_OP_DELETED (leaf ''idle-time'' [] None)) = (1, 8, 9)
 \<and> ch_periodic_body (nc_record (\<lambda>c. 0)) (\<lambda>s. 0) ''cl1'' ''/p''
      (changed SR_OP_DELETED (leaf ''period'' [] None))
      (w0\<lparr>live := [nc_server_ch_client_periodic_set_period ''cl1'' 5]\<rparr>)
    = Inr (None,
           \<lparr>live = [nc_server_ch_client_periodic_set_period ''cl1'' 5,
                    nc_server_ch_client_periodic_set_period ''cl1'' 60],
            allocs = [], trace = [Nc (nc_server_ch_client_periodic_set_period ''cl1'' 60) 0]\<rparr>)
 \<and> idle_timeout_body (nc_record (\<lambda>c. 0)) (changed SR_OP_DELETED (leaf ''idle-timeout'' [] None))
      (w0\<lparr>live := [nc_server_set_idle_timeout 7]\<rparr>)
    = Inr (None, w0\<lparr>live := [nc_server_set_idle_timeout 7]\<rparr>)
 \<and> keepalive_param ''idle-time'' 1
      [changed SR_OP_CREATED (Lyd_node ''idle-time'' [] 0 7 [] None []),
       changed SR_OP_DELETED (leaf ''idle-time'' [] None),
       changed SR_OP_CREATED (Lyd_node ''max-probes'' [] 0 4 [] None [])] = 1
 \<and> np2srv_tcp_keepalives (nc_record (\<lambda>c. 0)) None ''ep1''
      (delivers ''/ka''
         [changed SR_OP_CREATED (Lyd_node ''idle-time'' [] 0 7 [] None []),
          changed SR_OP_DELETED (leaf ''idle-time'' [] None),
          changed SR_OP_CREATED (Lyd_node ''max-probes'' [] 0 4 [] None [])]) ''/ka'' w0
    = (SR_ERR_OK,
       \<lparr>live = [nc_server_endpt_set_keepalives ''ep1'' 1 4 (- 1)], allocs = [],
        trace = [Sr_get_changes_iter ''/ka'' SR_ERR_OK, Sr_free_change_iter ''/ka'',
                 Nc (nc_server_endpt_set_keepalives ''ep1'' 1 4 (- 1)) 0]\<rparr>)
 \<and> np2srv_tcp_keepalives (nc_record (\<lambda>c. 0)) (Some ''cl1'') ''ep1''
      (delivers ''/ka''
         [changed SR_OP_CREATED (Lyd_node ''idle-time'' [] 0 7 [] None []),
          changed SR_OP_DELETED (leaf ''idle-time'' [] None),
          changed SR_OP_CREATED (Lyd_node ''max-probes'' [] 0 4 [] None [])]) ''/ka'' w0
    = (SR_ERR_OK,
       \<lparr>live = [nc_server_ch_client_endpt_set_keepalives ''cl1'' ''ep1'' 1 4 (- 1)], allocs = [],
        trace = [Sr_get_changes_iter ''/ka'' SR_ERR_OK, Sr_free_change_iter ''/ka'',
                 Nc (nc_server_ch_client_endpt_set_keepalives ''cl1'' ''ep1'' 1 4 (- 1)) 0]\<rparr>)
 \<and> np2srv_tcp_keepalives (nc_record (\<lambda>c. 0)) None ''ep1''
      (delivers ''/ka''
         [changed SR_OP_DELETED (leaf ''idle-time'' [] None),
          changed SR_OP_CREATED (Lyd_node ''idle-time'' [] 0 7 [] None [])]) ''/ka'' w0
    = (SR_ERR_OK,
       \<lparr>live = [nc_server_endpt_set_keepalives ''ep1'' 7 (- 1) (- 1)], allocs = [],
        trace = [Sr_get_changes_iter ''/ka'' SR_ERR_OK, Sr_free_change_iter ''/ka'',
                 Nc (nc_server_endpt_set_keepalives ''ep1'' 7 (- 1) (- 1)) 0]\<rparr>)"
proof -
  define cs where "cs =
     [changed SR_OP_CREATED (Lyd_node ''idle-time'' [] 0 7 [] None []),
      changed SR_OP_DELETED (leaf ''idle-time'' [] None),
      changed SR_OP_CREATED (Lyd_node ''max-probes'' [] 0 4 [] None [])]"
  have d: "\<And>n. oper (changed SR_OP_DELETED n) = SR_OP_DELETED" by (simp add: changed_def)
  have k: "list_key 4 (node (changed SR_OP_DELETED ex_max_wait)) = Some ''ep1''"
    by (simp add: ex_defs)
  have n: "schema_name (node (changed SR_OP_DELETED ex_max_wait)) = ''max-wait''"
    "schema_name (node (changed SR_OP_DELETED (leaf ''idle-time'' [] None))) = ''idle-time''"
    "schema_name (node (changed SR_OP_DELETED (leaf ''period'' [] None))) = ''period''"
    by (simp_all add: ex_defs)
  have split: "cs = [changed SR_OP_CREATED (Lyd_node ''idle-time'' [] 0 7 [] None [])]
      @ changed SR_OP_DELETED (leaf ''idle-time'' [] None)
      # [changed SR_OP_CREATED (Lyd_node ''max-probes'' [] 0 4 [] None [])]"
    by (simp add: cs_def)
  have later: "\<forall>d\<in>set [changed SR_OP_CREATED (Lyd_node ''max-probes'' [] 0 4 [] None [])].
      schema_name (node d) \<noteq> schema_name (node (changed SR_OP_DELETED (leaf ''idle-time'' [] None)))"
    by (simp add: ex_defs)
  have i: "iter_rc (delivers ''/ka'' cs ''/ka'') = SR_ERR_OK"
    "iter_end (delivers ''/ka'' cs ''/ka'') = SR_ERR_NOT_FOUND"
    "iter_changes (delivers ''/ka'' cs ''/ka'') = cs"
    by (simp_all add: delivers_def)
  have others: "keepalive_param ''max-probes'' 10 cs = 4" "keepalive_param ''probe-interval'' 5 cs = - 1"
    by (simp_all add: cs_def keepalive_param_def changed_def leaf_def)
  note t = deleted_leaf_defaults [OF d, where nc = "nc_record (\<lambda>c. 0)" and ep = "''ep1''"
      and cl = "''cl1''" and dt = "\<lambda>s. 0" and idle_time = 7 and max_probes = 8
      and probe_interval = 9 and cs = cs
      and pre = "[changed SR_OP_CREATED (Lyd_node ''idle-time'' [] 0 7 [] None [])]"
      and post = "[changed SR_OP_CREATED (Lyd_node ''max-probes'' [] 0 4 [] None [])]"
      and session = "delivers ''/ka'' cs" and it = "delivers ''/ka'' cs ''/ka''"]
  from t [where n1 = ex_max_wait and xpath = "''/ka''"
      and w = "w0\<lparr>live := [nc_server_ssh_endpt_set_auth_timeout ''ep1'' 77]\<rparr>"] k n
  have "endpt_ssh_keepalives_body (nc_record (\<lambda>c. 0)) ''/ka'' (changed SR_OP_DELETED ex_max_wait)
      (w0\<lparr>live := [nc_server_ssh_endpt_set_auth_timeout ''ep1'' 77]\<rparr>)
    = checked_call (nc_record (\<lambda>c. 0)) (nc_server_ssh_endpt_set_auth_timeout ''ep1'' 30)
        (''/ka'' @ ''/*'') (w0\<lparr>live := [nc_server_ssh_endpt_set_auth_timeout ''ep1'' 77]\<rparr>)"
    by simp
  moreover
  from t [where n1 = "leaf ''idle-time'' [] None" and xpath = "''/ka''" and w = w0] n
  have "tcp_keepalives_step (7, 8, 9) (changed SR_OP_DELETED (leaf ''idle-time'' [] None))
      = (1, 8, 9)"
    by simp
  moreover
  from t [where n1 = "leaf ''period'' [] None" and xpath = "''/p''"
      and w = "w0\<lparr>live := [nc_server_ch_client_periodic_set_period ''cl1'' 5]\<rparr>"] n
  have "ch_periodic_body (nc_record (\<lambda>c. 0)) (\<lambda>s. 0) ''cl1'' ''/p''
      (changed SR_OP_DELETED (leaf ''period'' [] None))
      (w0\<lparr>live := [nc_server_ch_client_periodic_set_period ''cl1'' 5]\<rparr>)
    = checked_call (nc_record (\<lambda>c. 0)) (nc_server_ch_client_periodic_set_period ''cl1'' 60)
        ''/p'' (w0\<lparr>live := [nc_server_ch_client_periodic_set_period ''cl1'' 5]\<rparr>)"
    by simp
  moreover
  from t [where n1 = "leaf ''idle-timeout'' [] None" and xpath = "''/ka''"
      and w = "w0\<lparr>live := [nc_server_set_idle_timeout 7]\<rparr>"]
  have "idle_timeout_body (nc_record (\<lambda>c. 0))
      (changed SR_OP_DELETED (leaf ''idle-timeout'' [] None))
      (w0\<lparr>live := [nc_server_set_idle_timeout 7]\<rparr>)
    = Inr (None, w0\<lparr>live := [nc_server_set_idle_timeout 7]\<rparr>)"
    by simp
  moreover
  from t [where n1 = "leaf ''idle-time'' [] None" and xpath = "''/ka''" and w = w0] n split later
  have kp: "keepalive_param ''idle-time'' 1 cs = 1"
    by simp
  moreover
  from t [where n1 = "leaf ''idle-time'' [] None" and xpath = "''/ka''" and w = w0] i
  have "np2srv_tcp_keepalives (nc_record (\<lambda>c. 0)) None ''ep1'' (delivers ''/ka'' cs) ''/ka'' w0
         = call_after_scan (nc_record (\<lambda>c. 0))
             (nc_server_endpt_set_keepalives ''ep1'' (keepalive_param ''idle-time'' 1 cs)
                (keepalive_param ''max-probes'' 10 cs) (keepalive_param ''probe-interval'' 5 cs))
             ''/ka'' w0
     \<and> np2srv_tcp_keepalives (nc_record (\<lambda>c. 0)) (Some ''cl1'') ''ep1'' (delivers ''/ka'' cs)
           ''/ka'' w0
         = call_after_scan (nc_record (\<lambda>c. 0))
             (nc_server_ch_client_endpt_set_keepalives ''cl1'' ''ep1''
                (keepalive_param ''idle-time'' 1 cs)
                (keepalive_param ''max-probes'' 10 cs) (keepalive_param ''probe-interval'' 5 cs))
             ''/ka'' w0"
    by simp
  moreover
  define cs2 where "cs2 =
     [changed SR_OP_DELETED (leaf ''idle-time'' [] None),
      changed SR_OP_CREATED (Lyd_node ''idle-time'' [] 0 7 [] None [])]"
  have i2: "iter_rc (delivers ''/ka'' cs2 ''/ka'') = SR_ERR_OK"
    "iter_end (delivers ''/ka'' cs2 ''/ka'') = SR_ERR_NOT_FOUND"
    "iter_changes (delivers ''/ka'' cs2 ''/ka'') = cs2"
    by (simp_all add: delivers_def)
  have p2: "keepalive_param ''idle-time'' 1 cs2 = 7" "keepalive_param ''max-probes'' 10 cs2 = - 1"
    "keepalive_param ''probe-interval'' 5 cs2 = - 1"
    by (simp_all add: cs2_def keepalive_param_def changed_def leaf_def)
  from deleted_leaf_defaults [OF d, where nc = "nc_record (\<lambda>c. 0)" and ep = "''ep1''"
      and cs = cs2 and session = "delivers ''/ka'' cs2" and it = "delivers ''/ka'' cs2 ''/ka''"
      and xpath = "''/ka''" and w = w0] i2
  have "np2srv_tcp_keepalives (nc_record (\<lambda>c. 0)) None ''ep1'' (delivers ''/ka'' cs2) ''/ka'' w0
         = call_after_scan (nc_record (\<lambda>c. 0))
             (nc_server_endpt_set_keepalives ''ep1'' (keepalive_param ''idle-time'' 1 cs2)
                (keepalive_param ''max-probes'' 10 cs2) (keepalive_param ''probe-interval'' 5 cs2))
             ''/ka'' w0"
    by simp
  ultimately show ?thesis
    unfolding cs_def [symmetric] cs2_def [symmetric]
    by (simp add: others p2 checked_call_def call_after_scan_def call_def log_def nc_record_def
        w0_def)
qed

text \<open>
  Claim C2 as it is stated fails for the listen \<open>idle-timeout\<close>: the callback runs
  on a change-set that holds one Deleted event for the leaf, makes no call to the live
  server and returns \<open>SR_ERR_OK\<close>; the live state, which holds the 7 it was given
  before, is unchanged.
\<close>

theorem idle_timeout_deleted_unchanged:
  "np2srv_idle_timeout_cb (nc_record (\<lambda>c. 0))
      (delivers ''/idle-timeout'' [changed SR_OP_DELETED (leaf ''idle-timeout'' [] None)])
      ''/idle-timeout'' (w0\<lparr>live := [nc_server_set_idle_timeout 7]\<rparr>)
    = Inr (SR_ERR_OK,
           \<lparr>live = [nc_server_set_idle_timeout 7], allocs = [],
            trace = [Sr_get_changes_iter ''/idle-timeout'' SR_ERR_OK,
                     Sr_free_change_iter ''/idle-timeout'']\<rparr>)"
  by (simp add: np2srv_idle_timeout_cb_def idle_timeout_body_def run_defs ex_defs)

subsection \<open>C3: releasing the subtree and the session\<close>

text \<open>
  Claim C3 has the cleanup of \<open>np2srv_hostkey_cb\<close> well-defined on every exit path.
  The cleanup starts with \<open>while (data->parent)\<close>; on the three paths where the session
  started and \<open>data\<close> is still NULL (no such host key, \<open>sr_get_subtree\<close> failed,
  \<open>asprintf\<close> failed) it dereferences NULL, and neither the subtree nor the session
  is released.
\<close>

theorem hostkey_cleanup_null_subtree:
  "np2srv_hostkey_cb \<lparr>session_start_rc = SR_ERR_OK, get_subtree = (\<lambda>p. (SR_ERR_OK, None))\<rparr>
     ''genkey'' w0 = Inl Null_deref
 \<and> np2srv_hostkey_cb \<lparr>session_start_rc = SR_ERR_OK, get_subtree = (\<lambda>p. (SR_ERR_SYS, None))\<rparr>
     ''genkey'' w0 = Inl Null_deref
 \<and> np2srv_hostkey_cb \<lparr>session_start_rc = SR_ERR_OK, get_subtree = (\<lambda>p. (SR_ERR_OK, None))\<rparr>
     ''genkey'' (w0\<lparr>allocs := [False]\<rparr>) = Inl Null_deref"
  by (simp add: np2srv_hostkey_cb_def hostkey_cleanup_def alloc_def log_def w0_def)

subsection \<open>C4: releasing the change iterator\<close>

text \<open>
  Claim C4 has every callback free its iterator on every exit path. Two returns come
  without \<open>sr_free_change_iter\<close>: in \<open>np2srv_endpt_tcp_params_cb\<close> the
  \<open>return SR_ERR_NOMEM\<close> when the path of the nested keepalive scan cannot be
  allocated, and in \<open>np2srv_ch_connection_type_cb\<close> the return of the nested periodic
  scan's error. In both runs the outer iterator is opened and never freed.
\<close>

theorem iterator_not_released:
  "np2srv_endpt_tcp_params_cb (nc_record (\<lambda>c. 0))
      (delivers ''/tcp/*'' [changed SR_OP_CREATED ex_tcp_keepalives]) ''/tcp''
      (w0\<lparr>allocs := [True, False]\<rparr>)
    = Inr (SR_ERR_NOMEM,
           \<lparr>live = [nc_server_endpt_enable_keepalives ''ep1'' 1], allocs = [],
            trace = [Sr_get_changes_iter ''/tcp/*'' SR_ERR_OK,
                     Nc (nc_server_endpt_enable_keepalives ''ep1'' 1) 0]\<rparr>)
 \<and> unreleased [Sr_get_changes_iter ''/tcp/*'' SR_ERR_OK,
                Nc (nc_server_endpt_enable_keepalives ''ep1'' 1) 0] = [''/tcp/*'']
 \<and> np2srv_ch_connection_type_cb (nc_record (\<lambda>c. 0)) (\<lambda>s. 0)
      (delivers ''/ct/*'' [changed SR_OP_MODIFIED ex_periodic]) ''/ct'' w0
    = Inr (SR_ERR_INTERNAL,
           \<lparr>live = [], allocs = [],
            trace = [Sr_get_changes_iter ''/ct/*'' SR_ERR_OK,
                     Sr_get_changes_iter ''/ct/periodic/*'' SR_ERR_INTERNAL]\<rparr>)
 \<and> unreleased [Sr_get_changes_iter ''/ct/*'' SR_ERR_OK,
                Sr_get_changes_iter ''/ct/periodic/*'' SR_ERR_INTERNAL] = [''/ct/*'']"
  by (simp add: np2srv_endpt_tcp_params_cb_def endpt_tcp_params_body_def
      np2srv_ch_connection_type_cb_def ch_connection_type_body_def
      np2srv_ch_periodic_connection_params_def unreleased_def run_defs ex_defs)

subsection \<open>C5: public-key authentication\<close>

text \<open>
  Claim C5. \<open>np2srv_pubkey_auth_cb\<close> returns 0 exactly when the account is found, the
  path is allocated, the import of the key file succeeds and the imported key has the
  public material of the offered key; otherwise it returns 1. With an import that
  delivers the first key of the file, an offered key that differs from the first key
  is rejected, whatever the later keys of the file are.
\<close>

theorem pubkey_auth_first_key_only:
  "(fst (np2srv_pubkey_auth_cb getpwnam imp username key w) = 0) =
     (\<exists>pwd pub_key.
        getpwnam username = Some pwd \<and> fst (alloc w)
      \<and> imp (pw_dir pwd @ ''/.ssh/authorized_keys'') = Inr pub_key
      \<and> key_public key = key_public pub_key)
 \<and> (fst (np2srv_pubkey_auth_cb getpwnam imp username key w) = 0
      \<or> fst (np2srv_pubkey_auth_cb getpwnam imp username key w) = 1)
 \<and> (getpwnam username = Some pwd
      \<and> files (pw_dir pwd @ ''/.ssh/authorized_keys'') = Some (k # ks)
      \<and> key_public k \<noteq> key_public key \<longrightarrow>
     fst (np2srv_pubkey_auth_cb getpwnam (import_first_key files) username key w) = 1)"
proof (intro conjI impI)
  show "(fst (np2srv_pubkey_auth_cb getpwnam imp username key w) = 0) =
     (\<exists>pwd pub_key.
        getpwnam username = Some pwd \<and> fst (alloc w)
      \<and> imp (pw_dir pwd @ ''/.ssh/authorized_keys'') = Inr pub_key
      \<and> key_public key = key_public pub_key)"
    by (rule pubkey_auth_accepts)
  show "fst (np2srv_pubkey_auth_cb getpwnam imp username key w) = 0
      \<or> fst (np2srv_pubkey_auth_cb getpwnam imp username key w) = 1"
    by (rule pubkey_auth_result)
  assume a: "getpwnam username = Some pwd
      \<and> files (pw_dir pwd @ ''/.ssh/authorized_keys'') = Some (k # ks)
      \<and> key_public k \<noteq> key_public key"
  then have "fst (np2srv_pubkey_auth_cb getpwnam (import_first_key files) username key w) \<noteq> 0"
    by (auto simp: pubkey_auth_accepts import_first_key_def)
  with pubkey_auth_result [of getpwnam "import_first_key files" username key w]
  show "fst (np2srv_pubkey_auth_cb getpwnam (import_first_key files) username key w) = 1"
    by blast
qed

text \<open>
  The theorem for the account \<open>alice\<close> whose file holds the keys \<open>AAAA\<close> and
  \<open>BBBB\<close>: the first is accepted, the second is rejected.
\<close>

theorem pubkey_auth_first_key_only_witness:
  "fst (np2srv_pubkey_auth_cb ex_passwd (import_first_key ex_keys) ''alice'' (ex_pubkey ''AAAA'') w0) = 0
 \<and> ex_keys ''/home/alice/.ssh/authorized_keys'' = Some [ex_pubkey ''AAAA'', ex_pubkey ''BBBB'']
 \<and> fst (np2srv_pubkey_auth_cb ex_passwd (import_first_key ex_keys) ''alice'' (ex_pubkey ''BBBB'') w0) = 1"
proof -
  have p: "ex_passwd ''alice'' = Some alice" by (simp add: ex_passwd_def)
  have f: "ex_keys (pw_dir alice @ ''/.ssh/authorized_keys'')
      = Some (ex_pubkey ''AAAA'' # [ex_pubkey ''BBBB''])"
    by (simp add: ex_keys_def alice_def)
  have i: "import_first_key ex_keys (pw_dir alice @ ''/.ssh/authorized_keys'') = Inr (ex_pubkey ''AAAA'')"
    by (simp add: import_first_key_def f)
  have a: "fst (alloc w0)" by (simp add: alloc_def w0_def)
  have ne: "key_public (ex_pubkey ''AAAA'') \<noteq> key_public (ex_pubkey ''BBBB'')"
    by (simp add: ex_pubkey_def)
  note t = pubkey_auth_first_key_only [where getpwnam = ex_passwd and username = "''alice''"
      and imp = "import_first_key ex_keys" and files = ex_keys and pwd = alice and w = w0
      and k = "ex_pubkey ''AAAA''" and ks = "[ex_pubkey ''BBBB'']"]
  from t [where key = "ex_pubkey ''AAAA''"] p i a
  have "fst (np2srv_pubkey_auth_cb ex_passwd (import_first_key ex_keys) ''alice''
          (ex_pubkey ''AAAA'') w0) = 0"
    by simp
  moreover
  from t [where key = "ex_pubkey ''BBBB''"] p f ne
  have "fst (np2srv_pubkey_auth_cb ex_passwd (import_first_key ex_keys) ''alice''
          (ex_pubkey ''BBBB'') w0) = 1"
    by simp
  ultimately show ?thesis by (simp add: ex_keys_def)
qed

subsection \<open>C6: parsing a key file\<close>

text \<open>
  Claim C6 has the key data end at the next space or newline, and has every error of
  \<open>fopen\<close> other than a missing file fail the operation. Two runs of the callback
  for the account \<open>alice\<close> end in a fault instead. A key line whose data is followed
  by the newline and not by a space (a key without a comment) makes the code call
  \<open>strchr\<close> on the NULL pointer the search for the space left. A key file that
  cannot be opened for a reason other than \<open>ENOENT\<close> takes the code to the logger
  call that passes one argument for two conversions. (For the example file of the spec,
  for a file of comment and blank lines and for a file that does not exist the callback
  returns what the claim says: \<open>key_files_of_an_account\<close> and \<open>key_files_of_alice\<close>.)
\<close>

theorem key_file_runs_that_fault:
  "np2srv_endpt_ssh_auth_users_oper_cb
      (alice_file (Fopen_file \<lparr>file_data = ''ssh-rsa AAAAB3Nz...'' @ [CHR 0x0A],
                              file_error = False\<rparr>)) [alice] w0
    = Inl Null_deref
 \<and> np2srv_endpt_ssh_auth_users_oper_cb (alice_file (Fopen_null EACCES)) [alice] w0
    = Inl Missing_argument"
  by (simp add: np2srv_endpt_ssh_auth_users_oper_cb_def alice_file_def alice_def w0_def
      alloc_def key_without_comment_faults [simplified])

subsection \<open>C7: resolving a host key\<close>

text \<open>
  Claim C7 has \<open>np2srv_hostkey_cb\<close> return an error when the host-key subtree is
  absent. On that path the callback does not return: the cleanup dereferences the NULL
  subtree. (With a subtree present the callback returns what the claim says:
  \<open>hostkey_cb_algorithm_prefix\<close>, \<open>hostkey_cb_missing_leaf\<close> and
  \<open>hostkey_cb_strdup_fails\<close>.)
\<close>

theorem hostkey_absent_no_error_return:
  "np2srv_hostkey_cb \<lparr>session_start_rc = SR_ERR_OK, get_subtree = (\<lambda>p. (SR_ERR_OK, None))\<rparr>
     ''missing'' w0 = Inl Null_deref"
  by (simp add: np2srv_hostkey_cb_def hostkey_cleanup_def alloc_def log_def w0_def)

subsection \<open>C8: mutations are applied as the scan proceeds\<close>

text \<open>
  Claim C8, handler by handler and with any live server, for an iterator that opens.
  \<^item> \<open>np2srv_endpt_ssh_hostkey_cb\<close>, \<open>np2srv_ch_endpt_ssh_hostkey_cb\<close>,
    \<open>np2srv_ch_client_cb\<close>, \<open>np2srv_ch_periodic_connection_params\<close>,
    \<open>np2srv_endpt_ssh_keepalives_cb\<close>, \<open>np2srv_ch_endpt_ssh_keepalives_cb\<close> and
    \<open>np2srv_ch_reconnect_strategy_cb\<close> (the last three once their path is allocated)
    test every call: each makes the calls its events stand for in event order, each on
    the state the one before left; it makes the first \<open>n\<close> of them and no other, all
    but the last of those succeeded, and nothing is undone. If the last call made failed
    the result is \<open>SR_ERR_INTERNAL\<close>; otherwise every call was made and the result is
    \<open>SR_ERR_OK\<close> when the iterator ended with \<open>SR_ERR_NOT_FOUND\<close> and the iterator's
    error when it did not.
  \<^item> \<open>np2srv_idle_timeout_cb\<close>, whose setter returns nothing, makes all its calls
    and returns \<open>SR_ERR_OK\<close> exactly when the iterator was exhausted.
  \<^item> \<open>np2srv_endpt_ssh_cb\<close> and \<open>np2srv_ch_client_endpt_ssh_cb\<close>, the two
    authentication-method handlers, the two handlers of the TCP parameters (when no
    allocation fails and the nested iterator of every \<open>keepalives\<close> event opens and
    runs to its end) and \<open>np2srv_ch_connection_type_cb\<close> on events other than
    Modified ones return what \<open>reconciled\<close> says for the steps of their events:
    the events are applied in order, each to the world the one before left; the handler
    stops after the first event that fails and returns \<open>SR_ERR_INTERNAL\<close>, with what
    was applied left as it is and no call made for a later event; it returns
    \<open>SR_ERR_OK\<close> exactly when the iterator was exhausted and no event failed. For
    the first two an event fails when the add or the delete fails; the result of setting
    the authentication methods of the new endpoint is not tested.
  \<^item> For a Modified event of the periodic connection type, once the nested path is
    allocated, \<open>np2srv_ch_connection_type_cb\<close> runs
    \<open>np2srv_ch_periodic_connection_params\<close>, one of the handlers above, for the
    client and returns its result when that is not \<open>SR_ERR_OK\<close>.
  \<^item> \<open>np2srv_tcp_keepalives\<close> makes its one call after the scan, and only when the
    iterator was exhausted.
\<close>

theorem scan_applies_in_order_without_undo:
  assumes "session path = it" and "iter_rc it = SR_ERR_OK" and "iter_end it \<noteq> SR_ERR_OK"
  shows
   "(those (map hostkey_mutation (iter_changes it)) = Some ms \<longrightarrow>
      (\<exists>res. np2srv_endpt_ssh_hostkey_cb nc session path w = Inr res
           \<and> applied_in_order nc it path (concat ms) w res))
  \<and> (those (map ch_hostkey_mutation (iter_changes it)) = Some ms \<longrightarrow>
      (\<exists>res. np2srv_ch_endpt_ssh_hostkey_cb nc session path w = Inr res
           \<and> applied_in_order nc it path (concat ms) w res))
  \<and> (those (map ch_client_mutation (iter_changes it)) = Some ms \<longrightarrow>
      (\<exists>res. np2srv_ch_client_cb nc session path w = Inr res
           \<and> applied_in_order nc it path (concat ms) w res))
  \<and> (those (map (periodic_mutation dt cl) (iter_changes it)) = Some ms \<longrightarrow>
      (\<exists>res. np2srv_ch_periodic_connection_params nc dt cl session path w = Inr res
           \<and> applied_in_order nc it path (concat ms) w res))
  \<and> (path = xpath @ ''/*'' \<and> alloc w' = (True, w)
        \<and> those (map auth_mutation (iter_changes it)) = Some ms \<longrightarrow>
      (\<exists>res. np2srv_endpt_ssh_keepalives_cb nc session xpath w' = Inr res
           \<and> applied_in_order nc it path (concat ms) w res))
  \<and> (path = xpath @ ''/*'' \<and> alloc w' = (True, w)
        \<and> those (map ch_auth_mutation (iter_changes it)) = Some ms \<longrightarrow>
      (\<exists>res. np2srv_ch_endpt_ssh_keepalives_cb nc session xpath w' = Inr res
           \<and> applied_in_order nc it path (concat ms) w res))
  \<and> (path = xpath @ ''/*'' \<and> alloc w' = (True, w)
        \<and> those (map reconnect_mutation (iter_changes it)) = Some ms \<longrightarrow>
      (\<exists>res. np2srv_ch_reconnect_strategy_cb nc session xpath w' = Inr res
           \<and> applied_in_order nc it path (concat ms) w res))
  \<and> (\<exists>tr s rc.
          run_calls nc (idle_timeout_mutations (iter_changes it)) (live w) = (tr, s)
        \<and> np2srv_idle_timeout_cb nc session path w =
            Inr (rc, w\<lparr>live := s,
                       trace := trace w @ [Sr_get_changes_iter path SR_ERR_OK] @ called tr
                                @ [Sr_free_change_iter path]\<rparr>)
        \<and> (rc = SR_ERR_OK) = (iter_end it = SR_ERR_NOT_FOUND))
  \<and> (those (map endpt_ssh_steps (iter_changes it)) = Some ss \<longrightarrow>
      np2srv_endpt_ssh_cb nc session path w = Inr (reconciled nc it path ss w))
  \<and> (those (map ch_client_endpt_ssh_steps (iter_changes it)) = Some ss \<longrightarrow>
      np2srv_ch_client_endpt_ssh_cb nc session path w = Inr (reconciled nc it path ss w))
  \<and> (path = xpath @ ''/*'' \<and> alloc w' = (True, w)
        \<and> those (map auth_methods_steps (iter_changes it)) = Some ss \<longrightarrow>
      np2srv_endpt_ssh_auth_methods_cb nc session xpath w' = Inr (reconciled nc it path ss w))
  \<and> (path = xpath @ ''/*'' \<and> alloc w' = (True, w)
        \<and> those (map ch_auth_methods_steps (iter_changes it)) = Some ss \<longrightarrow>
      np2srv_ch_endpt_ssh_auth_methods_cb nc session xpath w' = Inr (reconciled nc it path ss w))
  \<and> (path = xpath @ ''/*'' \<and> alloc w' = (True, w) \<and> allocs w = []
        \<and> those (map (tcp_params_steps session xpath) (iter_changes it)) = Some ss \<longrightarrow>
      np2srv_endpt_tcp_params_cb nc session xpath w' = Inr (reconciled nc it path ss w))
  \<and> (path = xpath @ ''/*'' \<and> alloc w' = (True, w) \<and> allocs w = []
        \<and> those (map (ch_tcp_params_steps session xpath) (iter_changes it)) = Some ss \<longrightarrow>
      np2srv_ch_client_endpt_tcp_params_cb nc session xpath w' = Inr (reconciled nc it path ss w))
  \<and> (path = xpath @ ''/*'' \<and> alloc w' = (True, w)
        \<and> those (map connection_type_steps (iter_changes it)) = Some ss \<longrightarrow>
      np2srv_ch_connection_type_cb nc dt session xpath w' = Inr (reconciled nc it path ss w))
  \<and> (oper c = SR_OP_MODIFIED \<and> schema_name (node c) = ''periodic''
        \<and> list_key 2 (node c) = Some cl \<and> alloc v = (True, v1) \<longrightarrow>
      ch_connection_type_body nc dt session xpath c v =
        (case np2srv_ch_periodic_connection_params nc dt cl session (xpath @ ''/periodic/*'') v1 of
           Inl f \<Rightarrow> Inl f
         | Inr (rc, v2) \<Rightarrow> Inr (if rc \<noteq> SR_ERR_OK then Some rc else None, v2)))
  \<and> np2srv_tcp_keepalives nc client ep session path w =
      (if iter_end it = SR_ERR_NOT_FOUND
       then call_after_scan nc (keepalives_call client ep (iter_changes it)) path w
       else (iter_end it,
             w\<lparr>trace := trace w @ [Sr_get_changes_iter path SR_ERR_OK,
                                    Sr_free_change_iter path]\<rparr>))
  \<and> (fst (reconciled nc it path ss w) = SR_ERR_OK) =
      (iter_end it = SR_ERR_NOT_FOUND
       \<and> \<not> fst (apply_events nc ss (log (Sr_get_changes_iter path SR_ERR_OK) w)))
  \<and> (apply_events nc ss w = (True, w1) \<longrightarrow>
      (\<exists>n w2. n < length ss \<and> apply_events nc (take n ss) w = (False, w2)
             \<and> apply_steps nc (ss ! n) False w2 = (True, w1)))"
proof -
  note old = handlers_applied_in_order [where session = session and path = path
      and it = it and ms = ms and nc = nc and w = w and dt = dt and cl = cl and xpath = xpath
      and w' = w', OF assms]
  note new = step_handlers [where session = session and path = path and it = it and ss = ss
      and nc = nc and w = w and dt = dt and xpath = xpath and w' = w', OF assms(1,2)]
  have gm: "oper c = SR_OP_MODIFIED \<and> schema_name (node c) = ''periodic''
        \<and> list_key 2 (node c) = Some cl \<and> alloc v = (True, v1) \<longrightarrow>
      ch_connection_type_body nc dt session xpath c v =
        (case np2srv_ch_periodic_connection_params nc dt cl session (xpath @ ''/periodic/*'') v1 of
           Inl f \<Rightarrow> Inl f
         | Inr (rc, v2) \<Rightarrow> Inr (if rc \<noteq> SR_ERR_OK then Some rc else None, v2))"
    by (auto simp: ch_connection_type_body_def split: sum.splits prod.splits)
  have ka: "np2srv_tcp_keepalives nc client ep session path w =
      (if iter_end it = SR_ERR_NOT_FOUND
       then call_after_scan nc (keepalives_call client ep (iter_changes it)) path w
       else (iter_end it,
             w\<lparr>trace := trace w @ [Sr_get_changes_iter path SR_ERR_OK,
                                    Sr_free_change_iter path]\<rparr>))"
    by (rule tcp_keepalives_run [where session = session and xpath = path and it = it,
          OF assms(1,2)])
  have ok: "(fst (reconciled nc it path ss w) = SR_ERR_OK) =
      (iter_end it = SR_ERR_NOT_FOUND
       \<and> \<not> fst (apply_events nc ss (log (Sr_get_changes_iter path SR_ERR_OK) w)))"
    by (rule reconciled_ok [OF assms(3)])
  have stop: "apply_events nc ss w = (True, w1) \<longrightarrow>
      (\<exists>n w2. n < length ss \<and> apply_events nc (take n ss) w = (False, w2)
             \<and> apply_steps nc (ss ! n) False w2 = (True, w1))"
    using apply_events_stops [of nc ss w w1] by blast
  from old new gm ka ok stop show ?thesis by (elim conjE) (intro conjI; assumption)
qed


text \<open>
  The theorem for three created host keys of \<open>ep1\<close> and a live server that refuses
  the second: the first two calls are made, the third is not, and the result is
  \<open>SR_ERR_INTERNAL\<close>; and for the authentication methods of \<open>ep1\<close>, whose mask
  is 5, with \<open>passsword\<close> created and \<open>publickey\<close> deleted: the mask is read and set
  for each event and ends at 6; and for the keepalives of the endpoint \<open>ep1\<close> of the
  client \<open>cl1\<close> created, with \<open>idle-time\<close> deleted in the nested change-set: the
  keepalives are switched on and the parameters 1, -1 and -1 are set.
\<close>

theorem scan_applies_in_order_without_undo_witness:
  "those (map hostkey_mutation ex_hostkey_changes)
     = Some [[nc_server_ssh_endpt_add_hostkey ''ep1'' ''k1'' (- 1)],
             [nc_server_ssh_endpt_add_hostkey ''ep1'' ''k2'' (- 1)],
             [nc_server_ssh_endpt_add_hostkey ''ep1'' ''k3'' (- 1)]]
 \<and> np2srv_endpt_ssh_hostkey_cb
       (nc_record (refuse (nc_server_ssh_endpt_add_hostkey ''ep1'' ''k2'' (- 1))))
       (delivers ''/hk'' ex_hostkey_changes) ''/hk'' w0
     = Inr (SR_ERR_INTERNAL,
            \<lparr>live = [nc_server_ssh_endpt_add_hostkey ''ep1'' ''k1'' (- 1),
                     nc_server_ssh_endpt_add_hostkey ''ep1'' ''k2'' (- 1)],
             allocs = [],
             trace = [Sr_get_changes_iter ''/hk'' SR_ERR_OK,
                      Nc (nc_server_ssh_endpt_add_hostkey ''ep1'' ''k1'' (- 1)) 0,
                      Nc (nc_server_ssh_endpt_add_hostkey ''ep1'' ''k2'' (- 1)) (- 1),
                      Sr_free_change_iter ''/hk'']\<rparr>)
 \<and> applied_in_order
       (nc_record (refuse (nc_server_ssh_endpt_add_hostkey ''ep1'' ''k2'' (- 1))))
       (delivers ''/hk'' ex_hostkey_changes ''/hk'') ''/hk''
       [nc_server_ssh_endpt_add_hostkey ''ep1'' ''k1'' (- 1),
        nc_server_ssh_endpt_add_hostkey ''ep1'' ''k2'' (- 1),
        nc_server_ssh_endpt_add_hostkey ''ep1'' ''k3'' (- 1)] w0
       (SR_ERR_INTERNAL,
            \<lparr>live = [nc_server_ssh_endpt_add_hostkey ''ep1'' ''k1'' (- 1),
                     nc_server_ssh_endpt_add_hostkey ''ep1'' ''k2'' (- 1)],
             allocs = [],
             trace = [Sr_get_changes_iter ''/hk'' SR_ERR_OK,
                      Nc (nc_server_ssh_endpt_add_hostkey ''ep1'' ''k1'' (- 1)) 0,
                      Nc (nc_server_ssh_endpt_add_hostkey ''ep1'' ''k2'' (- 1)) (- 1),
                      Sr_free_change_iter ''/hk'']\<rparr>)
 \<and> those (map auth_methods_steps
      [changed SR_OP_CREATED (ex_auth_method ''passsword'' []),
       changed SR_OP_DELETED (ex_auth_method ''publickey'' [])])
     = Some [[Derived (nc_server_ssh_endpt_get_auth_methods ''ep1'')
                (\<lambda>auth. nc_server_ssh_endpt_set_auth_methods ''ep1''
                          (np2srv_ssh_update_auth_method (ex_auth_method ''passsword'' [])
                             SR_OP_CREATED auth))],
             [Derived (nc_server_ssh_endpt_get_auth_methods ''ep1'')
                (\<lambda>auth. nc_server_ssh_endpt_set_auth_methods ''ep1''
                          (np2srv_ssh_update_auth_method (ex_auth_method ''publickey'' [])
                             SR_OP_DELETED auth))]]
 \<and> np2srv_endpt_ssh_auth_methods_cb nc_mask
       (delivers ''/am/*''
          [changed SR_OP_CREATED (ex_auth_method ''passsword'' []),
           changed SR_OP_DELETED (ex_auth_method ''publickey'' [])]) ''/am''
       \<lparr>live = 5, allocs = [], trace = []\<rparr>
     = Inr (SR_ERR_OK,
            \<lparr>live = 6, allocs = [],
             trace = [Sr_get_changes_iter ''/am/*'' SR_ERR_OK,
                      Nc (nc_server_ssh_endpt_get_auth_methods ''ep1'') 5,
                      Nc (nc_server_ssh_endpt_set_auth_methods ''ep1'' 7) 0,
                      Nc (nc_server_ssh_endpt_get_auth_methods ''ep1'') 7,
                      Nc (nc_server_ssh_endpt_set_auth_methods ''ep1'' 6) 0,
                      Sr_free_change_iter ''/am/*'']\<rparr>)
 \<and> np2srv_ch_client_endpt_tcp_params_cb (nc_record (\<lambda>c. 0))
       (delivers_nested ''/tcp/*'' [changed SR_OP_CREATED ex_ch_tcp_keepalives]
          ''/tcp/keepalives/*'' [changed SR_OP_DELETED (leaf ''idle-time'' [] None)]) ''/tcp'' w0
     = Inr (SR_ERR_OK,
            \<lparr>live = [nc_server_ch_client_endpt_enable_keepalives ''cl1'' ''ep1'' 1,
                     nc_server_ch_client_endpt_set_keepalives ''cl1'' ''ep1'' 1 (- 1) (- 1)],
             allocs = [],
             trace = [Sr_get_changes_iter ''/tcp/*'' SR_ERR_OK,
                      Nc (nc_server_ch_client_endpt_enable_keepalives ''cl1'' ''ep1'' 1) 0,
                      Sr_get_changes_iter ''/tcp/keepalives/*'' SR_ERR_OK,
                      Sr_free_change_iter ''/tcp/keepalives/*'',
                      Nc (nc_server_ch_client_endpt_set_keepalives ''cl1'' ''ep1'' 1 (- 1) (- 1)) 0,
                      Sr_free_change_iter ''/tcp/*'']\<rparr>)"
proof -
  define it where "it = delivers ''/hk'' ex_hostkey_changes ''/hk''"
  have s: "delivers ''/hk'' ex_hostkey_changes ''/hk'' = it" by (simp add: it_def)
  have o: "iter_rc it = SR_ERR_OK" "iter_end it \<noteq> SR_ERR_OK"
    "iter_changes it = ex_hostkey_changes"
    by (simp_all add: it_def delivers_def)
  define ms where "ms = [[nc_server_ssh_endpt_add_hostkey ''ep1'' ''k1'' (- 1)],
             [nc_server_ssh_endpt_add_hostkey ''ep1'' ''k2'' (- 1)],
             [nc_server_ssh_endpt_add_hostkey ''ep1'' ''k3'' (- 1)]]"
  define nc where "nc = nc_record (refuse (nc_server_ssh_endpt_add_hostkey ''ep1'' ''k2'' (- 1)))"
  define res where "res = (SR_ERR_INTERNAL,
            \<lparr>live = [nc_server_ssh_endpt_add_hostkey ''ep1'' ''k1'' (- 1),
                     nc_server_ssh_endpt_add_hostkey ''ep1'' ''k2'' (- 1)],
             allocs = ([] :: bool list),
             trace = [Sr_get_changes_iter ''/hk'' SR_ERR_OK,
                      Nc (nc_server_ssh_endpt_add_hostkey ''ep1'' ''k1'' (- 1)) 0,
                      Nc (nc_server_ssh_endpt_add_hostkey ''ep1'' ''k2'' (- 1)) (- 1),
                      Sr_free_change_iter ''/hk'']\<rparr>)"
  have m: "those (map hostkey_mutation (iter_changes it)) = Some ms"
    by (simp add: o ms_def ex_hostkey_changes_def hostkey_mutation_def ex_defs)
  have cat: "concat ms = [nc_server_ssh_endpt_add_hostkey ''ep1'' ''k1'' (- 1),
        nc_server_ssh_endpt_add_hostkey ''ep1'' ''k2'' (- 1),
        nc_server_ssh_endpt_add_hostkey ''ep1'' ''k3'' (- 1)]"
    by (simp add: ms_def)
  have run: "np2srv_endpt_ssh_hostkey_cb nc (delivers ''/hk'' ex_hostkey_changes) ''/hk'' w0
     = Inr res"
    by (simp add: np2srv_endpt_ssh_hostkey_cb_def endpt_ssh_hostkey_body_def nc_def res_def
        ex_hostkey_changes_def refuse_def run_defs ex_defs)
  from scan_applies_in_order_without_undo [
      where session = "delivers ''/hk'' ex_hostkey_changes" and path = "''/hk''" and it = it
        and nc = nc and w = w0 and ms = ms, OF s o(1) o(2)]
  have "those (map hostkey_mutation (iter_changes it)) = Some ms \<longrightarrow>
      (\<exists>res. np2srv_endpt_ssh_hostkey_cb nc (delivers ''/hk'' ex_hostkey_changes) ''/hk'' w0
                = Inr res
           \<and> applied_in_order nc it ''/hk'' (concat ms) w0 res)"
    by (rule conjunct1)
  with m run have "applied_in_order nc it ''/hk'' (concat ms) w0 res" by simp
  then have a: "applied_in_order nc (delivers ''/hk'' ex_hostkey_changes ''/hk'') ''/hk''
       [nc_server_ssh_endpt_add_hostkey ''ep1'' ''k1'' (- 1),
        nc_server_ssh_endpt_add_hostkey ''ep1'' ''k2'' (- 1),
        nc_server_ssh_endpt_add_hostkey ''ep1'' ''k3'' (- 1)] w0 res"
    by (simp only: cat it_def)
  from m have m': "those (map hostkey_mutation ex_hostkey_changes)
     = Some [[nc_server_ssh_endpt_add_hostkey ''ep1'' ''k1'' (- 1)],
             [nc_server_ssh_endpt_add_hostkey ''ep1'' ''k2'' (- 1)],
             [nc_server_ssh_endpt_add_hostkey ''ep1'' ''k3'' (- 1)]]"
    by (simp only: o(3) ms_def)
  from m' run a have hk: "those (map hostkey_mutation ex_hostkey_changes)
         = Some [[nc_server_ssh_endpt_add_hostkey ''ep1'' ''k1'' (- 1)],
                 [nc_server_ssh_endpt_add_hostkey ''ep1'' ''k2'' (- 1)],
                 [nc_server_ssh_endpt_add_hostkey ''ep1'' ''k3'' (- 1)]]
     \<and> np2srv_endpt_ssh_hostkey_cb
           (nc_record (refuse (nc_server_ssh_endpt_add_hostkey ''ep1'' ''k2'' (- 1))))
           (delivers ''/hk'' ex_hostkey_changes) ''/hk'' w0
         = Inr (SR_ERR_INTERNAL,
                \<lparr>live = [nc_server_ssh_endpt_add_hostkey ''ep1'' ''k1'' (- 1),
                         nc_server_ssh_endpt_add_hostkey ''ep1'' ''k2'' (- 1)],
                 allocs = [],
                 trace = [Sr_get_changes_iter ''/hk'' SR_ERR_OK,
                          Nc (nc_server_ssh_endpt_add_hostkey ''ep1'' ''k1'' (- 1)) 0,
                          Nc (nc_server_ssh_endpt_add_hostkey ''ep1'' ''k2'' (- 1)) (- 1),
                          Sr_free_change_iter ''/hk'']\<rparr>)
     \<and> applied_in_order
           (nc_record (refuse (nc_server_ssh_endpt_add_hostkey ''ep1'' ''k2'' (- 1))))
           (delivers ''/hk'' ex_hostkey_changes ''/hk'') ''/hk''
           [nc_server_ssh_endpt_add_hostkey ''ep1'' ''k1'' (- 1),
            nc_server_ssh_endpt_add_hostkey ''ep1'' ''k2'' (- 1),
            nc_server_ssh_endpt_add_hostkey ''ep1'' ''k3'' (- 1)] w0
           (SR_ERR_INTERNAL,
                \<lparr>live = [nc_server_ssh_endpt_add_hostkey ''ep1'' ''k1'' (- 1),
                         nc_server_ssh_endpt_add_hostkey ''ep1'' ''k2'' (- 1)],
                 allocs = [],
                 trace = [Sr_get_changes_iter ''/hk'' SR_ERR_OK,
                          Nc (nc_server_ssh_endpt_add_hostkey ''ep1'' ''k1'' (- 1)) 0,
                          Nc (nc_server_ssh_endpt_add_hostkey ''ep1'' ''k2'' (- 1)) (- 1),
                          Sr_free_change_iter ''/hk'']\<rparr>)"
    by (simp only: nc_def res_def simp_thms)

  define cs where "cs = [changed SR_OP_CREATED (ex_auth_method ''passsword'' []),
       changed SR_OP_DELETED (ex_auth_method ''publickey'' [])]"
  define ss where "ss = [[Derived (nc_server_ssh_endpt_get_auth_methods ''ep1'')
                (\<lambda>auth. nc_server_ssh_endpt_set_auth_methods ''ep1''
                          (np2srv_ssh_update_auth_method (ex_auth_method ''passsword'' [])
                             SR_OP_CREATED auth))],
             [Derived (nc_server_ssh_endpt_get_auth_methods ''ep1'')
                (\<lambda>auth. nc_server_ssh_endpt_set_auth_methods ''ep1''
                          (np2srv_ssh_update_auth_method (ex_auth_method ''publickey'' [])
                             SR_OP_DELETED auth))]]"
  define wm :: "int world" where "wm = \<lparr>live = 5, allocs = [], trace = []\<rparr>"
  have ai: "delivers ''/am/*'' cs ''/am/*'' = delivers ''/am/*'' cs ''/am/*''"
    "iter_rc (delivers ''/am/*'' cs ''/am/*'') = SR_ERR_OK"
    "iter_end (delivers ''/am/*'' cs ''/am/*'') \<noteq> SR_ERR_OK"
    by (simp_all add: delivers_def)
  have am: "those (map auth_methods_steps cs) = Some ss"
    by (simp add: cs_def ss_def auth_methods_steps_def ex_auth_method_def changed_def ex_defs)
  have al: "alloc wm = (True, wm)" by (simp add: wm_def alloc_def)
  have ic: "iter_changes (delivers ''/am/*'' cs ''/am/*'') = cs" by (simp add: delivers_def)
  from scan_applies_in_order_without_undo [
      where session = "delivers ''/am/*'' cs" and path = "''/am/*''"
        and it = "delivers ''/am/*'' cs ''/am/*''" and nc = nc_mask and w = wm and w' = wm
        and xpath = "''/am''" and ss = ss, OF ai] am al ic
  have "np2srv_endpt_ssh_auth_methods_cb nc_mask (delivers ''/am/*'' cs) ''/am'' wm
      = Inr (reconciled nc_mask (delivers ''/am/*'' cs ''/am/*'') ''/am/*'' ss wm)"
    by simp
  also have "reconciled nc_mask (delivers ''/am/*'' cs ''/am/*'') ''/am/*'' ss wm
      = (SR_ERR_OK,
            \<lparr>live = 6, allocs = [],
             trace = [Sr_get_changes_iter ''/am/*'' SR_ERR_OK,
                      Nc (nc_server_ssh_endpt_get_auth_methods ''ep1'') 5,
                      Nc (nc_server_ssh_endpt_set_auth_methods ''ep1'' 7) 0,
                      Nc (nc_server_ssh_endpt_get_auth_methods ''ep1'') 7,
                      Nc (nc_server_ssh_endpt_set_auth_methods ''ep1'' 6) 0,
                      Sr_free_change_iter ''/am/*'']\<rparr>)"
    by (simp add: reconciled_def ss_def wm_def delivers_def call_def log_def nc_mask_def
        np2srv_ssh_update_auth_method_def ex_auth_method_def leaf_def
        NC_SSH_AUTH_PUBLICKEY_def NC_SSH_AUTH_PASSWORD_def)
  finally have run2: "np2srv_endpt_ssh_auth_methods_cb nc_mask (delivers ''/am/*'' cs) ''/am'' wm
      = Inr (SR_ERR_OK,
            \<lparr>live = 6, allocs = [],
             trace = [Sr_get_changes_iter ''/am/*'' SR_ERR_OK,
                      Nc (nc_server_ssh_endpt_get_auth_methods ''ep1'') 5,
                      Nc (nc_server_ssh_endpt_set_auth_methods ''ep1'' 7) 0,
                      Nc (nc_server_ssh_endpt_get_auth_methods ''ep1'') 7,
                      Nc (nc_server_ssh_endpt_set_auth_methods ''ep1'' 6) 0,
                      Sr_free_change_iter ''/am/*'']\<rparr>)" .
  define ks where "ks = delivers_nested ''/tcp/*'' [changed SR_OP_CREATED ex_ch_tcp_keepalives]
          ''/tcp/keepalives/*'' [changed SR_OP_DELETED (leaf ''idle-time'' [] None)]"
  define kss where "kss =
     [[Checked (nc_server_ch_client_endpt_enable_keepalives ''cl1'' ''ep1'' 1),
       Scanned ''/tcp/keepalives/*'',
       Checked (nc_server_ch_client_endpt_set_keepalives ''cl1'' ''ep1'' 1 (- 1) (- 1))]]"
  have ki: "ks ''/tcp/*'' = ks ''/tcp/*''" "iter_rc (ks ''/tcp/*'') = SR_ERR_OK"
    "iter_end (ks ''/tcp/*'') \<noteq> SR_ERR_OK"
    by (simp_all add: ks_def delivers_nested_def delivers_def)
  have km: "those (map (ch_tcp_params_steps ks ''/tcp'') (iter_changes (ks ''/tcp/*''))) = Some kss"
    by (simp add: ks_def kss_def delivers_nested_def delivers_def ch_tcp_params_steps_def
        keepalives_call_def keepalive_param_def ex_ch_tcp_keepalives_def ex_ch_ssh_def
        changed_def ex_defs)
  have ka: "alloc w0 = (True, w0)" "allocs w0 = []" by (simp_all add: w0_def alloc_def)
  from scan_applies_in_order_without_undo [
      where session = ks and path = "''/tcp/*''" and it = "ks ''/tcp/*''"
        and nc = "nc_record (\<lambda>c. 0)" and w = w0 and w' = w0 and xpath = "''/tcp''"
        and ss = kss, OF ki] km ka
  have "np2srv_ch_client_endpt_tcp_params_cb (nc_record (\<lambda>c. 0)) ks ''/tcp'' w0
      = Inr (reconciled (nc_record (\<lambda>c. 0)) (ks ''/tcp/*'') ''/tcp/*'' kss w0)"
    by simp
  also have "reconciled (nc_record (\<lambda>c. 0)) (ks ''/tcp/*'') ''/tcp/*'' kss w0
      = (SR_ERR_OK,
            \<lparr>live = [nc_server_ch_client_endpt_enable_keepalives ''cl1'' ''ep1'' 1,
                     nc_server_ch_client_endpt_set_keepalives ''cl1'' ''ep1'' 1 (- 1) (- 1)],
             allocs = [],
             trace = [Sr_get_changes_iter ''/tcp/*'' SR_ERR_OK,
                      Nc (nc_server_ch_client_endpt_enable_keepalives ''cl1'' ''ep1'' 1) 0,
                      Sr_get_changes_iter ''/tcp/keepalives/*'' SR_ERR_OK,
                      Sr_free_change_iter ''/tcp/keepalives/*'',
                      Nc (nc_server_ch_client_endpt_set_keepalives ''cl1'' ''ep1'' 1 (- 1) (- 1)) 0,
                      Sr_free_change_iter ''/tcp/*'']\<rparr>)"
    by (simp add: reconciled_def kss_def ks_def delivers_nested_def delivers_def call_def log_def
        nc_record_def w0_def)
  finally have run3: "np2srv_ch_client_endpt_tcp_params_cb (nc_record (\<lambda>c. 0)) ks ''/tcp'' w0
      = Inr (SR_ERR_OK,
            \<lparr>live = [nc_server_ch_client_endpt_enable_keepalives ''cl1'' ''ep1'' 1,
                     nc_server_ch_client_endpt_set_keepalives ''cl1'' ''ep1'' 1 (- 1) (- 1)],
             allocs = [],
             trace = [Sr_get_changes_iter ''/tcp/*'' SR_ERR_OK,
                      Nc (nc_server_ch_client_endpt_enable_keepalives ''cl1'' ''ep1'' 1) 0,
                      Sr_get_changes_iter ''/tcp/keepalives/*'' SR_ERR_OK,
                      Sr_free_change_iter ''/tcp/keepalives/*'',
                      Nc (nc_server_ch_client_endpt_set_keepalives ''cl1'' ''ep1'' 1 (- 1) (- 1)) 0,
                      Sr_free_change_iter ''/tcp/*'']\<rparr>)" .
  from hk am run2 run3 show ?thesis by (simp only: cs_def ss_def wm_def ks_def simp_thms)
qed

text \<open>
  Claim C8 as it is stated fails for \<open>np2srv_endpt_ssh_cb\<close>: with two created
  endpoints and a live server that refuses to set the authentication methods of the
  first, the callback goes on to the second event and returns \<open>SR_ERR_OK\<close>.
\<close>

theorem set_auth_methods_failure_ignored:
  "np2srv_endpt_ssh_cb (nc_record (refuse (nc_server_ssh_endpt_set_auth_methods ''ep1'' 0)))
      (delivers ''/ssh''
         [changed SR_OP_CREATED ex_ssh,
          changed SR_OP_CREATED (leaf ''ssh'' [] (Some (entry ''endpoint'' ''ep2'' None)))])
      ''/ssh'' w0
    = Inr (SR_ERR_OK,
           \<lparr>live = [nc_server_add_endpt ''ep1'', nc_server_ssh_endpt_set_auth_methods ''ep1'' 0,
                    nc_server_add_endpt ''ep2'', nc_server_ssh_endpt_set_auth_methods ''ep2'' 0],
            allocs = [],
            trace = [Sr_get_changes_iter ''/ssh'' SR_ERR_OK,
                     Nc (nc_server_add_endpt ''ep1'') 0,
                     Nc (nc_server_ssh_endpt_set_auth_methods ''ep1'' 0) (- 1),
                     Nc (nc_server_add_endpt ''ep2'') 0,
                     Nc (nc_server_ssh_endpt_set_auth_methods ''ep2'' 0) 0,
                     Sr_free_change_iter ''/ssh'']\<rparr>)"
  by (simp add: np2srv_endpt_ssh_cb_def endpt_ssh_body_def refuse_def run_defs ex_defs
      nc_record_def changed_def delivers_def w0_def)

subsection \<open>C9: creating and deleting live entities\<close>

text \<open>
  Claim C9. On a Created event \<open>np2srv_endpt_ssh_cb\<close> adds the endpoint and then
  sets its authentication methods to 0, and \<open>np2srv_ch_client_endpt_ssh_cb\<close> does the
  same for the endpoint of a call-home client; \<open>np2srv_ch_client_cb\<close> adds the client
  and, when that succeeded, dispatches the outbound connection. On a Deleted event
  each deletes its entity. The results are those of the add or delete call, and for the
  client of the dispatch. This holds of the body of each loop for one event, and of the
  three callbacks for every change-set whose iterator opens: each callback returns what
  \<open>reconciled\<close> says for the steps of its events, and the steps of an event are the
  calls above.
\<close>

theorem lifecycle_events:
  "(oper c = SR_OP_CREATED \<and> list_key 1 (node c) = Some ep \<longrightarrow>
      (\<exists>r1 s1 r2 s2.
         nc (nc_server_add_endpt ep) (live w) = (r1, s1)
       \<and> nc (nc_server_ssh_endpt_set_auth_methods ep 0) s1 = (r2, s2)
       \<and> endpt_ssh_body nc xpath c w =
           Inr (if r1 \<noteq> 0 then Some SR_ERR_INTERNAL else None,
                w\<lparr>live := s2,
                  trace := trace w @ [Nc (nc_server_add_endpt ep) r1,
                                      Nc (nc_server_ssh_endpt_set_auth_methods ep 0) r2]
                           @ (if r1 \<noteq> 0 then [Sr_free_change_iter xpath] else [])\<rparr>)))
 \<and> (oper c = SR_OP_CREATED \<and> list_key 1 (node c) = Some ep \<and> list_key 3 (node c) = Some cl \<longrightarrow>
      (\<exists>r1 s1 r2 s2.
         nc (nc_server_ch_client_add_endpt cl ep) (live w) = (r1, s1)
       \<and> nc (nc_server_ssh_ch_client_endpt_set_auth_methods cl ep 0) s1 = (r2, s2)
       \<and> ch_client_endpt_ssh_body nc xpath c w =
           Inr (if r1 \<noteq> 0 then Some SR_ERR_INTERNAL else None,
                w\<lparr>live := s2,
                  trace := trace w @ [Nc (nc_server_ch_client_add_endpt cl ep) r1,
                                      Nc (nc_server_ssh_ch_client_endpt_set_auth_methods cl ep 0) r2]
                           @ (if r1 \<noteq> 0 then [Sr_free_change_iter xpath] else [])\<rparr>)))
 \<and> (oper c = SR_OP_CREATED \<and> child (node c) = Some k \<longrightarrow>
      (\<exists>r1 s1 r2 s2.
         nc (nc_server_ch_add_client (value_str k)) (live w) = (r1, s1)
       \<and> nc (nc_connect_ch_client_dispatch (value_str k)) s1 = (r2, s2)
       \<and> ch_client_body nc xpath c w =
           (if r1 \<noteq> 0
            then Inr (Some SR_ERR_INTERNAL,
                      w\<lparr>live := s1,
                        trace := trace w @ [Nc (nc_server_ch_add_client (value_str k)) r1,
                                            Sr_free_change_iter xpath]\<rparr>)
            else Inr (if r2 \<noteq> 0 then Some SR_ERR_INTERNAL else None,
                      w\<lparr>live := s2,
                        trace := trace w @ [Nc (nc_server_ch_add_client (value_str k)) 0,
                                            Nc (nc_connect_ch_client_dispatch (value_str k)) r2]
                                 @ (if r2 \<noteq> 0 then [Sr_free_change_iter xpath] else [])\<rparr>))))
 \<and> (oper c = SR_OP_DELETED \<and> list_key 1 (node c) = Some ep \<longrightarrow>
      (\<exists>r s.
         nc (nc_server_del_endpt ep) (live w) = (r, s)
       \<and> endpt_ssh_body nc xpath c w =
           Inr (if r \<noteq> 0 then Some SR_ERR_INTERNAL else None,
                w\<lparr>live := s,
                  trace := trace w @ [Nc (nc_server_del_endpt ep) r]
                           @ (if r \<noteq> 0 then [Sr_free_change_iter xpath] else [])\<rparr>)))
 \<and> (oper c = SR_OP_DELETED \<and> list_key 1 (node c) = Some ep \<and> list_key 3 (node c) = Some cl \<longrightarrow>
      (\<exists>r s.
         nc (nc_server_ch_client_del_endpt cl ep) (live w) = (r, s)
       \<and> ch_client_endpt_ssh_body nc xpath c w =
           Inr (if r \<noteq> 0 then Some SR_ERR_INTERNAL else None,
                w\<lparr>live := s,
                  trace := trace w @ [Nc (nc_server_ch_client_del_endpt cl ep) r]
                           @ (if r \<noteq> 0 then [Sr_free_change_iter xpath] else [])\<rparr>)))
 \<and> (oper c = SR_OP_DELETED \<and> child (node c) = Some k \<longrightarrow>
      (\<exists>r s.
         nc (nc_server_ch_del_client (value_str k)) (live w) = (r, s)
       \<and> ch_client_body nc xpath c w =
           Inr (if r \<noteq> 0 then Some SR_ERR_INTERNAL else None,
                w\<lparr>live := s,
                  trace := trace w @ [Nc (nc_server_ch_del_client (value_str k)) r]
                           @ (if r \<noteq> 0 then [Sr_free_change_iter xpath] else [])\<rparr>)))
 \<and> (session path = it \<and> iter_rc it = SR_ERR_OK \<longrightarrow>
      (those (map endpt_ssh_steps (iter_changes it)) = Some ms \<longrightarrow>
         np2srv_endpt_ssh_cb nc session path w = Inr (reconciled nc it path ms w))
    \<and> (those (map ch_client_endpt_ssh_steps (iter_changes it)) = Some ms \<longrightarrow>
         np2srv_ch_client_endpt_ssh_cb nc session path w = Inr (reconciled nc it path ms w))
    \<and> (those (map ch_client_steps (iter_changes it)) = Some ms \<longrightarrow>
         np2srv_ch_client_cb nc session path w = Inr (reconciled nc it path ms w)))
 \<and> (list_key 1 (node c) = Some ep \<longrightarrow>
      endpt_ssh_steps c =
        Some (if oper c = SR_OP_CREATED
              then [Deferred (nc_server_add_endpt ep),
                    Unchecked (nc_server_ssh_endpt_set_auth_methods ep 0)]
              else if oper c = SR_OP_DELETED then [Checked (nc_server_del_endpt ep)]
              else []))
 \<and> (list_key 1 (node c) = Some ep \<and> list_key 3 (node c) = Some cl \<longrightarrow>
      ch_client_endpt_ssh_steps c =
        Some (if oper c = SR_OP_CREATED
              then [Deferred (nc_server_ch_client_add_endpt cl ep),
                    Unchecked (nc_server_ssh_ch_client_endpt_set_auth_methods cl ep 0)]
              else if oper c = SR_OP_DELETED
              then [Checked (nc_server_ch_client_del_endpt cl ep)]
              else []))
 \<and> (child (node c) = Some k \<longrightarrow>
      ch_client_steps c =
        Some (if oper c = SR_OP_CREATED
              then [Checked (nc_server_ch_add_client (value_str k)),
                    Checked (nc_connect_ch_client_dispatch (value_str k))]
              else if oper c = SR_OP_DELETED
              then [Checked (nc_server_ch_del_client (value_str k))]
              else []))"
proof -
  have old: "(oper c = SR_OP_CREATED \<and> list_key 1 (node c) = Some ep \<longrightarrow>
      (\<exists>r1 s1 r2 s2.
         nc (nc_server_add_endpt ep) (live w) = (r1, s1)
       \<and> nc (nc_server_ssh_endpt_set_auth_methods ep 0) s1 = (r2, s2)
       \<and> endpt_ssh_body nc xpath c w =
           Inr (if r1 \<noteq> 0 then Some SR_ERR_INTERNAL else None,
                w\<lparr>live := s2,
                  trace := trace w @ [Nc (nc_server_add_endpt ep) r1,
                                      Nc (nc_server_ssh_endpt_set_auth_methods ep 0) r2]
                           @ (if r1 \<noteq> 0 then [Sr_free_change_iter xpath] else [])\<rparr>)))
 \<and> (oper c = SR_OP_CREATED \<and> list_key 1 (node c) = Some ep \<and> list_key 3 (node c) = Some cl \<longrightarrow>
      (\<exists>r1 s1 r2 s2.
         nc (nc_server_ch_client_add_endpt cl ep) (live w) = (r1, s1)
       \<and> nc (nc_server_ssh_ch_client_endpt_set_auth_methods cl ep 0) s1 = (r2, s2)
       \<and> ch_client_endpt_ssh_body nc xpath c w =
           Inr (if r1 \<noteq> 0 then Some SR_ERR_INTERNAL else None,
                w\<lparr>live := s2,
                  trace := trace w @ [Nc (nc_server_ch_client_add_endpt cl ep) r1,
                                      Nc (nc_server_ssh_ch_client_endpt_set_auth_methods cl ep 0) r2]
                           @ (if r1 \<noteq> 0 then [Sr_free_change_iter xpath] else [])\<rparr>)))
 \<and> (oper c = SR_OP_CREATED \<and> child (node c) = Some k \<longrightarrow>
      (\<exists>r1 s1 r2 s2.
         nc (nc_server_ch_add_client (value_str k)) (live w) = (r1, s1)
       \<and> nc (nc_connect_ch_client_dispatch (value_str k)) s1 = (r2, s2)
       \<and> ch_client_body nc xpath c w =
           (if r1 \<noteq> 0
            then Inr (Some SR_ERR_INTERNAL,
                      w\<lparr>live := s1,
                        trace := trace w @ [Nc (nc_server_ch_add_client (value_str k)) r1,
                                            Sr_free_change_iter xpath]\<rparr>)
            else Inr (if r2 \<noteq> 0 then Some SR_ERR_INTERNAL else None,
                      w\<lparr>live := s2,
                        trace := trace w @ [Nc (nc_server_ch_add_client (value_str k)) 0,
                                            Nc (nc_connect_ch_client_dispatch (value_str k)) r2]
                                 @ (if r2 \<noteq> 0 then [Sr_free_change_iter xpath] else [])\<rparr>))))
 \<and> (oper c = SR_OP_DELETED \<and> list_key 1 (node c) = Some ep \<longrightarrow>
      (\<exists>r s.
         nc (nc_server_del_endpt ep) (live w) = (r, s)
       \<and> endpt_ssh_body nc xpath c w =
           Inr (if r \<noteq> 0 then Some SR_ERR_INTERNAL else None,
                w\<lparr>live := s,
                  trace := trace w @ [Nc (nc_server_del_endpt ep) r]
                           @ (if r \<noteq> 0 then [Sr_free_change_iter xpath] else [])\<rparr>)))
 \<and> (oper c = SR_OP_DELETED \<and> list_key 1 (node c) = Some ep \<and> list_key 3 (node c) = Some cl \<longrightarrow>
      (\<exists>r s.
         nc (nc_server_ch_client_del_endpt cl ep) (live w) = (r, s)
       \<and> ch_client_endpt_ssh_body nc xpath c w =
           Inr (if r \<noteq> 0 then Some SR_ERR_INTERNAL else None,
                w\<lparr>live := s,
                  trace := trace w @ [Nc (nc_server_ch_client_del_endpt cl ep) r]
                           @ (if r \<noteq> 0 then [Sr_free_change_iter xpath] else [])\<rparr>)))
 \<and> (oper c = SR_OP_DELETED \<and> child (node c) = Some k \<longrightarrow>
      (\<exists>r s.
         nc (nc_server_ch_del_client (value_str k)) (live w) = (r, s)
       \<and> ch_client_body nc xpath c w =
           Inr (if r \<noteq> 0 then Some SR_ERR_INTERNAL else None,
                w\<lparr>live := s,
                  trace := trace w @ [Nc (nc_server_ch_del_client (value_str k)) r]
                           @ (if r \<noteq> 0 then [Sr_free_change_iter xpath] else [])\<rparr>)))"
  proof (intro conjI impI; elim conjE)
    assume "oper c = SR_OP_CREATED" and "list_key 1 (node c) = Some ep"
    then show "\<exists>r1 s1 r2 s2.
         nc (nc_server_add_endpt ep) (live w) = (r1, s1)
       \<and> nc (nc_server_ssh_endpt_set_auth_methods ep 0) s1 = (r2, s2)
       \<and> endpt_ssh_body nc xpath c w =
           Inr (if r1 \<noteq> 0 then Some SR_ERR_INTERNAL else None,
                w\<lparr>live := s2,
                  trace := trace w @ [Nc (nc_server_add_endpt ep) r1,
                                      Nc (nc_server_ssh_endpt_set_auth_methods ep 0) r2]
                           @ (if r1 \<noteq> 0 then [Sr_free_change_iter xpath] else [])\<rparr>)"
      by (rule endpt_ssh_created)
  qed (rule ch_client_endpt_ssh_created ch_client_created lifecycle_deleted; assumption)+
  have handlers: "session path = it \<and> iter_rc it = SR_ERR_OK \<longrightarrow>
      (those (map endpt_ssh_steps (iter_changes it)) = Some ms \<longrightarrow>
         np2srv_endpt_ssh_cb nc session path w = Inr (reconciled nc it path ms w))
    \<and> (those (map ch_client_endpt_ssh_steps (iter_changes it)) = Some ms \<longrightarrow>
         np2srv_ch_client_endpt_ssh_cb nc session path w = Inr (reconciled nc it path ms w))
    \<and> (those (map ch_client_steps (iter_changes it)) = Some ms \<longrightarrow>
         np2srv_ch_client_cb nc session path w = Inr (reconciled nc it path ms w))"
    using lifecycle_handlers [of session path it ms nc w] by blast
  have steps: "(list_key 1 (node c) = Some ep \<longrightarrow>
      endpt_ssh_steps c =
        Some (if oper c = SR_OP_CREATED
              then [Deferred (nc_server_add_endpt ep),
                    Unchecked (nc_server_ssh_endpt_set_auth_methods ep 0)]
              else if oper c = SR_OP_DELETED then [Checked (nc_server_del_endpt ep)]
              else []))
 \<and> (list_key 1 (node c) = Some ep \<and> list_key 3 (node c) = Some cl \<longrightarrow>
      ch_client_endpt_ssh_steps c =
        Some (if oper c = SR_OP_CREATED
              then [Deferred (nc_server_ch_client_add_endpt cl ep),
                    Unchecked (nc_server_ssh_ch_client_endpt_set_auth_methods cl ep 0)]
              else if oper c = SR_OP_DELETED
              then [Checked (nc_server_ch_client_del_endpt cl ep)]
              else []))
 \<and> (child (node c) = Some k \<longrightarrow>
      ch_client_steps c =
        Some (if oper c = SR_OP_CREATED
              then [Checked (nc_server_ch_add_client (value_str k)),
                    Checked (nc_connect_ch_client_dispatch (value_str k))]
              else if oper c = SR_OP_DELETED
              then [Checked (nc_server_ch_del_client (value_str k))]
              else []))"
    by (simp add: endpt_ssh_steps_def ch_client_endpt_ssh_steps_def ch_client_steps_def)
  from old handlers steps show ?thesis by (elim conjE) (intro conjI; assumption)
qed


text \<open>
  The theorem for the endpoint \<open>ep1\<close> created and deleted and the client \<open>cl1\<close>
  created, on a live server that accepts every call, for one event and for the
  callbacks; and for the client \<open>cl1\<close> created on a live server that refuses to add
  it, where no connection is dispatched.
\<close>

theorem lifecycle_events_witness:
  "endpt_ssh_body (nc_record (\<lambda>c. 0)) ''/ssh'' (changed SR_OP_CREATED ex_ssh) w0
     = Inr (None, \<lparr>live = [nc_server_add_endpt ''ep1'',
                            nc_server_ssh_endpt_set_auth_methods ''ep1'' 0],
                   allocs = [],
                   trace = [Nc (nc_server_add_endpt ''ep1'') 0,
                            Nc (nc_server_ssh_endpt_set_auth_methods ''ep1'' 0) 0]\<rparr>)
 \<and> ch_client_body (nc_record (\<lambda>c. 0)) ''/cl'' (changed SR_OP_CREATED ex_client) w0
     = Inr (None, \<lparr>live = [nc_server_ch_add_client ''cl1'', nc_connect_ch_client_dispatch ''cl1''],
                   allocs = [],
                   trace = [Nc (nc_server_ch_add_client ''cl1'') 0,
                            Nc (nc_connect_ch_client_dispatch ''cl1'') 0]\<rparr>)
 \<and> endpt_ssh_body (nc_record (\<lambda>c. 0)) ''/ssh'' (changed SR_OP_DELETED ex_ssh) w0
     = Inr (None, \<lparr>live = [nc_server_del_endpt ''ep1''], allocs = [],
                   trace = [Nc (nc_server_del_endpt ''ep1'') 0]\<rparr>)
 \<and> np2srv_endpt_ssh_cb (nc_record (\<lambda>c. 0))
       (delivers ''/ssh'' [changed SR_OP_CREATED ex_ssh, changed SR_OP_DELETED ex_ssh]) ''/ssh'' w0
     = Inr (SR_ERR_OK,
            \<lparr>live = [nc_server_add_endpt ''ep1'', nc_server_ssh_endpt_set_auth_methods ''ep1'' 0,
                     nc_server_del_endpt ''ep1''],
             allocs = [],
             trace = [Sr_get_changes_iter ''/ssh'' SR_ERR_OK,
                      Nc (nc_server_add_endpt ''ep1'') 0,
                      Nc (nc_server_ssh_endpt_set_auth_methods ''ep1'' 0) 0,
                      Nc (nc_server_del_endpt ''ep1'') 0,
                      Sr_free_change_iter ''/ssh'']\<rparr>)
 \<and> np2srv_ch_client_endpt_ssh_cb (nc_record (\<lambda>c. 0))
       (delivers ''/ssh'' [changed SR_OP_CREATED ex_ch_ssh]) ''/ssh'' w0
     = Inr (SR_ERR_OK,
            \<lparr>live = [nc_server_ch_client_add_endpt ''cl1'' ''ep1'',
                     nc_server_ssh_ch_client_endpt_set_auth_methods ''cl1'' ''ep1'' 0],
             allocs = [],
             trace = [Sr_get_changes_iter ''/ssh'' SR_ERR_OK,
                      Nc (nc_server_ch_client_add_endpt ''cl1'' ''ep1'') 0,
                      Nc (nc_server_ssh_ch_client_endpt_set_auth_methods ''cl1'' ''ep1'' 0) 0,
                      Sr_free_change_iter ''/ssh'']\<rparr>)
 \<and> np2srv_ch_client_cb (nc_record (refuse (nc_server_ch_add_client ''cl1'')))
       (delivers ''/cl'' [changed SR_OP_CREATED ex_client]) ''/cl'' w0
     = Inr (SR_ERR_INTERNAL,
            \<lparr>live = [nc_server_ch_add_client ''cl1''], allocs = [],
             trace = [Sr_get_changes_iter ''/cl'' SR_ERR_OK,
                      Nc (nc_server_ch_add_client ''cl1'') (- 1),
                      Sr_free_change_iter ''/cl'']\<rparr>)"
proof -
  have k: "\<And>opr. list_key 1 (node (changed opr ex_ssh)) = Some ''ep1''"
    "\<And>opr. child (node (changed opr ex_client)) = Some (leaf ''name'' ''cl1'' None)"
    by (simp_all add: ex_defs)
  have o: "\<And>opr n. oper (changed opr n) = opr" by (simp add: changed_def)
  have v: "value_str (leaf ''name'' ''cl1'' None) = ''cl1''" by (simp add: leaf_def)
  note t = lifecycle_events [where ep = "''ep1''" and cl = "''cl1''"
      and k = "leaf ''name'' ''cl1'' None"]
  note b = t [where nc = "nc_record (\<lambda>c. 0)" and w = w0]
  from b [where c = "changed SR_OP_CREATED ex_ssh" and xpath = "''/ssh''"] k o
  have "endpt_ssh_body (nc_record (\<lambda>c. 0)) ''/ssh'' (changed SR_OP_CREATED ex_ssh) w0
     = Inr (None, \<lparr>live = [nc_server_add_endpt ''ep1'',
                            nc_server_ssh_endpt_set_auth_methods ''ep1'' 0],
                   allocs = [],
                   trace = [Nc (nc_server_add_endpt ''ep1'') 0,
                            Nc (nc_server_ssh_endpt_set_auth_methods ''ep1'' 0) 0]\<rparr>)"
    by (auto simp: nc_record_def w0_def)
  moreover
  from b [where c = "changed SR_OP_CREATED ex_client" and xpath = "''/cl''"] k o v
  have "ch_client_body (nc_record (\<lambda>c. 0)) ''/cl'' (changed SR_OP_CREATED ex_client) w0
     = Inr (None, \<lparr>live = [nc_server_ch_add_client ''cl1'', nc_connect_ch_client_dispatch ''cl1''],
                   allocs = [],
                   trace = [Nc (nc_server_ch_add_client ''cl1'') 0,
                            Nc (nc_connect_ch_client_dispatch ''cl1'') 0]\<rparr>)"
    by (auto simp: nc_record_def w0_def)
  moreover
  from b [where c = "changed SR_OP_DELETED ex_ssh" and xpath = "''/ssh''"] k o
  have "endpt_ssh_body (nc_record (\<lambda>c. 0)) ''/ssh'' (changed SR_OP_DELETED ex_ssh) w0
     = Inr (None, \<lparr>live = [nc_server_del_endpt ''ep1''], allocs = [],
                   trace = [Nc (nc_server_del_endpt ''ep1'') 0]\<rparr>)"
    by (auto simp: nc_record_def w0_def)
  moreover
  have i1: "iter_rc (delivers ''/ssh'' [changed SR_OP_CREATED ex_ssh, changed SR_OP_DELETED ex_ssh]
              ''/ssh'') = SR_ERR_OK"
    and s1: "those (map endpt_ssh_steps
               (iter_changes (delivers ''/ssh''
                  [changed SR_OP_CREATED ex_ssh, changed SR_OP_DELETED ex_ssh] ''/ssh'')))
             = Some [[Deferred (nc_server_add_endpt ''ep1''),
                      Unchecked (nc_server_ssh_endpt_set_auth_methods ''ep1'' 0)],
                     [Checked (nc_server_del_endpt ''ep1'')]]"
    by (simp_all add: delivers_def endpt_ssh_steps_def ex_defs)
  from b [where session = "delivers ''/ssh'' [changed SR_OP_CREATED ex_ssh, changed SR_OP_DELETED ex_ssh]"
      and path = "''/ssh''"
      and it = "delivers ''/ssh'' [changed SR_OP_CREATED ex_ssh, changed SR_OP_DELETED ex_ssh] ''/ssh''"
      and ms = "[[Deferred (nc_server_add_endpt ''ep1''),
                      Unchecked (nc_server_ssh_endpt_set_auth_methods ''ep1'' 0)],
                     [Checked (nc_server_del_endpt ''ep1'')]]"] i1 s1
  have "np2srv_endpt_ssh_cb (nc_record (\<lambda>c. 0))
       (delivers ''/ssh'' [changed SR_OP_CREATED ex_ssh, changed SR_OP_DELETED ex_ssh]) ''/ssh'' w0
     = Inr (reconciled (nc_record (\<lambda>c. 0))
              (delivers ''/ssh'' [changed SR_OP_CREATED ex_ssh, changed SR_OP_DELETED ex_ssh] ''/ssh'')
              ''/ssh''
              [[Deferred (nc_server_add_endpt ''ep1''),
                Unchecked (nc_server_ssh_endpt_set_auth_methods ''ep1'' 0)],
               [Checked (nc_server_del_endpt ''ep1'')]] w0)"
    by simp
  moreover
  have i2: "iter_rc (delivers ''/ssh'' [changed SR_OP_CREATED ex_ch_ssh] ''/ssh'') = SR_ERR_OK"
    and s2: "those (map ch_client_endpt_ssh_steps
               (iter_changes (delivers ''/ssh'' [changed SR_OP_CREATED ex_ch_ssh] ''/ssh'')))
             = Some [[Deferred (nc_server_ch_client_add_endpt ''cl1'' ''ep1''),
                      Unchecked (nc_server_ssh_ch_client_endpt_set_auth_methods ''cl1'' ''ep1'' 0)]]"
    by (simp_all add: delivers_def ch_client_endpt_ssh_steps_def ex_ch_ssh_def ex_defs)
  from b [where session = "delivers ''/ssh'' [changed SR_OP_CREATED ex_ch_ssh]"
      and path = "''/ssh''"
      and it = "delivers ''/ssh'' [changed SR_OP_CREATED ex_ch_ssh] ''/ssh''"
      and ms = "[[Deferred (nc_server_ch_client_add_endpt ''cl1'' ''ep1''),
                      Unchecked (nc_server_ssh_ch_client_endpt_set_auth_methods ''cl1'' ''ep1'' 0)]]"]
    i2 s2
  have "np2srv_ch_client_endpt_ssh_cb (nc_record (\<lambda>c. 0))
       (delivers ''/ssh'' [changed SR_OP_CREATED ex_ch_ssh]) ''/ssh'' w0
     = Inr (reconciled (nc_record (\<lambda>c. 0))
              (delivers ''/ssh'' [changed SR_OP_CREATED ex_ch_ssh] ''/ssh'') ''/ssh''
              [[Deferred (nc_server_ch_client_add_endpt ''cl1'' ''ep1''),
                Unchecked (nc_server_ssh_ch_client_endpt_set_auth_methods ''cl1'' ''ep1'' 0)]] w0)"
    by simp
  moreover
  have i3: "iter_rc (delivers ''/cl'' [changed SR_OP_CREATED ex_client] ''/cl'') = SR_ERR_OK"
    and s3: "those (map ch_client_steps
               (iter_changes (delivers ''/cl'' [changed SR_OP_CREATED ex_client] ''/cl'')))
             = Some [[Checked (nc_server_ch_add_client ''cl1''),
                      Checked (nc_connect_ch_client_dispatch ''cl1'')]]"
    by (simp_all add: delivers_def ch_client_steps_def ex_defs)
  from t [where nc = "nc_record (refuse (nc_server_ch_add_client ''cl1''))" and w = w0
      and session = "delivers ''/cl'' [changed SR_OP_CREATED ex_client]"
      and path = "''/cl''"
      and it = "delivers ''/cl'' [changed SR_OP_CREATED ex_client] ''/cl''"
      and ms = "[[Checked (nc_server_ch_add_client ''cl1''),
                      Checked (nc_connect_ch_client_dispatch ''cl1'')]]"] i3 s3
  have "np2srv_ch_client_cb (nc_record (refuse (nc_server_ch_add_client ''cl1'')))
       (delivers ''/cl'' [changed SR_OP_CREATED ex_client]) ''/cl'' w0
     = Inr (reconciled (nc_record (refuse (nc_server_ch_add_client ''cl1'')))
              (delivers ''/cl'' [changed SR_OP_CREATED ex_client] ''/cl'') ''/cl''
              [[Checked (nc_server_ch_add_client ''cl1''),
                Checked (nc_connect_ch_client_dispatch ''cl1'')]] w0)"
    by simp
  ultimately show ?thesis
    by (simp add: reconciled_def delivers_def call_def log_def nc_record_def refuse_def w0_def)
qed



subsection \<open>C10: the buffer of the key name\<close>



end
